theory Spec2Isabelle
  imports Main "HOL-Library.Word" "HOL-Library.Signed_Division"
begin

unbundle bit_operations_syntax

section \<open>Common types of the TCP/IP stack\<close>

text \<open>
  The three address-acquisition engines of the stack (the DHCPv4 client of
  \<^verbatim>\<open>dhcp_client.c\<close>, the DHCPv6 client of \<^verbatim>\<open>dhcpv6_client.c\<close> and the SLAAC
  engine of \<^verbatim>\<open>slaac.c\<close>) are embedded as functions on records. The target is a
  32-bit microcontroller: \<^verbatim>\<open>systime_t\<close>, \<^verbatim>\<open>uint32_t\<close>, \<^verbatim>\<open>uint_t\<close> and
  \<^verbatim>\<open>size_t\<close> values that take part in wrapping arithmetic are 32-bit words.
  A C buffer given as a pointer and a length is one byte list.
\<close>

type_synonym byte = "8 word"
type_synonym uint16_t = "16 word"
type_synonym uint32_t = "32 word"
type_synonym systime_t = "32 word"

datatype error_t =
    NO_ERROR
  | ERROR_INVALID_PARAMETER
  | ERROR_OUT_OF_RESOURCES
  | ERROR_OUT_OF_MEMORY
  | ERROR_INVALID_MESSAGE
  | ERROR_INVALID_OPTION
  | ERROR_NO_ADDRESS
  | ERROR_FAILURE

text \<open>Big-endian value of a byte string: what \<^verbatim>\<open>ntohs\<close>, \<^verbatim>\<open>ntohl\<close>, \<^verbatim>\<open>LOAD16BE\<close>,
  \<^verbatim>\<open>LOAD24BE\<close> and \<^verbatim>\<open>LOAD32BE\<close> read from a field laid out in network order.\<close>

definition be16 :: "byte list \<Rightarrow> uint16_t" where
  "be16 bs = foldl (\<lambda>acc b. push_bit 8 acc OR ucast b) 0 (take 2 bs)"

definition be32 :: "byte list \<Rightarrow> uint32_t" where
  "be32 bs = foldl (\<lambda>acc b. push_bit 8 acc OR ucast b) 0 (take 4 bs)"

definition be24 :: "byte list \<Rightarrow> uint32_t" where
  "be24 bs = foldl (\<lambda>acc b. push_bit 8 acc OR ucast b) 0 (take 3 bs)"

text \<open>\<^verbatim>\<open>htons\<close>, \<^verbatim>\<open>htonl\<close> and \<^verbatim>\<open>STORE24BE\<close>: the bytes that the converted value
  occupies in the message, most significant byte first.\<close>

definition htons :: "uint16_t \<Rightarrow> byte list" where
  "htons x = [ucast (drop_bit 8 x), ucast x]"

definition htonl :: "uint32_t \<Rightarrow> byte list" where
  "htonl x = [ucast (drop_bit 24 x), ucast (drop_bit 16 x), ucast (drop_bit 8 x), ucast x]"

definition STORE24BE :: "uint32_t \<Rightarrow> byte list" where
  "STORE24BE x = [ucast (drop_bit 16 x), ucast (drop_bit 8 x), ucast x]"

text \<open>Modelled from the spec: the macro \<^verbatim>\<open>timeCompare\<close> of the OS port is not among
  the sources; the spec gives it as the wrap-safe signed difference of two readings of
  the 32-bit millisecond counter.\<close>

definition timeCompare :: "systime_t \<Rightarrow> systime_t \<Rightarrow> int" where
  "timeCompare t1 t2 = sint (t1 - t2)"

text \<open>What a call reads from its surroundings: the system time (one reading per call,
  the clock does not advance while the call runs), the results of the first and of the
  second call of \<^verbatim>\<open>netGetRand\<close>, and whether \<^verbatim>\<open>udpAllocBuffer\<close> finds a buffer.\<close>

record env =
  osGetSystemTime :: systime_t
  netGetRand1 :: uint32_t
  netGetRand2 :: uint32_t
  udpAllocBuffer :: bool
  osCreateMutex :: bool
  udpAttachRxCallback :: error_t

text \<open>Constants and helpers of the stack whose headers and sources are not among the
  sources of the repository (\<^verbatim>\<open>dhcp_client.h\<close>, \<^verbatim>\<open>dhcp_common.h\<close>,
  \<^verbatim>\<open>dhcpv6_common.h\<close>, \<^verbatim>\<open>ipv4.h\<close>, \<^verbatim>\<open>ipv6.h\<close>, \<^verbatim>\<open>dns_common.c\<close>): they are
  parameters of the model.\<close>

record config =
  DHCP_CLIENT_MAX_HOSTNAME_LEN :: nat
  DHCP_CLIENT_INIT_DELAY :: uint32_t
  DHCP_CLIENT_DISCOVER_INIT_RT :: uint32_t
  DHCP_CLIENT_DISCOVER_MAX_RT :: uint32_t
  DHCP_CLIENT_REQUEST_INIT_RT :: uint32_t
  DHCP_CLIENT_REQUEST_MAX_RT :: uint32_t
  DHCP_CLIENT_REQUEST_MAX_RC :: uint32_t
  DHCP_CLIENT_REQUEST_MIN_DELAY :: uint32_t
  DHCP_CLIENT_RAND_FACTOR :: uint32_t
  DHCP_MAX_MSG_SIZE :: nat
  IPV4_MAX_DNS_SERVERS :: nat
  IPV4_DEFAULT_TTL :: nat
  DHCPV6_MAX_DUID_SIZE :: nat
  IPV6_MAX_DNS_SERVERS :: nat
  dnsEncodeName :: "string \<Rightarrow> byte list"

text \<open>What a call does to its surroundings, in the order in which it happens:
  datagrams handed to \<^verbatim>\<open>udpSendDatagramEx\<close>, NDP transmissions, and invocations of the
  callbacks registered by the user. A callback is an observer: it is recorded and
  does not write to the context.\<close>

datatype 'm event =
    UdpSendDatagram nat "byte list" nat 'm nat
  | NdpSendRouterSol
  | NdpSendNeighborSol "byte list" bool
  | UdpAttachRxCallback nat
  | StateChangeEvent nat
  | TimeoutEvent
  | LinkChangeEvent bool
  | ParseRouterAdvCallback 'm nat

text \<open>The events that put a datagram on the link: \<^verbatim>\<open>udpSendDatagramEx\<close> (source
  port, destination address, destination port, message, TTL), \<^verbatim>\<open>ndpSendRouterSol\<close>
  and \<^verbatim>\<open>ndpSendNeighborSol\<close> (target, multicast).\<close>

fun is_send :: "'m event \<Rightarrow> bool" where
  "is_send (UdpSendDatagram sp da dp m ttl) = True"
| "is_send NdpSendRouterSol = True"
| "is_send (NdpSendNeighborSol a mc) = True"
| "is_send (UdpAttachRxCallback p) = False"
| "is_send (StateChangeEvent s) = False"
| "is_send TimeoutEvent = False"
| "is_send (LinkChangeEvent l) = False"
| "is_send (ParseRouterAdvCallback m n) = False"

datatype Ipv4AddrState = IPV4_ADDR_STATE_INVALID | IPV4_ADDR_STATE_TENTATIVE | IPV4_ADDR_STATE_VALID

datatype Ipv6AddrState =
  IPV6_ADDR_STATE_INVALID | IPV6_ADDR_STATE_TENTATIVE | IPV6_ADDR_STATE_PREFERRED
  | IPV6_ADDR_STATE_VALID

record Ipv4Config =
  addr :: uint32_t
  addrState :: Ipv4AddrState
  subnetMask :: uint32_t
  defaultGateway :: uint32_t
  dnsServer :: "uint32_t list"
  mtu :: nat

record Ipv6Config =
  linkLocalAddr :: "byte list"
  linkLocalAddrState :: Ipv6AddrState
  linkLocalAddrDup :: bool
  globalAddr :: "byte list"
  globalAddrState :: Ipv6AddrState
  globalAddrDup :: bool
  prefix :: "byte list"
  prefixLength :: nat
  dnsServer6 :: "byte list list"
  retransTimer :: systime_t

text \<open>The members of \<^verbatim>\<open>NetInterface\<close> that the engines use. Its \<^verbatim>\<open>id\<close> and
  \<^verbatim>\<open>hostname\<close> members are \<open>ifId\<close> and \<open>ifHostname\<close> here; the three context
  members say whether an engine's context is attached.\<close>

record NetInterface =
  ifId :: uint32_t
  macAddr :: "byte list"
  ifHostname :: string
  linkState :: bool
  ipv4Config :: Ipv4Config
  ipv6Config :: Ipv6Config
  dhcpClientContext :: bool
  dhcpv6ClientContext :: bool
  slaacContext :: bool

text \<open>\<^verbatim>\<open>IPV6_UNSPECIFIED_ADDR\<close>, the address \<^verbatim>\<open>::\<close>.\<close>

definition IPV6_UNSPECIFIED_ADDR :: "byte list" where
  "IPV6_UNSPECIFIED_ADDR = replicate 16 0"

text \<open>Modelled from the spec: the interface configuration mutators of \<^verbatim>\<open>ipv4.c\<close> and
  \<^verbatim>\<open>ipv6.c\<close> are not among the sources; the spec lists them as setters of the
  interface's configuration fields.\<close>

definition ipv4SetHostAddrEx :: "NetInterface \<Rightarrow> uint32_t \<Rightarrow> Ipv4AddrState \<Rightarrow> NetInterface" where
  "ipv4SetHostAddrEx i a s = i\<lparr>ipv4Config := (ipv4Config i)\<lparr>addr := a, addrState := s\<rparr>\<rparr>"

definition ipv4SetSubnetMask :: "NetInterface \<Rightarrow> uint32_t \<Rightarrow> NetInterface" where
  "ipv4SetSubnetMask i m = i\<lparr>ipv4Config := (ipv4Config i)\<lparr>subnetMask := m\<rparr>\<rparr>"

definition ipv4SetMtu :: "NetInterface \<Rightarrow> nat \<Rightarrow> NetInterface" where
  "ipv4SetMtu i n = i\<lparr>ipv4Config := (ipv4Config i)\<lparr>mtu := n\<rparr>\<rparr>"

definition ipv6SetLinkLocalAddrEx :: "NetInterface \<Rightarrow> byte list \<Rightarrow> Ipv6AddrState \<Rightarrow> NetInterface" where
  "ipv6SetLinkLocalAddrEx i a s =
     i\<lparr>ipv6Config := (ipv6Config i)\<lparr>linkLocalAddr := a, linkLocalAddrState := s\<rparr>\<rparr>"

definition ipv6SetGlobalAddrEx :: "NetInterface \<Rightarrow> byte list \<Rightarrow> Ipv6AddrState \<Rightarrow> NetInterface" where
  "ipv6SetGlobalAddrEx i a s =
     i\<lparr>ipv6Config := (ipv6Config i)\<lparr>globalAddr := a, globalAddrState := s\<rparr>\<rparr>"

definition ipv6SetPrefix :: "NetInterface \<Rightarrow> byte list \<Rightarrow> nat \<Rightarrow> NetInterface" where
  "ipv6SetPrefix i p n = i\<lparr>ipv6Config := (ipv6Config i)\<lparr>prefix := p, prefixLength := n\<rparr>\<rparr>"

definition ipv6SetDnsServer :: "NetInterface \<Rightarrow> nat \<Rightarrow> byte list \<Rightarrow> NetInterface" where
  "ipv6SetDnsServer i n a =
     (if n < length (dnsServer6 (ipv6Config i))
      then i\<lparr>ipv6Config := (ipv6Config i)\<lparr>dnsServer6 := (dnsServer6 (ipv6Config i))[n := a]\<rparr>\<rparr>
      else i)"

text \<open>The part of the system that an engine's context points to: its network
  interface, and the record of what the engine has sent and called so far.\<close>

record 'm world =
  netInterface :: NetInterface
  events :: "'m event list"

definition emit :: "'m event \<Rightarrow> 'm world \<Rightarrow> 'm world" where
  "emit e w = w\<lparr>events := events w @ [e]\<rparr>"

section \<open>Settings and contexts\<close>

text \<open>A pointer to the interface being configured: \<^verbatim>\<open>NULL\<close> or the interface of
  the world record.\<close>

datatype NetInterface_ptr = NULL | NET_INTERFACE

text \<open>The settings structures of the three engines share \<^verbatim>\<open>interface\<close> and
  \<^verbatim>\<open>manualDnsConfig\<close>; those of the two DHCP clients share the rest. A callback
  member is \<open>True\<close> when a function is registered (the pointer is not \<^verbatim>\<open>NULL\<close>).
  The member \<^verbatim>\<open>timeout\<close> of the settings is \<open>timeoutS\<close>, since the context has a
  member of that name too.\<close>

record net_settings =
  interface :: NetInterface_ptr
  manualDnsConfig :: bool

record dhcp_settings = net_settings +
  rapidCommit :: bool
  timeoutS :: systime_t
  timeoutEvent :: bool
  linkChangeEvent :: bool
  stateChangeEvent :: bool

text \<open>The members that every context has (\<^verbatim>\<open>state\<close> holds the value of the C
  enumeration), and those that the two DHCP clients have in common. The mutex of a
  context is left out: an operation that takes it releases it before it returns, so
  that the operations that take it do not overlap one another. The receive path of
  the SLAAC engine takes no mutex; what may run in the middle of it is made explicit
  where \<^verbatim>\<open>slaacProcessRouterAdv\<close> is defined.\<close>

record 's engine_ctx =
  settings :: 's
  running :: bool
  state :: nat
  timestamp :: systime_t
  timeout :: systime_t
  retransmitCount :: uint32_t

record 's dhcp_ctx = "'s engine_ctx" +
  timeoutEventDone :: bool
  transactionId :: uint32_t
  configStartTime :: systime_t
  leaseStartTime :: systime_t
  t1 :: uint32_t
  t2 :: uint32_t

section \<open>DHCPv6 client\<close>

subsection \<open>Constants and option codec\<close>

definition DHCPV6_STATE_INIT :: nat where "DHCPV6_STATE_INIT = 0"
definition DHCPV6_STATE_SOLICIT :: nat where "DHCPV6_STATE_SOLICIT = 1"
definition DHCPV6_STATE_REQUEST :: nat where "DHCPV6_STATE_REQUEST = 2"
definition DHCPV6_STATE_INIT_CONFIRM :: nat where "DHCPV6_STATE_INIT_CONFIRM = 3"
definition DHCPV6_STATE_CONFIRM :: nat where "DHCPV6_STATE_CONFIRM = 4"
definition DHCPV6_STATE_BOUND :: nat where "DHCPV6_STATE_BOUND = 5"
definition DHCPV6_STATE_RENEW :: nat where "DHCPV6_STATE_RENEW = 6"
definition DHCPV6_STATE_REBIND :: nat where "DHCPV6_STATE_REBIND = 7"
definition DHCPV6_STATE_DECLINE :: nat where "DHCPV6_STATE_DECLINE = 8"

text \<open>The declared state set of the DHCPv6 client (\<^verbatim>\<open>Dhcpv6State\<close>).\<close>

definition Dhcpv6State :: "nat set" where
  "Dhcpv6State = {DHCPV6_STATE_INIT, DHCPV6_STATE_SOLICIT, DHCPV6_STATE_REQUEST,
     DHCPV6_STATE_INIT_CONFIRM, DHCPV6_STATE_CONFIRM, DHCPV6_STATE_BOUND,
     DHCPV6_STATE_RENEW, DHCPV6_STATE_REBIND, DHCPV6_STATE_DECLINE}"

text \<open>Timing parameters, from \<^verbatim>\<open>dhcpv6_client.h\<close> (milliseconds and counts).\<close>

definition DHCPV6_CLIENT_SOL_MAX_DELAY :: uint32_t where "DHCPV6_CLIENT_SOL_MAX_DELAY = 1000"
definition DHCPV6_CLIENT_SOL_TIMEOUT :: uint32_t where "DHCPV6_CLIENT_SOL_TIMEOUT = 1000"
definition DHCPV6_CLIENT_SOL_MAX_RT :: uint32_t where "DHCPV6_CLIENT_SOL_MAX_RT = 120000"
definition DHCPV6_CLIENT_REQ_TIMEOUT :: uint32_t where "DHCPV6_CLIENT_REQ_TIMEOUT = 1000"
definition DHCPV6_CLIENT_REQ_MAX_RT :: uint32_t where "DHCPV6_CLIENT_REQ_MAX_RT = 30000"
definition DHCPV6_CLIENT_REQ_MAX_RC :: uint32_t where "DHCPV6_CLIENT_REQ_MAX_RC = 10"
definition DHCPV6_CLIENT_CNF_MAX_DELAY :: uint32_t where "DHCPV6_CLIENT_CNF_MAX_DELAY = 1000"
definition DHCPV6_CLIENT_CNF_TIMEOUT :: uint32_t where "DHCPV6_CLIENT_CNF_TIMEOUT = 1000"
definition DHCPV6_CLIENT_CNF_MAX_RT :: uint32_t where "DHCPV6_CLIENT_CNF_MAX_RT = 4000"
definition DHCPV6_CLIENT_CNF_MAX_RD :: uint32_t where "DHCPV6_CLIENT_CNF_MAX_RD = 10000"
definition DHCPV6_CLIENT_REN_TIMEOUT :: uint32_t where "DHCPV6_CLIENT_REN_TIMEOUT = 10000"
definition DHCPV6_CLIENT_REN_MAX_RT :: uint32_t where "DHCPV6_CLIENT_REN_MAX_RT = 600000"
definition DHCPV6_CLIENT_REB_TIMEOUT :: uint32_t where "DHCPV6_CLIENT_REB_TIMEOUT = 10000"
definition DHCPV6_CLIENT_REB_MAX_RT :: uint32_t where "DHCPV6_CLIENT_REB_MAX_RT = 600000"
definition DHCPV6_CLIENT_DEC_TIMEOUT :: uint32_t where "DHCPV6_CLIENT_DEC_TIMEOUT = 1000"
definition DHCPV6_CLIENT_DEC_MAX_RC :: uint32_t where "DHCPV6_CLIENT_DEC_MAX_RC = 5"

definition DHCPV6_INFINITE_TIME :: uint32_t where "DHCPV6_INFINITE_TIME = 0xFFFFFFFF"

text \<open>Modelled from the spec: \<^verbatim>\<open>dhcpv6_common.h\<close> is not among the sources. The spec
  gives the codes of the DNS Servers (23), Domain List (24), FQDN (39) and IA Address (5)
  options; the other option codes, the message types and the status code are the
  values that RFC 3315, named by the spec for the wire format, assigns.\<close>

definition DHCPV6_OPTION_CLIENTID :: uint16_t where "DHCPV6_OPTION_CLIENTID = 1"
definition DHCPV6_OPTION_SERVERID :: uint16_t where "DHCPV6_OPTION_SERVERID = 2"
definition DHCPV6_OPTION_IA_NA :: uint16_t where "DHCPV6_OPTION_IA_NA = 3"
definition DHCPV6_OPTION_IAADDR :: uint16_t where "DHCPV6_OPTION_IAADDR = 5"
definition DHCPV6_OPTION_ORO :: uint16_t where "DHCPV6_OPTION_ORO = 6"
definition DHCPV6_OPTION_PREFERENCE :: uint16_t where "DHCPV6_OPTION_PREFERENCE = 7"
definition DHCPV6_OPTION_ELAPSED_TIME :: uint16_t where "DHCPV6_OPTION_ELAPSED_TIME = 8"
definition DHCPV6_OPTION_STATUS_CODE :: uint16_t where "DHCPV6_OPTION_STATUS_CODE = 13"
definition DHCPV6_OPTION_RAPID_COMMIT :: uint16_t where "DHCPV6_OPTION_RAPID_COMMIT = 14"
definition DHCPV6_OPTION_DNS_SERVERS :: uint16_t where "DHCPV6_OPTION_DNS_SERVERS = 23"
definition DHCPV6_OPTION_DOMAIN_LIST :: uint16_t where "DHCPV6_OPTION_DOMAIN_LIST = 24"
definition DHCPV6_OPTION_FQDN :: uint16_t where "DHCPV6_OPTION_FQDN = 39"

definition DHCPV6_MSG_TYPE_SOLICIT :: byte where "DHCPV6_MSG_TYPE_SOLICIT = 1"
definition DHCPV6_MSG_TYPE_ADVERTISE :: byte where "DHCPV6_MSG_TYPE_ADVERTISE = 2"
definition DHCPV6_MSG_TYPE_REQUEST :: byte where "DHCPV6_MSG_TYPE_REQUEST = 3"
definition DHCPV6_MSG_TYPE_CONFIRM :: byte where "DHCPV6_MSG_TYPE_CONFIRM = 4"
definition DHCPV6_MSG_TYPE_RENEW :: byte where "DHCPV6_MSG_TYPE_RENEW = 5"
definition DHCPV6_MSG_TYPE_REBIND :: byte where "DHCPV6_MSG_TYPE_REBIND = 6"
definition DHCPV6_MSG_TYPE_REPLY :: byte where "DHCPV6_MSG_TYPE_REPLY = 7"
definition DHCPV6_MSG_TYPE_DECLINE :: byte where "DHCPV6_MSG_TYPE_DECLINE = 9"

definition DHCPV6_STATUS_NO_ADDRS_AVAILABLE :: uint16_t where
  "DHCPV6_STATUS_NO_ADDRS_AVAILABLE = 2"

definition DHCPV6_MAX_SERVER_PREFERENCE :: int where "DHCPV6_MAX_SERVER_PREFERENCE = 255"

text \<open>An option found in a message (\<^verbatim>\<open>Dhcpv6Option\<close>, and \<^verbatim>\<open>DhcpOption\<close> of the
  DHCPv4 client with 8-bit members): \<open>optCode\<close> and \<open>optLength\<close> are the \<^verbatim>\<open>code\<close>
  and \<^verbatim>\<open>length\<close> members in host order, \<open>optValue\<close> the \<^verbatim>\<open>value\<close> bytes.\<close>

record 'c tlv_option =
  optCode :: 'c
  optLength :: 'c
  optValue :: "byte list"

type_synonym Dhcpv6Option = "uint16_t tlv_option"
type_synonym DhcpOption = "byte tlv_option"

text \<open>Modelled from the spec: \<^verbatim>\<open>dhcpv6GetOption\<close> of \<^verbatim>\<open>dhcpv6_common.c\<close> is not
  among the sources. Options are TLV with a 2-byte code and a 2-byte length, both
  big-endian; the search returns the first option with the requested code and stops
  at an option that does not fit in the buffer.\<close>

function dhcpv6GetOption :: "byte list \<Rightarrow> uint16_t \<Rightarrow> Dhcpv6Option option" where
  "dhcpv6GetOption options optionCode =
     (if length options < 4 then None
      else if length options < 4 + unat (be16 (drop 2 options)) then None
      else if be16 options = optionCode
        then Some \<lparr>optCode = be16 options, optLength = be16 (drop 2 options),
                   optValue = take (unat (be16 (drop 2 options))) (drop 4 options)\<rparr>
      else dhcpv6GetOption (drop (4 + unat (be16 (drop 2 options))) options) optionCode)"
  by pat_completeness auto
termination
  by (relation "measure (\<lambda>(options, optionCode). length options)") auto

declare dhcpv6GetOption.simps [simp del]

text \<open>Modelled from the spec: \<^verbatim>\<open>dhcpv6ParseStatusCodeOption\<close> of
  \<^verbatim>\<open>dhcpv6_common.c\<close> is not among the sources. A Status Code option, if present,
  must not be NoAddrsAvail; a message without the option is taken as a success.\<close>

definition dhcpv6ParseStatusCodeOption :: "byte list \<Rightarrow> error_t" where
  "dhcpv6ParseStatusCodeOption options =
     (case dhcpv6GetOption options DHCPV6_OPTION_STATUS_CODE of
        None \<Rightarrow> NO_ERROR
      | Some option \<Rightarrow>
          if 2 \<le> unat (optLength option)
             \<and> be16 (optValue option) = DHCPV6_STATUS_NO_ADDRS_AVAILABLE
          then ERROR_NO_ADDRESS else NO_ERROR)"

subsection \<open>Context\<close>

type_synonym Dhcpv6ClientSettings = dhcp_settings

record Dhcpv6ClientCtx = "Dhcpv6ClientSettings dhcp_ctx" +
  clientId :: "byte list"
  clientIdLength :: nat
  clientFqdn :: "byte list"
  clientFqdnLength :: nat
  clientAddr :: "byte list"
  serverId :: "byte list"
  serverIdLength :: nat
  serverPreference :: int
  exchangeStartTime :: systime_t
  preferredLifetime :: uint32_t
  validLifetime :: uint32_t

subsection \<open>IA\_NA option\<close>

text \<open>The members of \<^verbatim>\<open>Dhcpv6IaNaOption\<close> (IAID, T1, T2, then the nested options)
  and of \<^verbatim>\<open>Dhcpv6IaAddrOption\<close> (address, preferred and valid lifetime), read from
  the value of an option with \<^verbatim>\<open>ntohl\<close>.\<close>

definition iaNa_iaId :: "Dhcpv6Option \<Rightarrow> uint32_t" where
  "iaNa_iaId option = be32 (optValue option)"
definition iaNa_t1 :: "Dhcpv6Option \<Rightarrow> uint32_t" where
  "iaNa_t1 option = be32 (drop 4 (optValue option))"
definition iaNa_t2 :: "Dhcpv6Option \<Rightarrow> uint32_t" where
  "iaNa_t2 option = be32 (drop 8 (optValue option))"
definition iaNa_options :: "Dhcpv6Option \<Rightarrow> byte list" where
  "iaNa_options option = take (unat (optLength option) - 12) (drop 12 (optValue option))"

definition iaAddr_address :: "Dhcpv6Option \<Rightarrow> byte list" where
  "iaAddr_address subOption = take 16 (optValue subOption)"
definition iaAddr_preferredLifetime :: "Dhcpv6Option \<Rightarrow> uint32_t" where
  "iaAddr_preferredLifetime subOption = be32 (drop 16 (optValue subOption))"
definition iaAddr_validLifetime :: "Dhcpv6Option \<Rightarrow> uint32_t" where
  "iaAddr_validLifetime subOption = be32 (drop 20 (optValue subOption))"

definition dhcpv6ParseIaNaOption ::
  "Dhcpv6ClientCtx \<Rightarrow> NetInterface \<Rightarrow> Dhcpv6Option \<Rightarrow> error_t \<times> Dhcpv6ClientCtx" where
  "dhcpv6ParseIaNaOption context iface option =
     (if unat (optLength option) < 12 then (ERROR_INVALID_OPTION, context)
      else if iaNa_iaId option \<noteq> ifId iface then (ERROR_INVALID_OPTION, context)
      else if iaNa_t1 option > iaNa_t2 option \<and> iaNa_t2 option > 0
        then (ERROR_INVALID_OPTION, context)
      else if dhcpv6ParseStatusCodeOption (iaNa_options option) \<noteq> NO_ERROR
        then (ERROR_INVALID_OPTION, context)
      else case dhcpv6GetOption (iaNa_options option) DHCPV6_OPTION_IAADDR of
          None \<Rightarrow> (ERROR_INVALID_OPTION, context)
        | Some subOption \<Rightarrow>
            if unat (optLength subOption) < 24 then (ERROR_INVALID_OPTION, context)
            else if iaAddr_preferredLifetime subOption > iaAddr_validLifetime subOption
              then (ERROR_INVALID_OPTION, context)
            else
              let context = context\<lparr>clientAddr := iaAddr_address subOption\<rparr>;
                  context = context\<lparr>t1 := iaNa_t1 option, t2 := iaNa_t2 option\<rparr>;
                  context = context\<lparr>preferredLifetime := iaAddr_preferredLifetime subOption,
                                     validLifetime := iaAddr_validLifetime subOption\<rparr>;
                  context = (if t1 context = 0
                             then context\<lparr>t1 := preferredLifetime context div 2\<rparr>
                             else context);
                  context = (if t2 context = 0
                             then context\<lparr>t2 := t1 context + t1 context div 2\<rparr>
                             else context)
              in (NO_ERROR, context))"

subsection \<open>Randomisation and elapsed time\<close>

text \<open>Division of \<^verbatim>\<open>int32_t\<close> values: C truncates towards zero.\<close>

definition int32_div :: "uint32_t \<Rightarrow> uint32_t \<Rightarrow> uint32_t" where
  "int32_div a b = word_of_int (sint a sdiv sint b)"

text \<open>\<^verbatim>\<open>dhcpv6RandRange\<close> draws one value \<open>r\<close> from \<^verbatim>\<open>netGetRand\<close>; the remainder is
  taken on the unsigned values, as C does for \<^verbatim>\<open>uint32_t % int32_t\<close>.\<close>

definition dhcpv6RandRange :: "uint32_t \<Rightarrow> uint32_t \<Rightarrow> uint32_t \<Rightarrow> uint32_t" where
  "dhcpv6RandRange r min_v max_v = min_v + r mod (max_v - min_v + 1)"

definition dhcpv6Rand :: "uint32_t \<Rightarrow> uint32_t \<Rightarrow> uint32_t" where
  "dhcpv6Rand r v = int32_div (v * dhcpv6RandRange r (- 100) 100) 1000"

definition dhcpv6ComputeElapsedTime :: "env \<Rightarrow> Dhcpv6ClientCtx \<Rightarrow> byte list" where
  "dhcpv6ComputeElapsedTime e context =
     (let time = (0 :: uint32_t);
          time = (if retransmitCount context > 0
                  then (let time = (osGetSystemTime e - exchangeStartTime context) div 10
                        in if time > 0xFFFF then 0xFFFF else time)
                  else time)
      in htons (ucast time))"

subsection \<open>State changes and the configuration timeout\<close>

definition dhcpv6ChangeState ::
  "env \<Rightarrow> Dhcpv6ClientCtx \<Rightarrow> byte list world \<Rightarrow> nat \<Rightarrow> systime_t
     \<Rightarrow> Dhcpv6ClientCtx \<times> byte list world" where
  "dhcpv6ChangeState e context w newState delay =
     (let time = osGetSystemTime e;
          context = context\<lparr>timestamp := time\<rparr>;
          context = context\<lparr>timeout := delay\<rparr>;
          context = context\<lparr>retransmitCount := 0\<rparr>;
          context = context\<lparr>state := newState\<rparr>
      in if stateChangeEvent (settings context)
         then (context, emit (StateChangeEvent newState) w)
         else (context, w))"

definition dhcpv6CheckTimeout ::
  "env \<Rightarrow> Dhcpv6ClientCtx \<Rightarrow> byte list world \<Rightarrow> Dhcpv6ClientCtx \<times> byte list world" where
  "dhcpv6CheckTimeout e context w =
     (let time = osGetSystemTime e
      in if timeoutEvent (settings context)
            \<and> timeCompare time (configStartTime context + timeoutS (settings context)) \<ge> 0
            \<and> \<not> timeoutEventDone context
         then (context\<lparr>timeoutEventDone := True\<rparr>, emit TimeoutEvent w)
         else (context, w))"

subsection \<open>Outgoing messages\<close>

text \<open>Modelled from the spec: \<^verbatim>\<open>dhcpv6AddOption\<close> and \<^verbatim>\<open>dhcpv6AddSubOption\<close> of
  \<^verbatim>\<open>dhcpv6_common.c\<close> are not among the sources. An option is its 2-byte code, its
  2-byte length and its value, in network order; a sub-option is an option inside the
  value of another.\<close>

definition dhcpv6AddOption :: "uint16_t \<Rightarrow> byte list \<Rightarrow> byte list" where
  "dhcpv6AddOption optionCode optionValue =
     htons optionCode @ htons (word_of_nat (length optionValue)) @ optionValue"

definition dhcpv6OptionList :: "byte list" where
  "dhcpv6OptionList = htons DHCPV6_OPTION_DNS_SERVERS @ htons DHCPV6_OPTION_DOMAIN_LIST
     @ htons DHCPV6_OPTION_FQDN"

definition DHCPV6_CLIENT_PORT :: nat where "DHCPV6_CLIENT_PORT = 546"
definition DHCPV6_SERVER_PORT :: nat where "DHCPV6_SERVER_PORT = 547"

text \<open>\<^verbatim>\<open>ff02::1:2\<close>\<close>

definition DHCPV6_ALL_RELAY_AGENTS_AND_SERVERS_ADDR :: "byte list" where
  "DHCPV6_ALL_RELAY_AGENTS_AND_SERVERS_ADDR = [0xFF, 0x02, 0, 0, 0, 0, 0, 0, 0, 0, 0, 0, 0, 1, 0, 2]"

text \<open>The IA\_NA option of an outgoing message: the interface identifier, T1 and T2 of
  zero, and for the messages that name an address an IA Address sub-option with
  lifetimes of zero.\<close>

definition iaNaOption_bytes :: "NetInterface \<Rightarrow> byte list" where
  "iaNaOption_bytes iface = htonl (ifId iface) @ htonl 0 @ htonl 0"

definition iaAddrOption_bytes :: "byte list \<Rightarrow> byte list" where
  "iaAddrOption_bytes address = take 16 address @ htonl 0 @ htonl 0"

definition fqdnOption_bytes :: "Dhcpv6ClientCtx \<Rightarrow> byte list" where
  "fqdnOption_bytes context = take (1 + clientFqdnLength context) (clientFqdn context)"

text \<open>The common tail of the send functions: nothing is sent when no buffer is
  available; the callers discard the status code, which the model does not return.\<close>

definition dhcpv6Send :: "env \<Rightarrow> byte list world \<Rightarrow> byte list \<Rightarrow> byte list world" where
  "dhcpv6Send e w message =
     (if \<not> udpAllocBuffer e then w
      else emit (UdpSendDatagram DHCPV6_CLIENT_PORT DHCPV6_ALL_RELAY_AGENTS_AND_SERVERS_ADDR
                   DHCPV6_SERVER_PORT message 0) w)"

definition dhcpv6SendSolicit :: "env \<Rightarrow> Dhcpv6ClientCtx \<Rightarrow> byte list world \<Rightarrow> byte list world" where
  "dhcpv6SendSolicit e context w =
     dhcpv6Send e w
       ([DHCPV6_MSG_TYPE_SOLICIT] @ STORE24BE (transactionId context)
        @ dhcpv6AddOption DHCPV6_OPTION_CLIENTID (take (clientIdLength context) (clientId context))
        @ dhcpv6AddOption DHCPV6_OPTION_IA_NA (iaNaOption_bytes (netInterface w))
        @ dhcpv6AddOption DHCPV6_OPTION_ORO dhcpv6OptionList
        @ dhcpv6AddOption DHCPV6_OPTION_ELAPSED_TIME (dhcpv6ComputeElapsedTime e context)
        @ (if rapidCommit (settings context)
           then dhcpv6AddOption DHCPV6_OPTION_RAPID_COMMIT [] else [])
        @ dhcpv6AddOption DHCPV6_OPTION_FQDN (fqdnOption_bytes context))"

definition dhcpv6SendRequest :: "env \<Rightarrow> Dhcpv6ClientCtx \<Rightarrow> byte list world \<Rightarrow> byte list world" where
  "dhcpv6SendRequest e context w =
     dhcpv6Send e w
       ([DHCPV6_MSG_TYPE_REQUEST] @ STORE24BE (transactionId context)
        @ dhcpv6AddOption DHCPV6_OPTION_CLIENTID (take (clientIdLength context) (clientId context))
        @ dhcpv6AddOption DHCPV6_OPTION_SERVERID (take (serverIdLength context) (serverId context))
        @ dhcpv6AddOption DHCPV6_OPTION_IA_NA (iaNaOption_bytes (netInterface w))
        @ dhcpv6AddOption DHCPV6_OPTION_ORO dhcpv6OptionList
        @ dhcpv6AddOption DHCPV6_OPTION_ELAPSED_TIME (dhcpv6ComputeElapsedTime e context)
        @ dhcpv6AddOption DHCPV6_OPTION_FQDN (fqdnOption_bytes context))"

definition dhcpv6SendConfirm :: "env \<Rightarrow> Dhcpv6ClientCtx \<Rightarrow> byte list world \<Rightarrow> byte list world" where
  "dhcpv6SendConfirm e context w =
     dhcpv6Send e w
       ([DHCPV6_MSG_TYPE_CONFIRM] @ STORE24BE (transactionId context)
        @ dhcpv6AddOption DHCPV6_OPTION_CLIENTID (take (clientIdLength context) (clientId context))
        @ dhcpv6AddOption DHCPV6_OPTION_IA_NA
            (iaNaOption_bytes (netInterface w)
             @ dhcpv6AddOption DHCPV6_OPTION_IAADDR (iaAddrOption_bytes (clientAddr context)))
        @ dhcpv6AddOption DHCPV6_OPTION_ORO dhcpv6OptionList
        @ dhcpv6AddOption DHCPV6_OPTION_ELAPSED_TIME (dhcpv6ComputeElapsedTime e context)
        @ dhcpv6AddOption DHCPV6_OPTION_FQDN (fqdnOption_bytes context))"

definition dhcpv6SendRenew :: "env \<Rightarrow> Dhcpv6ClientCtx \<Rightarrow> byte list world \<Rightarrow> byte list world" where
  "dhcpv6SendRenew e context w =
     dhcpv6Send e w
       ([DHCPV6_MSG_TYPE_RENEW] @ STORE24BE (transactionId context)
        @ dhcpv6AddOption DHCPV6_OPTION_CLIENTID (take (clientIdLength context) (clientId context))
        @ dhcpv6AddOption DHCPV6_OPTION_SERVERID (take (serverIdLength context) (serverId context))
        @ dhcpv6AddOption DHCPV6_OPTION_IA_NA
            (iaNaOption_bytes (netInterface w)
             @ dhcpv6AddOption DHCPV6_OPTION_IAADDR
                 (iaAddrOption_bytes (globalAddr (ipv6Config (netInterface w)))))
        @ dhcpv6AddOption DHCPV6_OPTION_ORO dhcpv6OptionList
        @ dhcpv6AddOption DHCPV6_OPTION_ELAPSED_TIME (dhcpv6ComputeElapsedTime e context)
        @ dhcpv6AddOption DHCPV6_OPTION_FQDN (fqdnOption_bytes context))"

definition dhcpv6SendRebind :: "env \<Rightarrow> Dhcpv6ClientCtx \<Rightarrow> byte list world \<Rightarrow> byte list world" where
  "dhcpv6SendRebind e context w =
     dhcpv6Send e w
       ([DHCPV6_MSG_TYPE_REBIND] @ STORE24BE (transactionId context)
        @ dhcpv6AddOption DHCPV6_OPTION_CLIENTID (take (clientIdLength context) (clientId context))
        @ dhcpv6AddOption DHCPV6_OPTION_IA_NA
            (iaNaOption_bytes (netInterface w)
             @ dhcpv6AddOption DHCPV6_OPTION_IAADDR
                 (iaAddrOption_bytes (globalAddr (ipv6Config (netInterface w)))))
        @ dhcpv6AddOption DHCPV6_OPTION_ORO dhcpv6OptionList
        @ dhcpv6AddOption DHCPV6_OPTION_ELAPSED_TIME (dhcpv6ComputeElapsedTime e context)
        @ dhcpv6AddOption DHCPV6_OPTION_FQDN (fqdnOption_bytes context))"

definition dhcpv6SendDecline :: "env \<Rightarrow> Dhcpv6ClientCtx \<Rightarrow> byte list world \<Rightarrow> byte list world" where
  "dhcpv6SendDecline e context w =
     dhcpv6Send e w
       ([DHCPV6_MSG_TYPE_DECLINE] @ STORE24BE (transactionId context)
        @ dhcpv6AddOption DHCPV6_OPTION_CLIENTID (take (clientIdLength context) (clientId context))
        @ dhcpv6AddOption DHCPV6_OPTION_SERVERID (take (serverIdLength context) (serverId context))
        @ dhcpv6AddOption DHCPV6_OPTION_IA_NA
            (iaNaOption_bytes (netInterface w)
             @ dhcpv6AddOption DHCPV6_OPTION_IAADDR
                 (iaAddrOption_bytes (globalAddr (ipv6Config (netInterface w)))))
        @ dhcpv6AddOption DHCPV6_OPTION_ELAPSED_TIME (dhcpv6ComputeElapsedTime e context))"

subsection \<open>State handlers\<close>

text \<open>A handler that draws a transaction identifier takes it from the first call of
  \<^verbatim>\<open>netGetRand\<close> and the randomisation factor of \<^verbatim>\<open>dhcpv6Rand\<close> from the second;
  a handler that draws no identifier takes the factor from the first.\<close>

definition dhcpv6StateInit ::
  "env \<Rightarrow> Dhcpv6ClientCtx \<Rightarrow> byte list world \<Rightarrow> Dhcpv6ClientCtx \<times> byte list world" where
  "dhcpv6StateInit e context w =
     (if running context then
        if linkState (netInterface w) then
          let delay = dhcpv6RandRange (netGetRand1 e) 0 DHCPV6_CLIENT_SOL_MAX_DELAY;
              context = context\<lparr>configStartTime := osGetSystemTime e\<rparr>;
              context = context\<lparr>timeoutEventDone := False\<rparr>
          in dhcpv6ChangeState e context w DHCPV6_STATE_SOLICIT delay
        else (context, w)
      else (context, w))"

definition dhcpv6StateSolicit ::
  "env \<Rightarrow> Dhcpv6ClientCtx \<Rightarrow> byte list world \<Rightarrow> Dhcpv6ClientCtx \<times> byte list world" where
  "dhcpv6StateSolicit e context w =
     (let time = osGetSystemTime e;
          (context, w) =
            (if timeCompare time (timestamp context + timeout context) \<ge> 0 then
               if retransmitCount context = 0 then
                 let w = emit NdpSendRouterSol w;
                     context = context\<lparr>serverPreference := - 1\<rparr>;
                     context = context\<lparr>transactionId := netGetRand1 e AND 0x00FFFFFF\<rparr>;
                     w = dhcpv6SendSolicit e context w;
                     context = context\<lparr>timestamp := time\<rparr>;
                     context = context\<lparr>timeout := DHCPV6_CLIENT_SOL_TIMEOUT\<rparr>;
                     context = context\<lparr>timeout := timeout context
                                  + dhcpv6Rand (netGetRand2 e) (timeout context)\<rparr>;
                     context = context\<lparr>retransmitCount := retransmitCount context + 1\<rparr>
                 in (context, w)
               else if serverPreference context \<ge> 0 then
                 dhcpv6ChangeState e context w DHCPV6_STATE_REQUEST 0
               else
                 let w = dhcpv6SendSolicit e context w;
                     context = context\<lparr>timestamp := time\<rparr>;
                     context = context\<lparr>timeout := timeout context * 2\<rparr>;
                     context = context\<lparr>timeout := min (timeout context) DHCPV6_CLIENT_SOL_MAX_RT\<rparr>;
                     context = context\<lparr>timeout := timeout context
                                  + dhcpv6Rand (netGetRand1 e) (timeout context)\<rparr>;
                     context = context\<lparr>retransmitCount := retransmitCount context + 1\<rparr>
                 in (context, w)
             else (context, w))
      in dhcpv6CheckTimeout e context w)"

definition dhcpv6StateRequest ::
  "env \<Rightarrow> Dhcpv6ClientCtx \<Rightarrow> byte list world \<Rightarrow> Dhcpv6ClientCtx \<times> byte list world" where
  "dhcpv6StateRequest e context w =
     (let time = osGetSystemTime e;
          (context, w) =
            (if timeCompare time (timestamp context + timeout context) \<ge> 0 then
               if retransmitCount context = 0 then
                 let context = context\<lparr>transactionId := netGetRand1 e AND 0x00FFFFFF\<rparr>;
                     w = dhcpv6SendRequest e context w;
                     context = context\<lparr>timestamp := time\<rparr>;
                     context = context\<lparr>timeout := DHCPV6_CLIENT_REQ_TIMEOUT\<rparr>;
                     context = context\<lparr>timeout := timeout context
                                  + dhcpv6Rand (netGetRand2 e) (timeout context)\<rparr>;
                     context = context\<lparr>retransmitCount := retransmitCount context + 1\<rparr>
                 in (context, w)
               else if retransmitCount context < DHCPV6_CLIENT_REQ_MAX_RC then
                 let w = dhcpv6SendRequest e context w;
                     context = context\<lparr>timestamp := time\<rparr>;
                     context = context\<lparr>timeout := timeout context * 2\<rparr>;
                     context = context\<lparr>timeout := min (timeout context) DHCPV6_CLIENT_REQ_MAX_RT\<rparr>;
                     context = context\<lparr>timeout := timeout context
                                  + dhcpv6Rand (netGetRand1 e) (timeout context)\<rparr>;
                     context = context\<lparr>retransmitCount := retransmitCount context + 1\<rparr>
                 in (context, w)
               else dhcpv6ChangeState e context w DHCPV6_STATE_INIT 0
             else (context, w))
      in dhcpv6CheckTimeout e context w)"

definition dhcpv6StateInitConfirm ::
  "env \<Rightarrow> Dhcpv6ClientCtx \<Rightarrow> byte list world \<Rightarrow> Dhcpv6ClientCtx \<times> byte list world" where
  "dhcpv6StateInitConfirm e context w =
     (if running context then
        if linkState (netInterface w) then
          let delay = dhcpv6RandRange (netGetRand1 e) 0 DHCPV6_CLIENT_CNF_MAX_DELAY;
              context = context\<lparr>configStartTime := osGetSystemTime e\<rparr>;
              context = context\<lparr>timeoutEventDone := False\<rparr>
          in dhcpv6ChangeState e context w DHCPV6_STATE_CONFIRM delay
        else (context, w)
      else (context, w))"

definition dhcpv6StateConfirm ::
  "env \<Rightarrow> Dhcpv6ClientCtx \<Rightarrow> byte list world \<Rightarrow> Dhcpv6ClientCtx \<times> byte list world" where
  "dhcpv6StateConfirm e context w =
     (let time = osGetSystemTime e;
          (context, w) =
            (if timeCompare time (timestamp context + timeout context) \<ge> 0 then
               if retransmitCount context = 0 then
                 let w = emit NdpSendRouterSol w;
                     context = context\<lparr>transactionId := netGetRand1 e AND 0x00FFFFFF\<rparr>;
                     w = dhcpv6SendConfirm e context w;
                     context = context\<lparr>exchangeStartTime := time\<rparr>;
                     context = context\<lparr>timestamp := time\<rparr>;
                     context = context\<lparr>timeout := DHCPV6_CLIENT_CNF_TIMEOUT\<rparr>;
                     context = context\<lparr>timeout := timeout context
                                  + dhcpv6Rand (netGetRand2 e) (timeout context)\<rparr>;
                     context = context\<lparr>retransmitCount := retransmitCount context + 1\<rparr>
                 in (context, w)
               else
                 let w = dhcpv6SendConfirm e context w;
                     context = context\<lparr>timestamp := time\<rparr>;
                     context = context\<lparr>timeout := timeout context * 2\<rparr>;
                     context = context\<lparr>timeout := min (timeout context) DHCPV6_CLIENT_CNF_MAX_RT\<rparr>;
                     context = context\<lparr>timeout := timeout context
                                  + dhcpv6Rand (netGetRand1 e) (timeout context)\<rparr>;
                     context = context\<lparr>retransmitCount := retransmitCount context + 1\<rparr>
                 in (context, w)
             else if retransmitCount context > 0
                     \<and> timeCompare time (exchangeStartTime context + DHCPV6_CLIENT_CNF_MAX_RD) \<ge> 0
               then dhcpv6ChangeState e context w DHCPV6_STATE_INIT 0
             else (context, w))
      in dhcpv6CheckTimeout e context w)"

definition dhcpv6StateBound ::
  "env \<Rightarrow> Dhcpv6ClientCtx \<Rightarrow> byte list world \<Rightarrow> Dhcpv6ClientCtx \<times> byte list world" where
  "dhcpv6StateBound e context w =
     (let time = osGetSystemTime e
      in if t1 context \<noteq> DHCPV6_INFINITE_TIME then
           let t1_ms = t1 context * 1000
           in if timeCompare time (leaseStartTime context + t1_ms) \<ge> 0 then
                let context = context\<lparr>configStartTime := time\<rparr>
                in dhcpv6ChangeState e context w DHCPV6_STATE_RENEW 0
              else (context, w)
         else (context, w))"

definition dhcpv6StateRenew ::
  "env \<Rightarrow> Dhcpv6ClientCtx \<Rightarrow> byte list world \<Rightarrow> Dhcpv6ClientCtx \<times> byte list world" where
  "dhcpv6StateRenew e context w =
     (let time = osGetSystemTime e
      in if timeCompare time (timestamp context + timeout context) \<ge> 0 then
           let (context, w, r) =
                 (if retransmitCount context = 0 then
                    let context = context\<lparr>transactionId := netGetRand1 e AND 0x00FFFFFF\<rparr>;
                        w = dhcpv6SendRenew e context w;
                        context = context\<lparr>timeout := DHCPV6_CLIENT_REN_TIMEOUT\<rparr>
                    in (context, w, netGetRand2 e)
                  else
                    let w = dhcpv6SendRenew e context w;
                        context = context\<lparr>timeout := timeout context * 2\<rparr>;
                        context = context\<lparr>timeout := min (timeout context) DHCPV6_CLIENT_REN_MAX_RT\<rparr>
                    in (context, w, netGetRand1 e));
               context = context\<lparr>timestamp := time\<rparr>;
               context = context\<lparr>timeout := timeout context + dhcpv6Rand r (timeout context)\<rparr>;
               context = context\<lparr>retransmitCount := retransmitCount context + 1\<rparr>
           in (context, w)
         else if t2 context \<noteq> DHCPV6_INFINITE_TIME then
           let t2_ms = t2 context * 1000
           in if timeCompare time (leaseStartTime context + t2_ms) \<ge> 0
              then dhcpv6ChangeState e context w DHCPV6_STATE_REBIND 0
              else (context, w)
         else (context, w))"

definition dhcpv6StateRebind ::
  "env \<Rightarrow> Dhcpv6ClientCtx \<Rightarrow> byte list world \<Rightarrow> Dhcpv6ClientCtx \<times> byte list world" where
  "dhcpv6StateRebind e context w =
     (let time = osGetSystemTime e
      in if timeCompare time (timestamp context + timeout context) \<ge> 0 then
           let (context, w, r) =
                 (if retransmitCount context = 0 then
                    let context = context\<lparr>transactionId := netGetRand1 e AND 0x00FFFFFF\<rparr>;
                        w = dhcpv6SendRebind e context w;
                        context = context\<lparr>timeout := DHCPV6_CLIENT_REB_TIMEOUT\<rparr>
                    in (context, w, netGetRand2 e)
                  else
                    let w = dhcpv6SendRebind e context w;
                        context = context\<lparr>timeout := timeout context * 2\<rparr>;
                        context = context\<lparr>timeout := min (timeout context) DHCPV6_CLIENT_REB_MAX_RT\<rparr>
                    in (context, w, netGetRand1 e));
               context = context\<lparr>timestamp := time\<rparr>;
               context = context\<lparr>timeout := timeout context + dhcpv6Rand r (timeout context)\<rparr>;
               context = context\<lparr>retransmitCount := retransmitCount context + 1\<rparr>
           in (context, w)
         else if validLifetime context \<noteq> DHCPV6_INFINITE_TIME then
           let validLifetime_ms = validLifetime context * 1000
           in if timeCompare time (leaseStartTime context + validLifetime_ms) \<ge> 0 then
                let w = w\<lparr>netInterface := ipv6SetGlobalAddrEx (netInterface w)
                              IPV6_UNSPECIFIED_ADDR IPV6_ADDR_STATE_INVALID\<rparr>
                in dhcpv6ChangeState e context w DHCPV6_STATE_INIT 0
              else (context, w)
         else (context, w))"

definition dhcpv6StateDecline ::
  "env \<Rightarrow> Dhcpv6ClientCtx \<Rightarrow> byte list world \<Rightarrow> Dhcpv6ClientCtx \<times> byte list world" where
  "dhcpv6StateDecline e context w =
     (let time = osGetSystemTime e
      in if timeCompare time (timestamp context + timeout context) \<ge> 0 then
           if retransmitCount context = 0 then
             let context = context\<lparr>transactionId := netGetRand1 e AND 0x00FFFFFF\<rparr>;
                 w = dhcpv6SendDecline e context w;
                 context = context\<lparr>timestamp := time\<rparr>;
                 context = context\<lparr>timeout := DHCPV6_CLIENT_DEC_TIMEOUT\<rparr>;
                 context = context\<lparr>timeout := timeout context
                              + dhcpv6Rand (netGetRand2 e) (timeout context)\<rparr>;
                 context = context\<lparr>retransmitCount := retransmitCount context + 1\<rparr>
             in (context, w)
           else if retransmitCount context < DHCPV6_CLIENT_DEC_MAX_RC then
             let w = dhcpv6SendDecline e context w;
                 context = context\<lparr>timestamp := time\<rparr>;
                 context = context\<lparr>timeout := timeout context * 2\<rparr>;
                 context = context\<lparr>timeout := timeout context
                              + dhcpv6Rand (netGetRand1 e) (timeout context)\<rparr>;
                 context = context\<lparr>retransmitCount := retransmitCount context + 1\<rparr>
             in (context, w)
           else dhcpv6ChangeState e context w DHCPV6_STATE_INIT 0
         else (context, w))"

subsection \<open>Timer handler and link change\<close>

text \<open>The \<^verbatim>\<open>switch\<close> of \<^verbatim>\<open>dhcpv6ClientTick\<close> has no case for
  \<^verbatim>\<open>DHCPV6_STATE_DECLINE\<close>: that state takes the \<^verbatim>\<open>default\<close> branch.\<close>

definition dhcpv6ClientTick ::
  "env \<Rightarrow> Dhcpv6ClientCtx \<Rightarrow> byte list world \<Rightarrow> Dhcpv6ClientCtx \<times> byte list world" where
  "dhcpv6ClientTick e context w =
     (if state context = DHCPV6_STATE_INIT then dhcpv6StateInit e context w
      else if state context = DHCPV6_STATE_SOLICIT then dhcpv6StateSolicit e context w
      else if state context = DHCPV6_STATE_REQUEST then dhcpv6StateRequest e context w
      else if state context = DHCPV6_STATE_INIT_CONFIRM then dhcpv6StateInitConfirm e context w
      else if state context = DHCPV6_STATE_CONFIRM then dhcpv6StateConfirm e context w
      else if state context = DHCPV6_STATE_BOUND then dhcpv6StateBound e context w
      else if state context = DHCPV6_STATE_RENEW then dhcpv6StateRenew e context w
      else if state context = DHCPV6_STATE_REBIND then dhcpv6StateRebind e context w
      else (context\<lparr>state := DHCPV6_STATE_INIT\<rparr>, w))"

definition dhcpv6ClientLinkChangeEvent ::
  "Dhcpv6ClientCtx \<Rightarrow> byte list world \<Rightarrow> Dhcpv6ClientCtx \<times> byte list world" where
  "dhcpv6ClientLinkChangeEvent context w =
     (let w = (if running context
               then w\<lparr>netInterface := ipv6SetGlobalAddrEx (netInterface w)
                         IPV6_UNSPECIFIED_ADDR IPV6_ADDR_STATE_INVALID\<rparr>
               else w);
          context = (if state context \<ge> DHCPV6_STATE_INIT_CONFIRM
                     then context\<lparr>state := DHCPV6_STATE_INIT_CONFIRM\<rparr>
                     else context\<lparr>state := DHCPV6_STATE_INIT\<rparr>)
      in if linkChangeEvent (settings context)
         then (context, emit (LinkChangeEvent (linkState (netInterface w))) w)
         else (context, w))"

subsection \<open>Incoming messages\<close>

text \<open>A received message is its bytes: the message type, the 3-byte transaction
  identifier, then the options. \<^verbatim>\<open>memcpy\<close> into a buffer of the context overwrites
  its first bytes.\<close>

definition msgType :: "byte list \<Rightarrow> byte" where
  "msgType message = message ! 0"

definition msgTransactionId :: "byte list \<Rightarrow> uint32_t" where
  "msgTransactionId message = be24 (drop 1 message)"

definition msgOptions :: "byte list \<Rightarrow> byte list" where
  "msgOptions message = drop 4 message"

definition memcpy :: "byte list \<Rightarrow> byte list \<Rightarrow> nat \<Rightarrow> byte list" where
  "memcpy dest src n = take n src @ drop n dest"

text \<open>The loop of \<^verbatim>\<open>dhcpv6ParseReply\<close> over the IA\_NA options: the search starts at
  offset \<open>i\<close> of the options, and after an IA\_NA option that does not parse, \<open>i\<close>
  advances by the size of that option. The result is that of the first IA\_NA option
  that parses, or \<^verbatim>\<open>ERROR_INVALID_MESSAGE\<close>.\<close>

function dhcpv6ParseReply_IaNa ::
  "Dhcpv6ClientCtx \<Rightarrow> NetInterface \<Rightarrow> byte list \<Rightarrow> nat \<Rightarrow> error_t \<times> Dhcpv6ClientCtx" where
  "dhcpv6ParseReply_IaNa context iface options i =
     (if i < length options then
        (case dhcpv6GetOption (drop i options) DHCPV6_OPTION_IA_NA of
           None \<Rightarrow> (ERROR_INVALID_MESSAGE, context)
         | Some option \<Rightarrow>
             if fst (dhcpv6ParseIaNaOption context iface option) = NO_ERROR
             then (NO_ERROR, snd (dhcpv6ParseIaNaOption context iface option))
             else dhcpv6ParseReply_IaNa (snd (dhcpv6ParseIaNaOption context iface option))
                    iface options (i + (4 + unat (optLength option))))
      else (ERROR_INVALID_MESSAGE, context))"
  by pat_completeness auto
termination
  by (relation "measure (\<lambda>(context, iface, options, i). length options - i)") auto

declare dhcpv6ParseReply_IaNa.simps [simp del]

text \<open>The DNS servers of a DNS Servers option, at most \<^verbatim>\<open>IPV6_MAX_DNS_SERVERS\<close> of
  them, copied into the interface's table (\<open>j\<close> counts the loop).\<close>

fun dhcpv6CopyDnsServers :: "NetInterface \<Rightarrow> byte list \<Rightarrow> nat \<Rightarrow> nat \<Rightarrow> NetInterface" where
  "dhcpv6CopyDnsServers iface v j 0 = iface"
| "dhcpv6CopyDnsServers iface v j (Suc k) =
     dhcpv6CopyDnsServers
       (iface\<lparr>ipv6Config := (ipv6Config iface)\<lparr>dnsServer6 :=
          (dnsServer6 (ipv6Config iface))[j := take 16 (drop (j * 16) v)]\<rparr>\<rparr>) v (Suc j) k"

definition dhcpv6ParseReply ::
  "config \<Rightarrow> env \<Rightarrow> Dhcpv6ClientCtx \<Rightarrow> byte list world \<Rightarrow> byte list
     \<Rightarrow> error_t \<times> Dhcpv6ClientCtx \<times> byte list world" where
  "dhcpv6ParseReply cfg e context w message =
     (if length message < 4 then (ERROR_INVALID_MESSAGE, context, w)
      else if msgType message \<noteq> DHCPV6_MSG_TYPE_REPLY then (ERROR_INVALID_MESSAGE, context, w)
      else if msgTransactionId message \<noteq> transactionId context
        then (ERROR_INVALID_MESSAGE, context, w)
      else
        (case dhcpv6GetOption (msgOptions message) DHCPV6_OPTION_CLIENTID of
           None \<Rightarrow> (ERROR_INVALID_MESSAGE, context, w)
         | Some option \<Rightarrow>
           if unat (optLength option) \<noteq> clientIdLength context
             then (ERROR_INVALID_MESSAGE, context, w)
           else if take (clientIdLength context) (optValue option)
                     \<noteq> take (clientIdLength context) (clientId context)
             then (ERROR_INVALID_MESSAGE, context, w)
           else
             (case dhcpv6GetOption (msgOptions message) DHCPV6_OPTION_SERVERID of
                None \<Rightarrow> (ERROR_INVALID_MESSAGE, context, w)
              | Some serverIdOption \<Rightarrow>
                if optLength serverIdOption = 0 then (ERROR_INVALID_MESSAGE, context, w)
                else if unat (optLength serverIdOption) \<ge> DHCPV6_MAX_DUID_SIZE cfg
                  then (ERROR_INVALID_MESSAGE, context, w)
                else if state context = DHCPV6_STATE_SOLICIT \<and> \<not> rapidCommit (settings context)
                  then (ERROR_INVALID_MESSAGE, context, w)
                else if state context = DHCPV6_STATE_SOLICIT
                     \<and> (case dhcpv6GetOption (msgOptions message) DHCPV6_OPTION_RAPID_COMMIT of
                           None \<Rightarrow> True | Some option \<Rightarrow> unat (optLength option) \<noteq> 0)
                  then (ERROR_INVALID_MESSAGE, context, w)
                else if (state context = DHCPV6_STATE_REQUEST \<or> state context = DHCPV6_STATE_RENEW)
                     \<and> unat (optLength serverIdOption) \<noteq> serverIdLength context
                  then (ERROR_INVALID_MESSAGE, context, w)
                else if (state context = DHCPV6_STATE_REQUEST \<or> state context = DHCPV6_STATE_RENEW)
                     \<and> take (serverIdLength context) (optValue serverIdOption)
                          \<noteq> take (serverIdLength context) (serverId context)
                  then (ERROR_INVALID_MESSAGE, context, w)
                else
                  let context =
                        (if state context = DHCPV6_STATE_SOLICIT then
                           let context = context\<lparr>serverIdLength := unat (optLength serverIdOption)\<rparr>
                           in context\<lparr>serverId := memcpy (serverId context)
                                (optValue serverIdOption) (serverIdLength context)\<rparr>
                         else context);
                      error = dhcpv6ParseStatusCodeOption (msgOptions message)
                  in if error \<noteq> NO_ERROR then (error, context, w)
                     else
                       (case dhcpv6ParseReply_IaNa context (netInterface w) (msgOptions message) 0 of
                          (error, context) \<Rightarrow>
                            if error \<noteq> NO_ERROR then (ERROR_INVALID_MESSAGE, context, w)
                            else
                              let context = context\<lparr>serverIdLength := unat (optLength serverIdOption)\<rparr>;
                                  context = context\<lparr>serverId := memcpy (serverId context)
                                     (optValue serverIdOption) (serverIdLength context)\<rparr>;
                                  iface = netInterface w;
                                  iface =
                                    (case dhcpv6GetOption (msgOptions message) DHCPV6_OPTION_DNS_SERVERS of
                                       None \<Rightarrow> iface
                                     | Some option \<Rightarrow>
                                         if unat (optLength option) mod 16 = 0
                                         then dhcpv6CopyDnsServers iface (optValue option) 0
                                                (min (unat (optLength option) div 16)
                                                     (IPV6_MAX_DNS_SERVERS cfg))
                                         else iface);
                                  iface = ipv6SetGlobalAddrEx iface (clientAddr context)
                                            IPV6_ADDR_STATE_VALID;
                                  context = context\<lparr>leaseStartTime := osGetSystemTime e\<rparr>;
                                  (context, w) = dhcpv6ChangeState e context (w\<lparr>netInterface := iface\<rparr>)
                                                   DHCPV6_STATE_BOUND 0
                              in (NO_ERROR, context, w)))))"

definition dhcpv6ParseAdvertise ::
  "config \<Rightarrow> env \<Rightarrow> Dhcpv6ClientCtx \<Rightarrow> byte list world \<Rightarrow> byte list
     \<Rightarrow> error_t \<times> Dhcpv6ClientCtx \<times> byte list world" where
  "dhcpv6ParseAdvertise cfg e context w message =
     (let (committed, context, w) =
            (if rapidCommit (settings context) then
               (case dhcpv6ParseReply cfg e context w message of
                  (error, context, w) \<Rightarrow> (error = NO_ERROR, context, w))
             else (False, context, w))
      in if committed then (NO_ERROR, context, w)
      else if length message < 4 then (ERROR_INVALID_MESSAGE, context, w)
      else if msgType message \<noteq> DHCPV6_MSG_TYPE_ADVERTISE then (ERROR_INVALID_MESSAGE, context, w)
      else if msgTransactionId message \<noteq> transactionId context
        then (ERROR_INVALID_MESSAGE, context, w)
      else
        (case dhcpv6GetOption (msgOptions message) DHCPV6_OPTION_CLIENTID of
           None \<Rightarrow> (ERROR_INVALID_MESSAGE, context, w)
         | Some option \<Rightarrow>
           if unat (optLength option) \<noteq> clientIdLength context
             then (ERROR_INVALID_MESSAGE, context, w)
           else if take (clientIdLength context) (optValue option)
                     \<noteq> take (clientIdLength context) (clientId context)
             then (ERROR_INVALID_MESSAGE, context, w)
           else
             (case dhcpv6GetOption (msgOptions message) DHCPV6_OPTION_SERVERID of
                None \<Rightarrow> (ERROR_INVALID_MESSAGE, context, w)
              | Some serverIdOption \<Rightarrow>
                if optLength serverIdOption = 0 then (ERROR_INVALID_MESSAGE, context, w)
                else if unat (optLength serverIdOption) \<ge> DHCPV6_MAX_DUID_SIZE cfg
                  then (ERROR_INVALID_MESSAGE, context, w)
                else if dhcpv6ParseStatusCodeOption (msgOptions message) \<noteq> NO_ERROR
                  then (ERROR_INVALID_MESSAGE, context, w)
                else
                  let serverPreference_v =
                        (case dhcpv6GetOption (msgOptions message) DHCPV6_OPTION_PREFERENCE of
                           None \<Rightarrow> 0
                         | Some option \<Rightarrow>
                             if unat (optLength option) = 1 then uint (optValue option ! 0) else 0);
                      context =
                        (if serverPreference_v > serverPreference context then
                           let context = context\<lparr>serverPreference := serverPreference_v\<rparr>;
                               context = context\<lparr>serverIdLength := unat (optLength serverIdOption)\<rparr>
                           in context\<lparr>serverId := memcpy (serverId context)
                                (optValue serverIdOption) (serverIdLength context)\<rparr>
                         else context);
                      (context, w) =
                        (if serverPreference_v = DHCPV6_MAX_SERVER_PREFERENCE
                           then dhcpv6ChangeState e context w DHCPV6_STATE_REQUEST 0
                         else if retransmitCount context > 1
                           then dhcpv6ChangeState e context w DHCPV6_STATE_REQUEST 0
                         else (context, w))
                  in (NO_ERROR, context, w))))"

text \<open>The UDP receive callback; \<open>message\<close> is the datagram from \<^verbatim>\<open>offset\<close> on.\<close>

definition dhcpv6ClientProcessMessage ::
  "config \<Rightarrow> env \<Rightarrow> Dhcpv6ClientCtx \<Rightarrow> byte list world \<Rightarrow> byte list
     \<Rightarrow> Dhcpv6ClientCtx \<times> byte list world" where
  "dhcpv6ClientProcessMessage cfg e context w message =
     (if length message < 4 then (context, w)
      else if state context = DHCPV6_STATE_SOLICIT
        then snd (dhcpv6ParseAdvertise cfg e context w message)
      else if state context = DHCPV6_STATE_REQUEST \<or> state context = DHCPV6_STATE_CONFIRM
              \<or> state context = DHCPV6_STATE_RENEW \<or> state context = DHCPV6_STATE_REBIND
              \<or> state context = DHCPV6_STATE_DECLINE
        then snd (dhcpv6ParseReply cfg e context w message)
      else (context, w))"

subsection \<open>User interface\<close>

text \<open>A context pointer is \<open>None\<close> when it is \<^verbatim>\<open>NULL\<close>. The context after
  \<^verbatim>\<open>memset(context, 0, sizeof(Dhcpv6ClientCtx))\<close> and the copy of the settings:\<close>

definition dhcpv6_memset_0 :: "config \<Rightarrow> Dhcpv6ClientSettings \<Rightarrow> Dhcpv6ClientCtx" where
  "dhcpv6_memset_0 cfg s =
     \<lparr>settings = s, running = False, state = 0, timestamp = 0, timeout = 0,
      retransmitCount = 0, timeoutEventDone = False, transactionId = 0,
      configStartTime = 0, leaseStartTime = 0, t1 = 0, t2 = 0,
      clientId = replicate (DHCPV6_MAX_DUID_SIZE cfg) 0, clientIdLength = 0,
      clientFqdn = replicate 16 0, clientFqdnLength = 0,
      clientAddr = replicate 16 0,
      serverId = replicate (DHCPV6_MAX_DUID_SIZE cfg) 0, serverIdLength = 0,
      serverPreference = 0, exchangeStartTime = 0,
      preferredLifetime = 0, validLifetime = 0\<rparr>"

definition DHCPV6_DUID_LL :: uint16_t where "DHCPV6_DUID_LL = 3"
definition DHCPV6_HARDWARE_TYPE_ETH :: uint16_t where "DHCPV6_HARDWARE_TYPE_ETH = 1"

definition dhcpv6ClientInit ::
  "config \<Rightarrow> env \<Rightarrow> Dhcpv6ClientCtx option \<Rightarrow> Dhcpv6ClientSettings option \<Rightarrow> byte list world
     \<Rightarrow> error_t \<times> Dhcpv6ClientCtx option \<times> byte list world" where
  "dhcpv6ClientInit cfg e context_ptr settings_ptr w =
     (case (context_ptr, settings_ptr) of
        (Some old, Some s) \<Rightarrow>
          if interface s = NULL then (ERROR_INVALID_PARAMETER, context_ptr, w)
          else
            let iface = netInterface w;
                context = dhcpv6_memset_0 cfg s;
                duid = htons DHCPV6_DUID_LL @ htons DHCPV6_HARDWARE_TYPE_ETH @ take 6 (macAddr iface);
                context = context\<lparr>clientId := memcpy (clientId context) duid 10\<rparr>;
                context = context\<lparr>clientIdLength := 10\<rparr>;
                name = dnsEncodeName cfg (ifHostname iface);
                context = context\<lparr>clientFqdn := memcpy (clientFqdn context) (0 # name)
                                                  (1 + length name)\<rparr>;
                context = context\<lparr>clientFqdnLength := length name\<rparr>
            in if \<not> osCreateMutex e then (ERROR_OUT_OF_RESOURCES, Some context, w)
               else
                 let w = emit (UdpAttachRxCallback DHCPV6_CLIENT_PORT) w
                 in if udpAttachRxCallback e \<noteq> NO_ERROR
                    then (udpAttachRxCallback e, Some context, w)
                    else
                      let context = context\<lparr>running := False\<rparr>;
                          context = context\<lparr>state := DHCPV6_STATE_INIT\<rparr>;
                          w = w\<lparr>netInterface := iface\<lparr>dhcpv6ClientContext := True\<rparr>\<rparr>
                      in (NO_ERROR, Some context, w)
      | _ \<Rightarrow> (ERROR_INVALID_PARAMETER, context_ptr, w))"

definition dhcpv6ClientStart ::
  "Dhcpv6ClientCtx option \<Rightarrow> byte list world
     \<Rightarrow> error_t \<times> Dhcpv6ClientCtx option \<times> byte list world" where
  "dhcpv6ClientStart context_ptr w =
     (case context_ptr of
        None \<Rightarrow> (ERROR_INVALID_PARAMETER, None, w)
      | Some context \<Rightarrow>
          let context = context\<lparr>running := True\<rparr>;
              context = context\<lparr>state := DHCPV6_STATE_INIT\<rparr>
          in (NO_ERROR, Some context, w))"

definition dhcpv6ClientStop ::
  "Dhcpv6ClientCtx option \<Rightarrow> byte list world
     \<Rightarrow> error_t \<times> Dhcpv6ClientCtx option \<times> byte list world" where
  "dhcpv6ClientStop context_ptr w =
     (case context_ptr of
        None \<Rightarrow> (ERROR_INVALID_PARAMETER, None, w)
      | Some context \<Rightarrow>
          let context = context\<lparr>running := False\<rparr>;
              context = context\<lparr>state := DHCPV6_STATE_INIT\<rparr>
          in (NO_ERROR, Some context, w))"

text \<open>\<^verbatim>\<open>dhcpv6ClientGetState\<close> returns a \<^verbatim>\<open>Dhcpv6State\<close> and dereferences its
  argument without a test: for a \<^verbatim>\<open>NULL\<close> pointer C defines no result (\<open>None\<close>).\<close>

definition dhcpv6ClientGetState :: "Dhcpv6ClientCtx option \<Rightarrow> nat option" where
  "dhcpv6ClientGetState context_ptr =
     (case context_ptr of None \<Rightarrow> None | Some context \<Rightarrow> Some (state context))"

section \<open>DHCPv4 client\<close>

subsection \<open>Constants, messages and options\<close>

text \<open>The values of \<^verbatim>\<open>DhcpState\<close>, in the order of the \<^verbatim>\<open>stateLabel\<close> table of
  \<^verbatim>\<open>dhcpChangeState\<close>.\<close>

definition DHCP_STATE_INIT :: nat where "DHCP_STATE_INIT = 0"
definition DHCP_STATE_SELECTING :: nat where "DHCP_STATE_SELECTING = 1"
definition DHCP_STATE_REQUESTING :: nat where "DHCP_STATE_REQUESTING = 2"
definition DHCP_STATE_INIT_REBOOT :: nat where "DHCP_STATE_INIT_REBOOT = 3"
definition DHCP_STATE_REBOOTING :: nat where "DHCP_STATE_REBOOTING = 4"
definition DHCP_STATE_BOUND :: nat where "DHCP_STATE_BOUND = 5"
definition DHCP_STATE_RENEWING :: nat where "DHCP_STATE_RENEWING = 6"
definition DHCP_STATE_REBINDING :: nat where "DHCP_STATE_REBINDING = 7"

text \<open>The declared state set of the DHCPv4 client (\<^verbatim>\<open>DhcpState\<close>).\<close>

definition DhcpState :: "nat set" where
  "DhcpState = {DHCP_STATE_INIT, DHCP_STATE_SELECTING, DHCP_STATE_REQUESTING,
     DHCP_STATE_INIT_REBOOT, DHCP_STATE_REBOOTING, DHCP_STATE_BOUND,
     DHCP_STATE_RENEWING, DHCP_STATE_REBINDING}"

definition DHCP_INFINITE_TIME :: uint32_t where "DHCP_INFINITE_TIME = 0xFFFFFFFF"

text \<open>Modelled from the spec: \<^verbatim>\<open>dhcp_common.h\<close> is not among the sources. The spec
  gives the opcodes, the hardware type, the magic cookie, the broadcast flag, the
  ports, the broadcast address, the minimum message size, the size of the fixed part
  of a message (236 bytes and the cookie) and the codes of the Host Name (12),
  Requested IP Address (50), Message Type (53), Server Identifier (54), Parameter
  Request List (55), Rapid Commit (80) and End (255) options; the other option codes
  and the message types are the values that RFC 2132, named by the spec, assigns.\<close>

definition DHCP_OPCODE_BOOTREQUEST :: byte where "DHCP_OPCODE_BOOTREQUEST = 1"
definition DHCP_OPCODE_BOOTREPLY :: byte where "DHCP_OPCODE_BOOTREPLY = 2"
definition DHCP_HARDWARE_TYPE_ETH :: byte where "DHCP_HARDWARE_TYPE_ETH = 1"
definition DHCP_MAGIC_COOKIE :: uint32_t where "DHCP_MAGIC_COOKIE = 0x63825363"
definition DHCP_FLAG_BROADCAST :: uint16_t where "DHCP_FLAG_BROADCAST = 0x8000"
definition DHCP_CLIENT_PORT :: nat where "DHCP_CLIENT_PORT = 68"
definition DHCP_SERVER_PORT :: nat where "DHCP_SERVER_PORT = 67"
definition DHCP_MIN_MSG_SIZE :: nat where "DHCP_MIN_MSG_SIZE = 300"
definition sizeof_DhcpMessage :: nat where "sizeof_DhcpMessage = 240"
definition IPV4_UNSPECIFIED_ADDR :: uint32_t where "IPV4_UNSPECIFIED_ADDR = 0"
definition IPV4_BROADCAST_ADDR :: uint32_t where "IPV4_BROADCAST_ADDR = 0xFFFFFFFF"

definition DHCP_OPT_SUBNET_MASK :: byte where "DHCP_OPT_SUBNET_MASK = 1"
definition DHCP_OPT_ROUTER :: byte where "DHCP_OPT_ROUTER = 3"
definition DHCP_OPT_DNS_SERVER :: byte where "DHCP_OPT_DNS_SERVER = 6"
definition DHCP_OPT_HOST_NAME :: byte where "DHCP_OPT_HOST_NAME = 12"
definition DHCP_OPT_INTERFACE_MTU :: byte where "DHCP_OPT_INTERFACE_MTU = 26"
definition DHCP_OPT_REQUESTED_IP_ADDRESS :: byte where "DHCP_OPT_REQUESTED_IP_ADDRESS = 50"
definition DHCP_OPT_IP_ADDRESS_LEASE_TIME :: byte where "DHCP_OPT_IP_ADDRESS_LEASE_TIME = 51"
definition DHCP_OPT_DHCP_MESSAGE_TYPE :: byte where "DHCP_OPT_DHCP_MESSAGE_TYPE = 53"
definition DHCP_OPT_SERVER_IDENTIFIER :: byte where "DHCP_OPT_SERVER_IDENTIFIER = 54"
definition DHCP_OPT_PARAM_REQUEST_LIST :: byte where "DHCP_OPT_PARAM_REQUEST_LIST = 55"
definition DHCP_OPT_RENEWAL_TIME_VALUE :: byte where "DHCP_OPT_RENEWAL_TIME_VALUE = 58"
definition DHCP_OPT_REBINDING_TIME_VALUE :: byte where "DHCP_OPT_REBINDING_TIME_VALUE = 59"
definition DHCP_OPT_RAPID_COMMIT :: byte where "DHCP_OPT_RAPID_COMMIT = 80"

definition DHCP_MESSAGE_TYPE_DISCOVER :: byte where "DHCP_MESSAGE_TYPE_DISCOVER = 1"
definition DHCP_MESSAGE_TYPE_OFFER :: byte where "DHCP_MESSAGE_TYPE_OFFER = 2"
definition DHCP_MESSAGE_TYPE_REQUEST :: byte where "DHCP_MESSAGE_TYPE_REQUEST = 3"
definition DHCP_MESSAGE_TYPE_DECLINE :: byte where "DHCP_MESSAGE_TYPE_DECLINE = 4"
definition DHCP_MESSAGE_TYPE_ACK :: byte where "DHCP_MESSAGE_TYPE_ACK = 5"
definition DHCP_MESSAGE_TYPE_NAK :: byte where "DHCP_MESSAGE_TYPE_NAK = 6"

text \<open>\<^verbatim>\<open>DhcpMessage\<close>. A multi-byte member holds the value that \<^verbatim>\<open>ntohs\<close> or
  \<^verbatim>\<open>ntohl\<close> reads from it, an address the value of its four bytes in network order;
  \<open>dhcpOptions\<close> are the options in front of the End option, each with its code and
  its value.\<close>

record DhcpMessage =
  op :: byte
  htype :: byte
  hlen :: byte
  hops :: byte
  xid :: uint32_t
  secs :: uint16_t
  flags :: uint16_t
  ciaddr :: uint32_t
  yiaddr :: uint32_t
  siaddr :: uint32_t
  giaddr :: uint32_t
  chaddr :: "byte list"
  magicCookie :: uint32_t
  dhcpOptions :: "(byte \<times> byte list) list"

text \<open>Modelled from the spec: \<^verbatim>\<open>dhcpGetOption\<close> and \<^verbatim>\<open>dhcpAddOption\<close> of
  \<^verbatim>\<open>dhcp_common.c\<close> are not among the sources. The options follow the fixed part of
  the message; the search returns the first option with the requested code, and an
  option is added behind the others.\<close>

definition dhcpGetOption :: "DhcpMessage \<Rightarrow> nat \<Rightarrow> byte \<Rightarrow> DhcpOption option" where
  "dhcpGetOption message len optionCode =
     (if len < sizeof_DhcpMessage then None
      else case find (\<lambda>(c, v). c = optionCode) (dhcpOptions message) of
          None \<Rightarrow> None
        | Some (c, v) \<Rightarrow>
            Some \<lparr>optCode = c, optLength = word_of_nat (length v), optValue = v\<rparr>)"

definition dhcpAddOption :: "DhcpMessage \<Rightarrow> byte \<Rightarrow> byte list \<Rightarrow> DhcpMessage" where
  "dhcpAddOption message optionCode optionValue =
     message\<lparr>dhcpOptions := dhcpOptions message @ [(optionCode, optionValue)]\<rparr>"

text \<open>Modelled from the spec: \<^verbatim>\<open>netGetRandRange\<close> of \<^verbatim>\<open>net.c\<close> is not among the
  sources. It yields a bounded integer between its two arguments, computed from one
  value \<open>r\<close> of \<^verbatim>\<open>netGetRand\<close> as \<^verbatim>\<open>dhcpv6RandRange\<close> of the sources computes it.\<close>

definition netGetRandRange :: "uint32_t \<Rightarrow> uint32_t \<Rightarrow> uint32_t \<Rightarrow> uint32_t" where
  "netGetRandRange r min_v max_v = min_v + r mod (max_v - min_v + 1)"

subsection \<open>Context\<close>

record DhcpClientSettings = dhcp_settings +
  hostname :: string

record DhcpClientCtx = "DhcpClientSettings dhcp_ctx" +
  retransmitTimeout :: systime_t
  requestedIpAddr :: uint32_t
  serverIpAddr :: uint32_t
  leaseTime :: uint32_t

subsection \<open>State changes, timeout and elapsed time\<close>

definition dhcpChangeState ::
  "env \<Rightarrow> DhcpClientCtx \<Rightarrow> DhcpMessage world \<Rightarrow> nat \<Rightarrow> systime_t
     \<Rightarrow> DhcpClientCtx \<times> DhcpMessage world" where
  "dhcpChangeState e context w newState delay =
     (let time = osGetSystemTime e;
          context = context\<lparr>timestamp := time\<rparr>;
          context = context\<lparr>timeout := delay\<rparr>;
          context = context\<lparr>retransmitCount := 0\<rparr>;
          context = context\<lparr>state := newState\<rparr>
      in if stateChangeEvent (settings context)
         then (context, emit (StateChangeEvent newState) w)
         else (context, w))"

definition dhcpCheckTimeout ::
  "env \<Rightarrow> DhcpClientCtx \<Rightarrow> DhcpMessage world \<Rightarrow> DhcpClientCtx \<times> DhcpMessage world" where
  "dhcpCheckTimeout e context w =
     (let time = osGetSystemTime e
      in if timeoutEvent (settings context)
            \<and> timeCompare time (configStartTime context + timeoutS (settings context)) \<ge> 0
            \<and> \<not> timeoutEventDone context
         then (context\<lparr>timeoutEventDone := True\<rparr>, emit TimeoutEvent w)
         else (context, w))"

definition dhcpComputeElapsedTime :: "env \<Rightarrow> DhcpClientCtx \<Rightarrow> uint16_t" where
  "dhcpComputeElapsedTime e context =
     (let time = (osGetSystemTime e - configStartTime context) div 1000;
          time = (if time > 0xFFFF then 0xFFFF else time)
      in ucast time)"

subsection \<open>Outgoing messages\<close>

text \<open>The message buffer after \<^verbatim>\<open>memset(message, 0, DHCP_MIN_MSG_SIZE)\<close>.\<close>

definition dhcp_memset_0 :: DhcpMessage where
  "dhcp_memset_0 = \<lparr>op = 0, htype = 0, hlen = 0, hops = 0, xid = 0, secs = 0, flags = 0,
     ciaddr = 0, yiaddr = 0, siaddr = 0, giaddr = 0, chaddr = replicate 16 0,
     magicCookie = 0, dhcpOptions = []\<rparr>"

definition string_bytes :: "string \<Rightarrow> byte list" where
  "string_bytes str = map (\<lambda>c. word_of_nat (of_char c)) str"

definition dhcpSend ::
  "config \<Rightarrow> env \<Rightarrow> DhcpMessage world \<Rightarrow> uint32_t \<Rightarrow> DhcpMessage \<Rightarrow> DhcpMessage world" where
  "dhcpSend cfg e w destIpAddr message =
     emit (UdpSendDatagram DHCP_CLIENT_PORT (htonl destIpAddr) DHCP_SERVER_PORT message
             (IPV4_DEFAULT_TTL cfg)) w"

definition dhcpSendDiscover ::
  "config \<Rightarrow> env \<Rightarrow> DhcpClientCtx \<Rightarrow> DhcpMessage world \<Rightarrow> DhcpMessage world" where
  "dhcpSendDiscover cfg e context w =
     (if \<not> udpAllocBuffer e then w
      else
        let iface = netInterface w;
            message = dhcp_memset_0;
            message = message\<lparr>op := DHCP_OPCODE_BOOTREQUEST, htype := DHCP_HARDWARE_TYPE_ETH,
                        hlen := 6, xid := transactionId context,
                        secs := dhcpComputeElapsedTime e context,
                        flags := DHCP_FLAG_BROADCAST, ciaddr := IPV4_UNSPECIFIED_ADDR,
                        chaddr := memcpy (chaddr message) (macAddr iface) 6\<rparr>;
            message = message\<lparr>magicCookie := DHCP_MAGIC_COOKIE\<rparr>;
            message = dhcpAddOption message DHCP_OPT_DHCP_MESSAGE_TYPE [DHCP_MESSAGE_TYPE_DISCOVER];
            message = (if length (hostname (settings context)) > 0
                       then dhcpAddOption message DHCP_OPT_HOST_NAME
                              (string_bytes (hostname (settings context)))
                       else message);
            message = (if rapidCommit (settings context)
                       then dhcpAddOption message DHCP_OPT_RAPID_COMMIT []
                       else message)
        in dhcpSend cfg e w IPV4_BROADCAST_ADDR message)"

definition dhcpSendRequest ::
  "config \<Rightarrow> env \<Rightarrow> DhcpClientCtx \<Rightarrow> DhcpMessage world \<Rightarrow> DhcpMessage world" where
  "dhcpSendRequest cfg e context w =
     (if \<not> udpAllocBuffer e then w
      else
        let iface = netInterface w;
            optionList = [DHCP_OPT_SUBNET_MASK, DHCP_OPT_ROUTER, DHCP_OPT_DNS_SERVER,
                          DHCP_OPT_INTERFACE_MTU, DHCP_OPT_IP_ADDRESS_LEASE_TIME,
                          DHCP_OPT_RENEWAL_TIME_VALUE, DHCP_OPT_REBINDING_TIME_VALUE];
            message = dhcp_memset_0;
            message = message\<lparr>op := DHCP_OPCODE_BOOTREQUEST, htype := DHCP_HARDWARE_TYPE_ETH,
                        hlen := 6, xid := transactionId context,
                        secs := dhcpComputeElapsedTime e context\<rparr>;
            message = (if state context = DHCP_STATE_RENEWING \<or> state context = DHCP_STATE_REBINDING
                       then message\<lparr>flags := 0, ciaddr := addr (ipv4Config iface)\<rparr>
                       else message\<lparr>flags := DHCP_FLAG_BROADCAST, ciaddr := IPV4_UNSPECIFIED_ADDR\<rparr>);
            message = message\<lparr>chaddr := memcpy (chaddr message) (macAddr iface) 6\<rparr>;
            message = message\<lparr>magicCookie := DHCP_MAGIC_COOKIE\<rparr>;
            message = dhcpAddOption message DHCP_OPT_DHCP_MESSAGE_TYPE [DHCP_MESSAGE_TYPE_REQUEST];
            message = (if length (hostname (settings context)) > 0
                       then dhcpAddOption message DHCP_OPT_HOST_NAME
                              (string_bytes (hostname (settings context)))
                       else message);
            message = (if state context = DHCP_STATE_REQUESTING
                       then dhcpAddOption message DHCP_OPT_SERVER_IDENTIFIER
                              (htonl (serverIpAddr context))
                       else message);
            message = (if state context = DHCP_STATE_REQUESTING \<or> state context = DHCP_STATE_REBOOTING
                       then dhcpAddOption message DHCP_OPT_REQUESTED_IP_ADDRESS
                              (htonl (requestedIpAddr context))
                       else message);
            message = dhcpAddOption message DHCP_OPT_PARAM_REQUEST_LIST optionList;
            destIpAddr = (if state context = DHCP_STATE_RENEWING then serverIpAddr context
                          else IPV4_BROADCAST_ADDR)
        in dhcpSend cfg e w destIpAddr message)"

definition dhcpSendDecline ::
  "config \<Rightarrow> env \<Rightarrow> DhcpClientCtx \<Rightarrow> DhcpMessage world \<Rightarrow> DhcpMessage world" where
  "dhcpSendDecline cfg e context w =
     (if \<not> udpAllocBuffer e then w
      else
        let iface = netInterface w;
            message = dhcp_memset_0;
            message = message\<lparr>op := DHCP_OPCODE_BOOTREQUEST, htype := DHCP_HARDWARE_TYPE_ETH,
                        hlen := 6, xid := transactionId context, secs := 0, flags := 0,
                        ciaddr := IPV4_UNSPECIFIED_ADDR,
                        chaddr := memcpy (chaddr message) (macAddr iface) 6\<rparr>;
            message = message\<lparr>magicCookie := DHCP_MAGIC_COOKIE\<rparr>;
            message = dhcpAddOption message DHCP_OPT_DHCP_MESSAGE_TYPE [DHCP_MESSAGE_TYPE_DECLINE];
            message = dhcpAddOption message DHCP_OPT_SERVER_IDENTIFIER (htonl (serverIpAddr context));
            message = dhcpAddOption message DHCP_OPT_REQUESTED_IP_ADDRESS
                        (htonl (requestedIpAddr context))
        in dhcpSend cfg e w IPV4_BROADCAST_ADDR message)"

subsection \<open>State handlers\<close>

definition dhcpStateInit ::
  "config \<Rightarrow> env \<Rightarrow> DhcpClientCtx \<Rightarrow> DhcpMessage world \<Rightarrow> DhcpClientCtx \<times> DhcpMessage world" where
  "dhcpStateInit cfg e context w =
     (if running context then
        if linkState (netInterface w) then
          let delay = netGetRandRange (netGetRand1 e) 0 (DHCP_CLIENT_INIT_DELAY cfg);
              context = context\<lparr>configStartTime := osGetSystemTime e\<rparr>;
              context = context\<lparr>timeoutEventDone := False\<rparr>
          in dhcpChangeState e context w DHCP_STATE_SELECTING delay
        else (context, w)
      else (context, w))"

definition dhcpStateSelecting ::
  "config \<Rightarrow> env \<Rightarrow> DhcpClientCtx \<Rightarrow> DhcpMessage world \<Rightarrow> DhcpClientCtx \<times> DhcpMessage world" where
  "dhcpStateSelecting cfg e context w =
     (let time = osGetSystemTime e;
          (context, w) =
            (if timeCompare time (timestamp context + timeout context) \<ge> 0 then
               let (context, w, r) =
                     (if retransmitCount context = 0 then
                        let context = context\<lparr>transactionId := netGetRand1 e\<rparr>;
                            w = dhcpSendDiscover cfg e context w;
                            context = context\<lparr>retransmitTimeout := DHCP_CLIENT_DISCOVER_INIT_RT cfg\<rparr>
                        in (context, w, netGetRand2 e)
                      else
                        let w = dhcpSendDiscover cfg e context w;
                            context = context\<lparr>retransmitTimeout := retransmitTimeout context * 2\<rparr>;
                            context = (if retransmitTimeout context > DHCP_CLIENT_DISCOVER_MAX_RT cfg
                                       then context\<lparr>retransmitTimeout :=
                                                      DHCP_CLIENT_DISCOVER_MAX_RT cfg\<rparr>
                                       else context)
                        in (context, w, netGetRand1 e));
                   context = context\<lparr>timestamp := time\<rparr>;
                   context = context\<lparr>timeout := retransmitTimeout context
                                + netGetRandRange r (- DHCP_CLIENT_RAND_FACTOR cfg)
                                    (DHCP_CLIENT_RAND_FACTOR cfg)\<rparr>;
                   context = context\<lparr>retransmitCount := retransmitCount context + 1\<rparr>
               in (context, w)
             else (context, w))
      in dhcpCheckTimeout e context w)"

text \<open>The REQUESTING and REBOOTING handlers have the same body.\<close>

definition dhcpStateRequesting ::
  "config \<Rightarrow> env \<Rightarrow> DhcpClientCtx \<Rightarrow> DhcpMessage world \<Rightarrow> DhcpClientCtx \<times> DhcpMessage world" where
  "dhcpStateRequesting cfg e context w =
     (let time = osGetSystemTime e;
          (context, w) =
            (if timeCompare time (timestamp context + timeout context) \<ge> 0 then
               if retransmitCount context = 0 then
                 let context = context\<lparr>transactionId := netGetRand1 e\<rparr>;
                     w = dhcpSendRequest cfg e context w;
                     context = context\<lparr>retransmitTimeout := DHCP_CLIENT_REQUEST_INIT_RT cfg\<rparr>;
                     context = context\<lparr>timestamp := time\<rparr>;
                     context = context\<lparr>timeout := retransmitTimeout context
                                  + netGetRandRange (netGetRand2 e) (- DHCP_CLIENT_RAND_FACTOR cfg)
                                      (DHCP_CLIENT_RAND_FACTOR cfg)\<rparr>;
                     context = context\<lparr>retransmitCount := retransmitCount context + 1\<rparr>
                 in (context, w)
               else if retransmitCount context < DHCP_CLIENT_REQUEST_MAX_RC cfg then
                 let w = dhcpSendRequest cfg e context w;
                     context = context\<lparr>retransmitTimeout := retransmitTimeout context * 2\<rparr>;
                     context = (if retransmitTimeout context > DHCP_CLIENT_REQUEST_MAX_RT cfg
                                then context\<lparr>retransmitTimeout := DHCP_CLIENT_REQUEST_MAX_RT cfg\<rparr>
                                else context);
                     context = context\<lparr>timestamp := time\<rparr>;
                     context = context\<lparr>timeout := retransmitTimeout context
                                  + netGetRandRange (netGetRand1 e) (- DHCP_CLIENT_RAND_FACTOR cfg)
                                      (DHCP_CLIENT_RAND_FACTOR cfg)\<rparr>;
                     context = context\<lparr>retransmitCount := retransmitCount context + 1\<rparr>
                 in (context, w)
               else dhcpChangeState e context w DHCP_STATE_INIT 0
             else (context, w))
      in dhcpCheckTimeout e context w)"

definition dhcpStateInitReboot ::
  "config \<Rightarrow> env \<Rightarrow> DhcpClientCtx \<Rightarrow> DhcpMessage world \<Rightarrow> DhcpClientCtx \<times> DhcpMessage world" where
  "dhcpStateInitReboot cfg e context w =
     (if running context then
        if linkState (netInterface w) then
          let delay = netGetRandRange (netGetRand1 e) 0 (DHCP_CLIENT_INIT_DELAY cfg);
              context = context\<lparr>configStartTime := osGetSystemTime e\<rparr>;
              context = context\<lparr>timeoutEventDone := False\<rparr>
          in dhcpChangeState e context w DHCP_STATE_REBOOTING delay
        else (context, w)
      else (context, w))"

definition dhcpStateRebooting ::
  "config \<Rightarrow> env \<Rightarrow> DhcpClientCtx \<Rightarrow> DhcpMessage world \<Rightarrow> DhcpClientCtx \<times> DhcpMessage world" where
  "dhcpStateRebooting cfg e context w =
     (let time = osGetSystemTime e;
          (context, w) =
            (if timeCompare time (timestamp context + timeout context) \<ge> 0 then
               if retransmitCount context = 0 then
                 let context = context\<lparr>transactionId := netGetRand1 e\<rparr>;
                     w = dhcpSendRequest cfg e context w;
                     context = context\<lparr>retransmitTimeout := DHCP_CLIENT_REQUEST_INIT_RT cfg\<rparr>;
                     context = context\<lparr>timestamp := time\<rparr>;
                     context = context\<lparr>timeout := retransmitTimeout context
                                  + netGetRandRange (netGetRand2 e) (- DHCP_CLIENT_RAND_FACTOR cfg)
                                      (DHCP_CLIENT_RAND_FACTOR cfg)\<rparr>;
                     context = context\<lparr>retransmitCount := retransmitCount context + 1\<rparr>
                 in (context, w)
               else if retransmitCount context < DHCP_CLIENT_REQUEST_MAX_RC cfg then
                 let w = dhcpSendRequest cfg e context w;
                     context = context\<lparr>retransmitTimeout := retransmitTimeout context * 2\<rparr>;
                     context = (if retransmitTimeout context > DHCP_CLIENT_REQUEST_MAX_RT cfg
                                then context\<lparr>retransmitTimeout := DHCP_CLIENT_REQUEST_MAX_RT cfg\<rparr>
                                else context);
                     context = context\<lparr>timestamp := time\<rparr>;
                     context = context\<lparr>timeout := retransmitTimeout context
                                  + netGetRandRange (netGetRand1 e) (- DHCP_CLIENT_RAND_FACTOR cfg)
                                      (DHCP_CLIENT_RAND_FACTOR cfg)\<rparr>;
                     context = context\<lparr>retransmitCount := retransmitCount context + 1\<rparr>
                 in (context, w)
               else dhcpChangeState e context w DHCP_STATE_INIT 0
             else (context, w))
      in dhcpCheckTimeout e context w)"

definition dhcpStateBound ::
  "env \<Rightarrow> DhcpClientCtx \<Rightarrow> DhcpMessage world \<Rightarrow> DhcpClientCtx \<times> DhcpMessage world" where
  "dhcpStateBound e context w =
     (let time = osGetSystemTime e
      in if t1 context \<noteq> DHCP_INFINITE_TIME then
           let t1_ms = t1 context * 1000
           in if timeCompare time (leaseStartTime context + t1_ms) \<ge> 0 then
                let context = context\<lparr>configStartTime := time\<rparr>
                in dhcpChangeState e context w DHCP_STATE_RENEWING 0
              else (context, w)
         else (context, w))"

definition dhcpStateRenewing ::
  "config \<Rightarrow> env \<Rightarrow> DhcpClientCtx \<Rightarrow> DhcpMessage world \<Rightarrow> DhcpClientCtx \<times> DhcpMessage world" where
  "dhcpStateRenewing cfg e context w =
     (let time = osGetSystemTime e
      in if timeCompare time (timestamp context + timeout context) \<ge> 0 then
           let t2_ms = t2 context * 1000
           in if timeCompare time (leaseStartTime context + t2_ms) < 0 then
                let context = (if retransmitCount context = 0
                               then context\<lparr>transactionId := netGetRand1 e\<rparr> else context);
                    w = dhcpSendRequest cfg e context w;
                    context = context\<lparr>timestamp := time\<rparr>;
                    context = context\<lparr>timeout := leaseStartTime context + t2_ms - time\<rparr>;
                    context = (if timeout context > 2 * DHCP_CLIENT_REQUEST_MIN_DELAY cfg
                               then context\<lparr>timeout := timeout context div 2\<rparr> else context);
                    context = context\<lparr>retransmitCount := retransmitCount context + 1\<rparr>
                in (context, w)
              else dhcpChangeState e context w DHCP_STATE_REBINDING 0
         else (context, w))"

definition dhcpStateRebinding ::
  "config \<Rightarrow> env \<Rightarrow> DhcpClientCtx \<Rightarrow> DhcpMessage world \<Rightarrow> DhcpClientCtx \<times> DhcpMessage world" where
  "dhcpStateRebinding cfg e context w =
     (let time = osGetSystemTime e
      in if timeCompare time (timestamp context + timeout context) \<ge> 0 then
           let leaseTime_ms = leaseTime context * 1000
           in if timeCompare time (leaseStartTime context + leaseTime_ms) < 0 then
                let context = (if retransmitCount context = 0
                               then context\<lparr>transactionId := netGetRand1 e\<rparr> else context);
                    w = dhcpSendRequest cfg e context w;
                    context = context\<lparr>timestamp := time\<rparr>;
                    context = context\<lparr>timeout := leaseStartTime context + leaseTime_ms - time\<rparr>;
                    context = (if timeout context > 2 * DHCP_CLIENT_REQUEST_MIN_DELAY cfg
                               then context\<lparr>timeout := timeout context div 2\<rparr> else context);
                    context = context\<lparr>retransmitCount := retransmitCount context + 1\<rparr>
                in (context, w)
              else
                let w = w\<lparr>netInterface := ipv4SetHostAddrEx (netInterface w)
                              IPV4_UNSPECIFIED_ADDR IPV4_ADDR_STATE_INVALID\<rparr>;
                    w = w\<lparr>netInterface := ipv4SetSubnetMask (netInterface w) IPV4_UNSPECIFIED_ADDR\<rparr>
                in dhcpChangeState e context w DHCP_STATE_INIT 0
         else (context, w))"

subsection \<open>Timer handler and link change\<close>

definition dhcpClientTick ::
  "config \<Rightarrow> env \<Rightarrow> DhcpClientCtx \<Rightarrow> DhcpMessage world \<Rightarrow> DhcpClientCtx \<times> DhcpMessage world" where
  "dhcpClientTick cfg e context w =
     (if state context = DHCP_STATE_INIT then dhcpStateInit cfg e context w
      else if state context = DHCP_STATE_SELECTING then dhcpStateSelecting cfg e context w
      else if state context = DHCP_STATE_REQUESTING then dhcpStateRequesting cfg e context w
      else if state context = DHCP_STATE_INIT_REBOOT then dhcpStateInitReboot cfg e context w
      else if state context = DHCP_STATE_REBOOTING then dhcpStateRebooting cfg e context w
      else if state context = DHCP_STATE_BOUND then dhcpStateBound e context w
      else if state context = DHCP_STATE_RENEWING then dhcpStateRenewing cfg e context w
      else if state context = DHCP_STATE_REBINDING then dhcpStateRebinding cfg e context w
      else (context\<lparr>state := DHCP_STATE_INIT\<rparr>, w))"

definition dhcpClientLinkChangeEvent ::
  "DhcpClientCtx \<Rightarrow> DhcpMessage world \<Rightarrow> DhcpClientCtx \<times> DhcpMessage world" where
  "dhcpClientLinkChangeEvent context w =
     (let w = (if running context then
                 let w = w\<lparr>netInterface := ipv4SetHostAddrEx (netInterface w)
                               IPV4_UNSPECIFIED_ADDR IPV4_ADDR_STATE_INVALID\<rparr>
                 in w\<lparr>netInterface := ipv4SetSubnetMask (netInterface w) IPV4_UNSPECIFIED_ADDR\<rparr>
               else w);
          context = (if state context \<ge> DHCP_STATE_INIT_REBOOT
                     then context\<lparr>state := DHCP_STATE_INIT_REBOOT\<rparr>
                     else context\<lparr>state := DHCP_STATE_INIT\<rparr>)
      in if linkChangeEvent (settings context)
         then (context, emit (LinkChangeEvent (linkState (netInterface w))) w)
         else (context, w))"

subsection \<open>Incoming messages\<close>

definition dhcpParseOffer ::
  "env \<Rightarrow> DhcpClientCtx \<Rightarrow> DhcpMessage world \<Rightarrow> DhcpMessage \<Rightarrow> nat
     \<Rightarrow> DhcpClientCtx \<times> DhcpMessage world" where
  "dhcpParseOffer e context w message len =
     (if op message \<noteq> DHCP_OPCODE_BOOTREPLY then (context, w)
      else if htype message \<noteq> DHCP_HARDWARE_TYPE_ETH then (context, w)
      else if hlen message \<noteq> 6 then (context, w)
      else if xid message \<noteq> transactionId context then (context, w)
      else if yiaddr message = IPV4_UNSPECIFIED_ADDR then (context, w)
      else if take 6 (chaddr message) \<noteq> take 6 (macAddr (netInterface w)) then (context, w)
      else if magicCookie message \<noteq> DHCP_MAGIC_COOKIE then (context, w)
      else
        (case dhcpGetOption message len DHCP_OPT_DHCP_MESSAGE_TYPE of
           None \<Rightarrow> (context, w)
         | Some option \<Rightarrow>
           if optLength option \<noteq> 1 then (context, w)
           else if optValue option ! 0 \<noteq> DHCP_MESSAGE_TYPE_OFFER then (context, w)
           else
             (case dhcpGetOption message len DHCP_OPT_SERVER_IDENTIFIER of
                None \<Rightarrow> (context, w)
              | Some option \<Rightarrow>
                if optLength option \<noteq> 4 then (context, w)
                else
                  let context = context\<lparr>serverIpAddr := be32 (optValue option)\<rparr>;
                      context = context\<lparr>requestedIpAddr := yiaddr message\<rparr>
                  in dhcpChangeState e context w DHCP_STATE_REQUESTING 0)))"

text \<open>The C condition \<^verbatim>\<open>option && test\<close> on the result of \<^verbatim>\<open>dhcpGetOption\<close>: the
  option, if one was found and it passes the test.\<close>

definition dhcpOptionWith ::
  "(DhcpOption \<Rightarrow> bool) \<Rightarrow> DhcpOption option \<Rightarrow> DhcpOption option" where
  "dhcpOptionWith test found =
     (case found of None \<Rightarrow> None | Some option \<Rightarrow> if test option then Some option else None)"

text \<open>The DNS servers of a DNS Server option, copied into the interface's table
  (\<open>i\<close> counts the loop).\<close>

fun dhcpCopyDnsServers :: "NetInterface \<Rightarrow> byte list \<Rightarrow> nat \<Rightarrow> nat \<Rightarrow> NetInterface" where
  "dhcpCopyDnsServers iface v i 0 = iface"
| "dhcpCopyDnsServers iface v i (Suc k) =
     dhcpCopyDnsServers
       (iface\<lparr>ipv4Config := (ipv4Config iface)\<lparr>dnsServer :=
          (dnsServer (ipv4Config iface))[i := be32 (drop (i * 4) v)]\<rparr>\<rparr>) v (Suc i) k"

definition dhcpParseAckNak ::
  "config \<Rightarrow> env \<Rightarrow> DhcpClientCtx \<Rightarrow> DhcpMessage world \<Rightarrow> DhcpMessage \<Rightarrow> nat
     \<Rightarrow> DhcpClientCtx \<times> DhcpMessage world" where
  "dhcpParseAckNak cfg e context w message len =
     (if op message \<noteq> DHCP_OPCODE_BOOTREPLY then (context, w)
      else if htype message \<noteq> DHCP_HARDWARE_TYPE_ETH then (context, w)
      else if hlen message \<noteq> 6 then (context, w)
      else if xid message \<noteq> transactionId context then (context, w)
      else if take 6 (chaddr message) \<noteq> take 6 (macAddr (netInterface w)) then (context, w)
      else if magicCookie message \<noteq> DHCP_MAGIC_COOKIE then (context, w)
      else
        (case dhcpGetOption message len DHCP_OPT_DHCP_MESSAGE_TYPE of
           None \<Rightarrow> (context, w)
         | Some option \<Rightarrow>
           if optLength option \<noteq> 1 then (context, w)
           else if optValue option ! 0 = DHCP_MESSAGE_TYPE_NAK then
             let w = w\<lparr>netInterface := ipv4SetHostAddrEx (netInterface w)
                           IPV4_UNSPECIFIED_ADDR IPV4_ADDR_STATE_INVALID\<rparr>;
                 w = w\<lparr>netInterface := ipv4SetSubnetMask (netInterface w) IPV4_UNSPECIFIED_ADDR\<rparr>
             in dhcpChangeState e context w DHCP_STATE_INIT 0
           else if optValue option ! 0 = DHCP_MESSAGE_TYPE_ACK then
             (case dhcpGetOption message len DHCP_OPT_SERVER_IDENTIFIER of
                None \<Rightarrow> (context, w)
              | Some option \<Rightarrow>
                if optLength option \<noteq> 4 then (context, w)
                else if be32 (optValue option) \<noteq> serverIpAddr context then (context, w)
                else
                  (case dhcpGetOption message len DHCP_OPT_IP_ADDRESS_LEASE_TIME of
                     None \<Rightarrow> (context, w)
                   | Some option \<Rightarrow>
                     if optLength option \<noteq> 4 then (context, w)
                     else
                       let context = context\<lparr>leaseTime := be32 (optValue option)\<rparr>;
                           context =
                             (case dhcpOptionWith (\<lambda>option. optLength option = 4)
                                     (dhcpGetOption message len DHCP_OPT_RENEWAL_TIME_VALUE) of
                                Some option \<Rightarrow> context\<lparr>t1 := be32 (optValue option)\<rparr>
                              | None \<Rightarrow>
                                  if leaseTime context \<noteq> DHCP_INFINITE_TIME
                                  then context\<lparr>t1 := leaseTime context div 2\<rparr>
                                  else context\<lparr>t1 := DHCP_INFINITE_TIME\<rparr>);
                           context =
                             (case dhcpOptionWith (\<lambda>option. optLength option = 4)
                                     (dhcpGetOption message len DHCP_OPT_REBINDING_TIME_VALUE) of
                                Some option \<Rightarrow> context\<lparr>t2 := be32 (optValue option)\<rparr>
                              | None \<Rightarrow>
                                  if leaseTime context \<noteq> DHCP_INFINITE_TIME
                                  then context\<lparr>t2 := leaseTime context * 7 div 8\<rparr>
                                  else context\<lparr>t2 := DHCP_INFINITE_TIME\<rparr>);
                           iface = netInterface w;
                           iface =
                             (case dhcpOptionWith (\<lambda>option. optLength option = 4)
                                     (dhcpGetOption message len DHCP_OPT_SUBNET_MASK) of
                                Some option \<Rightarrow>
                                  iface\<lparr>ipv4Config := (ipv4Config iface)
                                    \<lparr>subnetMask := be32 (optValue option)\<rparr>\<rparr>
                              | None \<Rightarrow> iface);
                           iface =
                             (case dhcpOptionWith (\<lambda>option. unat (optLength option) mod 4 = 0)
                                     (dhcpGetOption message len DHCP_OPT_ROUTER) of
                                Some option \<Rightarrow>
                                  if unat (optLength option) \<ge> 4
                                  then iface\<lparr>ipv4Config := (ipv4Config iface)
                                         \<lparr>defaultGateway := be32 (optValue option)\<rparr>\<rparr>
                                  else iface
                              | None \<Rightarrow> iface);
                           iface =
                             (if \<not> manualDnsConfig (settings context) then
                                (case dhcpOptionWith (\<lambda>option. unat (optLength option) mod 4 = 0)
                                        (dhcpGetOption message len DHCP_OPT_DNS_SERVER) of
                                   Some option \<Rightarrow>
                                     dhcpCopyDnsServers iface (optValue option) 0
                                       (min (unat (optLength option) div 4)
                                            (IPV4_MAX_DNS_SERVERS cfg))
                                 | None \<Rightarrow> iface)
                              else iface);
                           iface =
                             (case dhcpOptionWith (\<lambda>option. optLength option = 2)
                                     (dhcpGetOption message len DHCP_OPT_INTERFACE_MTU) of
                                Some option \<Rightarrow> ipv4SetMtu iface (unat (be16 (optValue option)))
                              | None \<Rightarrow> iface);
                           iface = ipv4SetHostAddrEx iface (yiaddr message) IPV4_ADDR_STATE_VALID;
                           context = context\<lparr>leaseStartTime := osGetSystemTime e\<rparr>
                       in dhcpChangeState e context (w\<lparr>netInterface := iface\<rparr>) DHCP_STATE_BOUND 0))
           else (context, w)))"

text \<open>The UDP receive callback: a message and the length of the datagram from
  \<^verbatim>\<open>offset\<close> on.\<close>

definition dhcpClientProcessMessage ::
  "config \<Rightarrow> env \<Rightarrow> DhcpClientCtx \<Rightarrow> DhcpMessage world \<Rightarrow> DhcpMessage \<Rightarrow> nat
     \<Rightarrow> DhcpClientCtx \<times> DhcpMessage world" where
  "dhcpClientProcessMessage cfg e context w message len =
     (if len < sizeof_DhcpMessage then (context, w)
      else if len > DHCP_MAX_MSG_SIZE cfg then (context, w)
      else if state context = DHCP_STATE_SELECTING then dhcpParseOffer e context w message len
      else if state context = DHCP_STATE_REQUESTING \<or> state context = DHCP_STATE_REBOOTING
              \<or> state context = DHCP_STATE_RENEWING \<or> state context = DHCP_STATE_REBINDING
        then dhcpParseAckNak cfg e context w message len
      else (context, w))"

subsection \<open>User interface\<close>

definition dhcpClient_memset_0 :: "DhcpClientSettings \<Rightarrow> DhcpClientCtx" where
  "dhcpClient_memset_0 s =
     \<lparr>settings = s, running = False, state = 0, timestamp = 0, timeout = 0,
      retransmitCount = 0, timeoutEventDone = False, transactionId = 0,
      configStartTime = 0, leaseStartTime = 0, t1 = 0, t2 = 0,
      retransmitTimeout = 0, requestedIpAddr = 0, serverIpAddr = 0, leaseTime = 0\<rparr>"

definition dhcpClientInit ::
  "config \<Rightarrow> env \<Rightarrow> DhcpClientCtx option \<Rightarrow> DhcpClientSettings option \<Rightarrow> DhcpMessage world
     \<Rightarrow> error_t \<times> DhcpClientCtx option \<times> DhcpMessage world" where
  "dhcpClientInit cfg e context_ptr settings_ptr w =
     (case (context_ptr, settings_ptr) of
        (Some old, Some s) \<Rightarrow>
          if interface s = NULL then (ERROR_INVALID_PARAMETER, context_ptr, w)
          else
            let iface = netInterface w;
                context = dhcpClient_memset_0 s;
                context =
                  (if hostname s = []
                   then context\<lparr>settings := (settings context)\<lparr>hostname :=
                          take (min (length (ifHostname iface)) (DHCP_CLIENT_MAX_HOSTNAME_LEN cfg))
                               (ifHostname iface)\<rparr>\<rparr>
                   else context)
            in if \<not> osCreateMutex e then (ERROR_OUT_OF_RESOURCES, Some context, w)
               else
                 let w = emit (UdpAttachRxCallback DHCP_CLIENT_PORT) w
                 in if udpAttachRxCallback e \<noteq> NO_ERROR
                    then (udpAttachRxCallback e, Some context, w)
                    else
                      let context = context\<lparr>running := False\<rparr>;
                          context = context\<lparr>state := DHCP_STATE_INIT\<rparr>;
                          w = w\<lparr>netInterface := iface\<lparr>dhcpClientContext := True\<rparr>\<rparr>
                      in (NO_ERROR, Some context, w)
      | _ \<Rightarrow> (ERROR_INVALID_PARAMETER, context_ptr, w))"

definition dhcpClientStart ::
  "DhcpClientCtx option \<Rightarrow> DhcpMessage world
     \<Rightarrow> error_t \<times> DhcpClientCtx option \<times> DhcpMessage world" where
  "dhcpClientStart context_ptr w =
     (case context_ptr of
        None \<Rightarrow> (ERROR_INVALID_PARAMETER, None, w)
      | Some context \<Rightarrow>
          let context = context\<lparr>running := True\<rparr>;
              context = context\<lparr>state := DHCP_STATE_INIT\<rparr>
          in (NO_ERROR, Some context, w))"

definition dhcpClientStop ::
  "DhcpClientCtx option \<Rightarrow> DhcpMessage world
     \<Rightarrow> error_t \<times> DhcpClientCtx option \<times> DhcpMessage world" where
  "dhcpClientStop context_ptr w =
     (case context_ptr of
        None \<Rightarrow> (ERROR_INVALID_PARAMETER, None, w)
      | Some context \<Rightarrow>
          let context = context\<lparr>running := False\<rparr>;
              context = context\<lparr>state := DHCP_STATE_INIT\<rparr>
          in (NO_ERROR, Some context, w))"

text \<open>\<^verbatim>\<open>dhcpClientGetState\<close> returns a \<^verbatim>\<open>DhcpState\<close> and dereferences its argument
  without a test: for a \<^verbatim>\<open>NULL\<close> pointer C defines no result (\<open>None\<close>).\<close>

definition dhcpClientGetState :: "DhcpClientCtx option \<Rightarrow> nat option" where
  "dhcpClientGetState context_ptr =
     (case context_ptr of None \<Rightarrow> None | Some context \<Rightarrow> Some (state context))"

section \<open>SLAAC engine\<close>

subsection \<open>Constants, settings and Router Advertisements\<close>

text \<open>Modelled from the spec: \<^verbatim>\<open>slaac.h\<close> is not among the sources; the values of
  \<^verbatim>\<open>SlaacState\<close> follow the order in which the spec lists the states. The engine
  only tests them for equality.\<close>

definition SLAAC_STATE_INIT :: nat where "SLAAC_STATE_INIT = 0"
definition SLAAC_STATE_LINK_LOCAL_ADDR_DAD :: nat where "SLAAC_STATE_LINK_LOCAL_ADDR_DAD = 1"
definition SLAAC_STATE_ROUTER_SOLICIT :: nat where "SLAAC_STATE_ROUTER_SOLICIT = 2"
definition SLAAC_STATE_GLOBAL_ADDR_DAD :: nat where "SLAAC_STATE_GLOBAL_ADDR_DAD = 3"
definition SLAAC_STATE_CONFIGURED :: nat where "SLAAC_STATE_CONFIGURED = 4"
definition SLAAC_STATE_NO_ROUTER :: nat where "SLAAC_STATE_NO_ROUTER = 5"
definition SLAAC_STATE_DAD_FAILURE :: nat where "SLAAC_STATE_DAD_FAILURE = 6"

text \<open>The declared state set of the SLAAC engine (\<^verbatim>\<open>SlaacState\<close>).\<close>

definition SlaacState :: "nat set" where
  "SlaacState = {SLAAC_STATE_INIT, SLAAC_STATE_LINK_LOCAL_ADDR_DAD, SLAAC_STATE_ROUTER_SOLICIT,
     SLAAC_STATE_GLOBAL_ADDR_DAD, SLAAC_STATE_CONFIGURED, SLAAC_STATE_NO_ROUTER,
     SLAAC_STATE_DAD_FAILURE}"

record SlaacSettings = net_settings +
  minRtrSolicitationDelay :: systime_t
  maxRtrSolicitationDelay :: systime_t
  rtrSolicitationInterval :: systime_t
  maxRtrSolicitations :: uint32_t
  dupAddrDetectTransmits :: uint32_t
  parseRouterAdvCallback :: bool

type_synonym SlaacContext = "SlaacSettings engine_ctx"

text \<open>Modelled from the spec: the NDP message formats and \<^verbatim>\<open>ndpGetOption\<close> of
  \<^verbatim>\<open>ndp.c\<close> are not among the sources. A Router Advertisement carries a list of
  options; of a Prefix Information option the engine reads the length (in units of 8
  bytes), the prefix length, the Autonomous flag, the two lifetimes (with \<^verbatim>\<open>ntohl\<close>)
  and the prefix, of an RDNSS option the length and the addresses (\<open>rdnssAddress i\<close>
  is what \<^verbatim>\<open>address[i]\<close> reads). The search returns the first option of the
  requested type.\<close>

record NdpPrefixInfoOption =
  pioLength :: byte
  pioPrefixLength :: byte
  pioA :: bool
  pioValidLifetime :: uint32_t
  pioPreferredLifetime :: uint32_t
  pioPrefix :: "byte list"

record NdpRdnssOption =
  rdnssLength :: byte
  rdnssAddress :: "nat \<Rightarrow> byte list"

datatype NdpOption =
    NDP_OPT_PREFIX_INFORMATION NdpPrefixInfoOption
  | NDP_OPT_RECURSIVE_DNS_SERVER NdpRdnssOption
  | NDP_OPT_OTHER byte

record NdpRouterAdvMessage =
  raOptions :: "NdpOption list"

fun ndpGetOption_PREFIX_INFORMATION :: "NdpOption list \<Rightarrow> NdpPrefixInfoOption option" where
  "ndpGetOption_PREFIX_INFORMATION [] = None"
| "ndpGetOption_PREFIX_INFORMATION (NDP_OPT_PREFIX_INFORMATION p # os) = Some p"
| "ndpGetOption_PREFIX_INFORMATION (NDP_OPT_RECURSIVE_DNS_SERVER r # os) =
     ndpGetOption_PREFIX_INFORMATION os"
| "ndpGetOption_PREFIX_INFORMATION (NDP_OPT_OTHER t # os) = ndpGetOption_PREFIX_INFORMATION os"

fun ndpGetOption_RECURSIVE_DNS_SERVER :: "NdpOption list \<Rightarrow> NdpRdnssOption option" where
  "ndpGetOption_RECURSIVE_DNS_SERVER [] = None"
| "ndpGetOption_RECURSIVE_DNS_SERVER (NDP_OPT_RECURSIVE_DNS_SERVER r # os) = Some r"
| "ndpGetOption_RECURSIVE_DNS_SERVER (NDP_OPT_PREFIX_INFORMATION p # os) =
     ndpGetOption_RECURSIVE_DNS_SERVER os"
| "ndpGetOption_RECURSIVE_DNS_SERVER (NDP_OPT_OTHER t # os) = ndpGetOption_RECURSIVE_DNS_SERVER os"

text \<open>Modelled from the spec: \<^verbatim>\<open>ipv6CompPrefix\<close> and the link-local prefix
  \<^verbatim>\<open>fe80::/64\<close> of \<^verbatim>\<open>ipv6.c\<close> are not among the sources; with a length of 64 the
  comparison is on the first eight bytes.\<close>

definition IPV6_LINK_LOCAL_ADDR_PREFIX :: "byte list" where
  "IPV6_LINK_LOCAL_ADDR_PREFIX = [0xFE, 0x80, 0, 0, 0, 0, 0, 0, 0, 0, 0, 0, 0, 0, 0, 0]"

definition ipv6CompPrefix :: "byte list \<Rightarrow> byte list \<Rightarrow> nat \<Rightarrow> bool" where
  "ipv6CompPrefix a b n = (take (n div 8) a = take (n div 8) b)"

text \<open>\<^verbatim>\<open>MAC_ADDR_FLAG_LOCAL\<close>, the Universal/Local bit of the first byte of a MAC
  address (\<^verbatim>\<open>ethernet.h\<close> is not among the sources).\<close>

definition MAC_ADDR_FLAG_LOCAL :: byte where "MAC_ADDR_FLAG_LOCAL = 0x02"

definition macAddrToEui64 :: "byte list \<Rightarrow> byte list" where
  "macAddrToEui64 mac =
     [(mac ! 0) XOR MAC_ADDR_FLAG_LOCAL, mac ! 1, mac ! 2, 0xFF, 0xFE, mac ! 3, mac ! 4, mac ! 5]"

subsection \<open>Timer handler, link change and Router Advertisement processing\<close>

definition slaacTick ::
  "env \<Rightarrow> SlaacContext \<Rightarrow> NdpRouterAdvMessage world
     \<Rightarrow> SlaacContext \<times> NdpRouterAdvMessage world" where
  "slaacTick e context w =
     (let time = osGetSystemTime e;
          iface = netInterface w
      in if state context = SLAAC_STATE_INIT then
           if running context \<and> linkState iface then
             let interfaceId = macAddrToEui64 (macAddr iface);
                 linkLocalAddr_v = htons 0xFE80 @ htons 0 @ htons 0 @ htons 0 @ interfaceId;
                 iface = ipv6SetLinkLocalAddrEx iface linkLocalAddr_v IPV6_ADDR_STATE_TENTATIVE;
                 context = context\<lparr>timestamp := time\<rparr>;
                 context = context\<lparr>timeout := 0\<rparr>;
                 context = context\<lparr>retransmitCount := 0\<rparr>;
                 context = context\<lparr>state := SLAAC_STATE_LINK_LOCAL_ADDR_DAD\<rparr>
             in (context, w\<lparr>netInterface := iface\<rparr>)
           else (context, w)
         else if state context = SLAAC_STATE_LINK_LOCAL_ADDR_DAD then
           if timeCompare time (timestamp context + timeout context) \<ge> 0 then
             if linkLocalAddrDup (ipv6Config iface) then
               let iface = ipv6SetLinkLocalAddrEx iface IPV6_UNSPECIFIED_ADDR IPV6_ADDR_STATE_INVALID;
                   context = context\<lparr>state := SLAAC_STATE_DAD_FAILURE\<rparr>
               in (context, w\<lparr>netInterface := iface\<rparr>)
             else if retransmitCount context < dupAddrDetectTransmits (settings context) then
               let w = emit (NdpSendNeighborSol (linkLocalAddr (ipv6Config iface)) True) w;
                   context = context\<lparr>timestamp := time\<rparr>;
                   context = context\<lparr>timeout := retransTimer (ipv6Config iface)\<rparr>;
                   context = context\<lparr>retransmitCount := retransmitCount context + 1\<rparr>
               in (context, w)
             else
               let iface = iface\<lparr>ipv6Config := (ipv6Config iface)
                              \<lparr>linkLocalAddrState := IPV6_ADDR_STATE_PREFERRED\<rparr>\<rparr>;
                   context = context\<lparr>timestamp := time\<rparr>;
                   context = context\<lparr>timeout := netGetRandRange (netGetRand1 e)
                                (minRtrSolicitationDelay (settings context))
                                (maxRtrSolicitationDelay (settings context))\<rparr>;
                   context = context\<lparr>retransmitCount := 0\<rparr>;
                   context = context\<lparr>state := SLAAC_STATE_ROUTER_SOLICIT\<rparr>
               in (context, w\<lparr>netInterface := iface\<rparr>)
           else (context, w)
         else if state context = SLAAC_STATE_ROUTER_SOLICIT then
           if timeCompare time (timestamp context + timeout context) \<ge> 0 then
             if retransmitCount context < maxRtrSolicitations (settings context) then
               let w = emit NdpSendRouterSol w;
                   context = context\<lparr>timestamp := time\<rparr>;
                   context = context\<lparr>timeout := rtrSolicitationInterval (settings context)\<rparr>;
                   context = context\<lparr>retransmitCount := retransmitCount context + 1\<rparr>
               in (context, w)
             else (context\<lparr>state := SLAAC_STATE_NO_ROUTER\<rparr>, w)
           else (context, w)
         else if state context = SLAAC_STATE_GLOBAL_ADDR_DAD then
           if timeCompare time (timestamp context + timeout context) \<ge> 0 then
             if globalAddrDup (ipv6Config iface) then
               let iface = ipv6SetGlobalAddrEx iface IPV6_UNSPECIFIED_ADDR IPV6_ADDR_STATE_INVALID;
                   context = context\<lparr>state := SLAAC_STATE_DAD_FAILURE\<rparr>
               in (context, w\<lparr>netInterface := iface\<rparr>)
             else if retransmitCount context < dupAddrDetectTransmits (settings context) then
               let w = emit (NdpSendNeighborSol (globalAddr (ipv6Config iface)) True) w;
                   context = context\<lparr>timestamp := time\<rparr>;
                   context = context\<lparr>timeout := retransTimer (ipv6Config iface)\<rparr>;
                   context = context\<lparr>retransmitCount := retransmitCount context + 1\<rparr>
               in (context, w)
             else
               let iface = iface\<lparr>ipv6Config := (ipv6Config iface)
                              \<lparr>globalAddrState := IPV6_ADDR_STATE_PREFERRED\<rparr>\<rparr>;
                   context = context\<lparr>state := SLAAC_STATE_CONFIGURED\<rparr>
               in (context, w\<lparr>netInterface := iface\<rparr>)
           else (context, w)
         else (context, w))"

definition slaacLinkChangeEvent ::
  "SlaacContext \<Rightarrow> NdpRouterAdvMessage world \<Rightarrow> SlaacContext \<times> NdpRouterAdvMessage world" where
  "slaacLinkChangeEvent context w =
     (let iface = netInterface w;
          iface = (if running context then
                     let iface = ipv6SetLinkLocalAddrEx iface IPV6_UNSPECIFIED_ADDR
                                   IPV6_ADDR_STATE_INVALID;
                         iface = ipv6SetGlobalAddrEx iface IPV6_UNSPECIFIED_ADDR
                                   IPV6_ADDR_STATE_INVALID
                     in ipv6SetPrefix iface IPV6_UNSPECIFIED_ADDR 0
                   else iface);
          context = context\<lparr>state := SLAAC_STATE_INIT\<rparr>
      in (context, w\<lparr>netInterface := iface\<rparr>))"

text \<open>The addresses of an RDNSS option, recorded with \<^verbatim>\<open>ipv6SetDnsServer\<close> (\<open>i\<close>
  counts the loop).\<close>

fun slaacCopyDnsServers :: "NetInterface \<Rightarrow> (nat \<Rightarrow> byte list) \<Rightarrow> nat \<Rightarrow> nat \<Rightarrow> NetInterface" where
  "slaacCopyDnsServers iface address i 0 = iface"
| "slaacCopyDnsServers iface address i (Suc k) =
     slaacCopyDnsServers (ipv6SetDnsServer iface i (address i)) address (Suc i) k"

definition slaacProcessRouterAdv ::
  "env \<Rightarrow> SlaacContext \<Rightarrow> NdpRouterAdvMessage world \<Rightarrow> NdpRouterAdvMessage \<Rightarrow> nat
     \<Rightarrow> SlaacContext \<times> NdpRouterAdvMessage world" where
  "slaacProcessRouterAdv e context w message len =
     (let w = (if parseRouterAdvCallback (settings context)
               then emit (ParseRouterAdvCallback message len) w else w)
      in if state context \<noteq> SLAAC_STATE_ROUTER_SOLICIT \<and> state context \<noteq> SLAAC_STATE_NO_ROUTER
           then (context, w)
         else
           (case ndpGetOption_PREFIX_INFORMATION (raOptions message) of
              None \<Rightarrow> (context, w)
            | Some prefixInfoOption \<Rightarrow>
              if pioLength prefixInfoOption \<noteq> 4 then (context, w)
              else if \<not> pioA prefixInfoOption then (context, w)
              else if ipv6CompPrefix (pioPrefix prefixInfoOption) IPV6_LINK_LOCAL_ADDR_PREFIX 64
                then (context, w)
              else if pioValidLifetime prefixInfoOption = 0 then (context, w)
              else if pioPreferredLifetime prefixInfoOption > pioValidLifetime prefixInfoOption
                then (context, w)
              else if pioPrefixLength prefixInfoOption \<noteq> 64 then (context, w)
              else
                let iface = netInterface w;
                    iface = ipv6SetPrefix iface (pioPrefix prefixInfoOption)
                              (unat (pioPrefixLength prefixInfoOption));
                    interfaceId = macAddrToEui64 (macAddr iface);
                    globalAddr_v = take 8 (pioPrefix prefixInfoOption) @ interfaceId;
                    iface = ipv6SetGlobalAddrEx iface globalAddr_v IPV6_ADDR_STATE_TENTATIVE;
                    iface =
                      (if \<not> manualDnsConfig (settings context) then
                         (case ndpGetOption_RECURSIVE_DNS_SERVER (raOptions message) of
                            None \<Rightarrow> iface
                          | Some rdnssOption \<Rightarrow>
                              if rdnssLength rdnssOption \<ge> 1
                              then slaacCopyDnsServers iface (rdnssAddress rdnssOption) 0
                                     ((unat (rdnssLength rdnssOption) - 1) div 2)
                              else iface)
                       else iface);
                    context = context\<lparr>timestamp := osGetSystemTime e\<rparr>;
                    context = context\<lparr>timeout := 0\<rparr>;
                    context = context\<lparr>retransmitCount := 0\<rparr>;
                    context = context\<lparr>state := SLAAC_STATE_GLOBAL_ADDR_DAD\<rparr>
                in (context, w\<lparr>netInterface := iface\<rparr>)))"

text \<open>\<^verbatim>\<open>slaacStart\<close>, \<^verbatim>\<open>slaacStop\<close>, \<^verbatim>\<open>slaacTick\<close> and \<^verbatim>\<open>slaacLinkChangeEvent\<close> hold the
  mutex of the context from their first access to their last. \<^verbatim>\<open>slaacProcessRouterAdv\<close>
  never takes it, and the driver's mutex is released before a received frame is
  dispatched: a call of one of the four from another task can run while
  \<^verbatim>\<open>slaacProcessRouterAdv\<close> is between its test of \<^verbatim>\<open>context->state\<close> and its writes to
  the context. The two parts of the function are, first, the callback and the tests of
  the state and of the Prefix Information option, which read the context and tell
  whether the writes will follow; and then the statements after the last test, which
  write the interface and the context as they find them.\<close>

definition slaacProcessRouterAdv_tests ::
  "SlaacContext \<Rightarrow> NdpRouterAdvMessage world \<Rightarrow> NdpRouterAdvMessage \<Rightarrow> nat
     \<Rightarrow> bool \<times> NdpRouterAdvMessage world" where
  "slaacProcessRouterAdv_tests context w message len =
     (let w = (if parseRouterAdvCallback (settings context)
               then emit (ParseRouterAdvCallback message len) w else w)
      in if state context \<noteq> SLAAC_STATE_ROUTER_SOLICIT \<and> state context \<noteq> SLAAC_STATE_NO_ROUTER
           then (False, w)
         else
           (case ndpGetOption_PREFIX_INFORMATION (raOptions message) of
              None \<Rightarrow> (False, w)
            | Some prefixInfoOption \<Rightarrow>
              if pioLength prefixInfoOption \<noteq> 4 then (False, w)
              else if \<not> pioA prefixInfoOption then (False, w)
              else if ipv6CompPrefix (pioPrefix prefixInfoOption) IPV6_LINK_LOCAL_ADDR_PREFIX 64
                then (False, w)
              else if pioValidLifetime prefixInfoOption = 0 then (False, w)
              else if pioPreferredLifetime prefixInfoOption > pioValidLifetime prefixInfoOption
                then (False, w)
              else if pioPrefixLength prefixInfoOption \<noteq> 64 then (False, w)
              else (True, w)))"

definition slaacProcessRouterAdv_writes ::
  "env \<Rightarrow> SlaacContext \<Rightarrow> NdpRouterAdvMessage world \<Rightarrow> NdpRouterAdvMessage
     \<Rightarrow> SlaacContext \<times> NdpRouterAdvMessage world" where
  "slaacProcessRouterAdv_writes e context w message =
     (case ndpGetOption_PREFIX_INFORMATION (raOptions message) of
        None \<Rightarrow> (context, w)
      | Some prefixInfoOption \<Rightarrow>
          let iface = netInterface w;
              iface = ipv6SetPrefix iface (pioPrefix prefixInfoOption)
                        (unat (pioPrefixLength prefixInfoOption));
              interfaceId = macAddrToEui64 (macAddr iface);
              globalAddr_v = take 8 (pioPrefix prefixInfoOption) @ interfaceId;
              iface = ipv6SetGlobalAddrEx iface globalAddr_v IPV6_ADDR_STATE_TENTATIVE;
              iface =
                (if \<not> manualDnsConfig (settings context) then
                   (case ndpGetOption_RECURSIVE_DNS_SERVER (raOptions message) of
                      None \<Rightarrow> iface
                    | Some rdnssOption \<Rightarrow>
                        if rdnssLength rdnssOption \<ge> 1
                        then slaacCopyDnsServers iface (rdnssAddress rdnssOption) 0
                               ((unat (rdnssLength rdnssOption) - 1) div 2)
                        else iface)
                 else iface);
              context = context\<lparr>timestamp := osGetSystemTime e\<rparr>;
              context = context\<lparr>timeout := 0\<rparr>;
              context = context\<lparr>retransmitCount := 0\<rparr>;
              context = context\<lparr>state := SLAAC_STATE_GLOBAL_ADDR_DAD\<rparr>
          in (context, w\<lparr>netInterface := iface\<rparr>))"

subsection \<open>User interface\<close>

definition slaac_memset_0 :: "SlaacSettings \<Rightarrow> SlaacContext" where
  "slaac_memset_0 s =
     \<lparr>settings = s, running = False, state = 0, timestamp = 0, timeout = 0,
      retransmitCount = 0\<rparr>"

definition slaacInit ::
  "env \<Rightarrow> SlaacContext option \<Rightarrow> SlaacSettings option \<Rightarrow> NdpRouterAdvMessage world
     \<Rightarrow> error_t \<times> SlaacContext option \<times> NdpRouterAdvMessage world" where
  "slaacInit e context_ptr settings_ptr w =
     (case (context_ptr, settings_ptr) of
        (Some old, Some s) \<Rightarrow>
          if interface s = NULL then (ERROR_INVALID_PARAMETER, context_ptr, w)
          else
            let iface = netInterface w;
                context = slaac_memset_0 s
            in if \<not> osCreateMutex e then (ERROR_OUT_OF_RESOURCES, Some context, w)
               else
                 let context = context\<lparr>running := False\<rparr>;
                     context = context\<lparr>state := SLAAC_STATE_INIT\<rparr>;
                     w = w\<lparr>netInterface := iface\<lparr>slaacContext := True\<rparr>\<rparr>
                 in (NO_ERROR, Some context, w)
      | _ \<Rightarrow> (ERROR_INVALID_PARAMETER, context_ptr, w))"

definition slaacStart ::
  "SlaacContext option \<Rightarrow> NdpRouterAdvMessage world
     \<Rightarrow> error_t \<times> SlaacContext option \<times> NdpRouterAdvMessage world" where
  "slaacStart context_ptr w =
     (case context_ptr of
        None \<Rightarrow> (ERROR_INVALID_PARAMETER, None, w)
      | Some context \<Rightarrow>
          let context = context\<lparr>running := True\<rparr>;
              context = context\<lparr>state := SLAAC_STATE_INIT\<rparr>
          in (NO_ERROR, Some context, w))"

definition slaacStop ::
  "SlaacContext option \<Rightarrow> NdpRouterAdvMessage world
     \<Rightarrow> error_t \<times> SlaacContext option \<times> NdpRouterAdvMessage world" where
  "slaacStop context_ptr w =
     (case context_ptr of
        None \<Rightarrow> (ERROR_INVALID_PARAMETER, None, w)
      | Some context \<Rightarrow>
          let context = context\<lparr>running := False\<rparr>;
              context = context\<lparr>state := SLAAC_STATE_INIT\<rparr>
          in (NO_ERROR, Some context, w))"

text \<open>\<^verbatim>\<open>slaacGetState\<close> returns a \<^verbatim>\<open>SlaacState\<close> and dereferences its argument
  without a test: for a \<^verbatim>\<open>NULL\<close> pointer C defines no result (\<open>None\<close>).\<close>

definition slaacGetState :: "SlaacContext option \<Rightarrow> nat option" where
  "slaacGetState context_ptr =
     (case context_ptr of None \<Rightarrow> None | Some context \<Rightarrow> Some (state context))"

section \<open>Example values\<close>

text \<open>A configuration of the stack, an interface with its link up and contexts as
  \<^verbatim>\<open>memset\<close> and the copy of the settings leave them; the closed instances of the
  theorems below are stated on them.\<close>

definition example_config :: config where
  "example_config =
     \<lparr>DHCP_CLIENT_MAX_HOSTNAME_LEN = 16, DHCP_CLIENT_INIT_DELAY = 2000,
      DHCP_CLIENT_DISCOVER_INIT_RT = 4000, DHCP_CLIENT_DISCOVER_MAX_RT = 16000,
      DHCP_CLIENT_REQUEST_INIT_RT = 4000, DHCP_CLIENT_REQUEST_MAX_RT = 64000,
      DHCP_CLIENT_REQUEST_MAX_RC = 4, DHCP_CLIENT_REQUEST_MIN_DELAY = 60000,
      DHCP_CLIENT_RAND_FACTOR = 1000, DHCP_MAX_MSG_SIZE = 548, IPV4_MAX_DNS_SERVERS = 2,
      IPV4_DEFAULT_TTL = 64, DHCPV6_MAX_DUID_SIZE = 16, IPV6_MAX_DNS_SERVERS = 2,
      dnsEncodeName = (\<lambda>name. [])\<rparr>"

definition example_interface :: NetInterface where
  "example_interface =
     \<lparr>ifId = 1, macAddr = [0x00, 0x11, 0x22, 0x33, 0x44, 0x55], ifHostname = ''node'',
      linkState = True,
      ipv4Config = \<lparr>addr = 0, addrState = IPV4_ADDR_STATE_INVALID, subnetMask = 0,
        defaultGateway = 0, dnsServer = [0, 0], mtu = 1500\<rparr>,
      ipv6Config = \<lparr>linkLocalAddr = replicate 16 0,
        linkLocalAddrState = IPV6_ADDR_STATE_INVALID, linkLocalAddrDup = False,
        globalAddr = replicate 16 0, globalAddrState = IPV6_ADDR_STATE_INVALID,
        globalAddrDup = False, prefix = replicate 16 0, prefixLength = 0,
        dnsServer6 = [replicate 16 0, replicate 16 0], retransTimer = 1000\<rparr>,
      dhcpClientContext = False, dhcpv6ClientContext = False, slaacContext = False\<rparr>"

definition example_env :: "systime_t \<Rightarrow> env" where
  "example_env time =
     \<lparr>osGetSystemTime = time, netGetRand1 = 0x123456, netGetRand2 = 100,
      udpAllocBuffer = True, osCreateMutex = True, udpAttachRxCallback = NO_ERROR\<rparr>"

definition example_dhcpv6_settings :: Dhcpv6ClientSettings where
  "example_dhcpv6_settings =
     \<lparr>interface = NET_INTERFACE, manualDnsConfig = False, rapidCommit = False,
      timeoutS = 0, timeoutEvent = False, linkChangeEvent = False,
      stateChangeEvent = False\<rparr>"

definition example_dhcpv6_ctx :: Dhcpv6ClientCtx where
  "example_dhcpv6_ctx = dhcpv6_memset_0 example_config example_dhcpv6_settings"

text \<open>An IA\_NA option for the interface identifier 1 with the given T1 and T2, and an
  IA Address sub-option for \<^verbatim>\<open>2001:db8::dead\<close> with the given lifetimes.\<close>

definition example_iaNa :: "uint32_t \<Rightarrow> uint32_t \<Rightarrow> uint32_t \<Rightarrow> uint32_t \<Rightarrow> Dhcpv6Option" where
  "example_iaNa T1 T2 preferred valid =
     \<lparr>optCode = 3, optLength = 40,
      optValue = htonl 1 @ htonl T1 @ htonl T2
        @ dhcpv6AddOption DHCPV6_OPTION_IAADDR
            ([0x20, 0x01, 0x0d, 0xb8, 0, 0, 0, 0, 0, 0, 0, 0, 0, 0, 0xde, 0xad]
             @ htonl preferred @ htonl valid)\<rparr>"

subsection \<open>SLAAC examples and the spec's reading of a Router Advertisement\<close>

definition example_slaac_settings :: SlaacSettings where
  "example_slaac_settings =
     \<lparr>interface = NET_INTERFACE, manualDnsConfig = False, minRtrSolicitationDelay = 0,
      maxRtrSolicitationDelay = 1000, rtrSolicitationInterval = 4000, maxRtrSolicitations = 3,
      dupAddrDetectTransmits = 1, parseRouterAdvCallback = True\<rparr>"

definition example_slaac_ctx :: "nat \<Rightarrow> SlaacContext" where
  "example_slaac_ctx s = (slaac_memset_0 example_slaac_settings)\<lparr>running := True, state := s\<rparr>"

definition example_slaac_world :: "NdpRouterAdvMessage world" where
  "example_slaac_world = \<lparr>netInterface = example_interface, events = []\<rparr>"

definition example_pio :: "bool \<Rightarrow> NdpPrefixInfoOption" where
  "example_pio autonomous =
     \<lparr>pioLength = 4, pioPrefixLength = 64, pioA = autonomous, pioValidLifetime = 7200,
      pioPreferredLifetime = 3600,
      pioPrefix = [0x20, 0x01, 0x0d, 0xb8, 0, 0, 0, 1, 0, 0, 0, 0, 0, 0, 0, 0]\<rparr>"

definition example_rdnss :: NdpRdnssOption where
  "example_rdnss =
     \<lparr>rdnssLength = 3,
      rdnssAddress = (\<lambda>i. [0x20, 0x01, 0x0d, 0xb8, 0, 0, 0, 1, 0, 0, 0, 0, 0, 0, 0, 0x53])\<rparr>"

definition example_ra :: "NdpOption list \<Rightarrow> NdpRouterAdvMessage" where
  "example_ra os = \<lparr>raOptions = os\<rparr>"

text \<open>The conditions that the spec puts on a Prefix Information option, and the spec's
  choice among the options of a Router Advertisement, in the words of the spec: the
  first Prefix Information option that meets the conditions. Both are used to compare
  the spec with \<^verbatim>\<open>slaacProcessRouterAdv\<close>, not to define it.\<close>

definition pio_adoptable :: "NdpPrefixInfoOption \<Rightarrow> bool" where
  "pio_adoptable p =
     (pioA p \<and> pioPrefixLength p = 64
      \<and> \<not> ipv6CompPrefix (pioPrefix p) IPV6_LINK_LOCAL_ADDR_PREFIX 64
      \<and> pioValidLifetime p > 0 \<and> pioPreferredLifetime p \<le> pioValidLifetime p)"

fun spec_first_adoptable_prefix :: "NdpOption list \<Rightarrow> NdpPrefixInfoOption option" where
  "spec_first_adoptable_prefix [] = None"
| "spec_first_adoptable_prefix (NDP_OPT_PREFIX_INFORMATION p # os) =
     (if pio_adoptable p then Some p else spec_first_adoptable_prefix os)"
| "spec_first_adoptable_prefix (NDP_OPT_RECURSIVE_DNS_SERVER r # os) = spec_first_adoptable_prefix os"
| "spec_first_adoptable_prefix (NDP_OPT_OTHER t # os) = spec_first_adoptable_prefix os"

subsection \<open>DHCPv4 examples\<close>

definition example_dhcp_settings :: DhcpClientSettings where
  "example_dhcp_settings =
     \<lparr>interface = NET_INTERFACE, manualDnsConfig = False, rapidCommit = False,
      timeoutS = 0, timeoutEvent = False, linkChangeEvent = False,
      stateChangeEvent = False, hostname = ''node''\<rparr>"

definition example_dhcp_ctx :: "nat \<Rightarrow> DhcpClientCtx" where
  "example_dhcp_ctx s =
     (dhcpClient_memset_0 example_dhcp_settings)
       \<lparr>running := True, state := s, transactionId := 0x1234, serverIpAddr := 0xC0000201\<rparr>"

definition example_dhcp_world :: "DhcpMessage world" where
  "example_dhcp_world = \<lparr>netInterface = example_interface, events = []\<rparr>"

definition example_dhcp_reply :: "(byte \<times> byte list) list \<Rightarrow> DhcpMessage" where
  "example_dhcp_reply os =
     dhcp_memset_0\<lparr>op := DHCP_OPCODE_BOOTREPLY, htype := DHCP_HARDWARE_TYPE_ETH, hlen := 6,
        xid := 0x1234, yiaddr := 0xC000020A,
        chaddr := [0x00, 0x11, 0x22, 0x33, 0x44, 0x55] @ replicate 10 0,
        magicCookie := DHCP_MAGIC_COOKIE, dhcpOptions := os\<rparr>"

definition example_ack_options :: "byte list \<Rightarrow> (byte \<times> byte list) list" where
  "example_ack_options lease =
     [(DHCP_OPT_DHCP_MESSAGE_TYPE, [DHCP_MESSAGE_TYPE_ACK]),
      (DHCP_OPT_SERVER_IDENTIFIER, [192, 0, 2, 1]),
      (DHCP_OPT_IP_ADDRESS_LEASE_TIME, lease)]"

subsection \<open>DHCPv6 exchanges\<close>

text \<open>A running client in the SOLICIT state, with the DUID-LL of the example interface
  as its client identifier, whose first Solicit is due at time 4500; an Advertise that
  answers it, carrying a given server DUID; and two server DUIDs, of 16 bytes (the
  size of the \<^verbatim>\<open>serverId\<close> buffer in the example configuration) and of 15 bytes.\<close>

definition example_dhcpv6_solicit_ctx :: Dhcpv6ClientCtx where
  "example_dhcpv6_solicit_ctx =
     example_dhcpv6_ctx
       \<lparr>running := True, state := DHCPV6_STATE_SOLICIT, timestamp := 4000, timeout := 500,
        retransmitCount := 0, transactionId := 0x123456,
        clientId := [0, 3, 0, 1, 0x00, 0x11, 0x22, 0x33, 0x44, 0x55, 0, 0, 0, 0, 0, 0],
        clientIdLength := 10, clientFqdn := [0, 0, 0, 0, 0, 0, 0, 0, 0, 0, 0, 0, 0, 0, 0, 0],
        clientFqdnLength := 1, serverPreference := - 1\<rparr>"

definition example_dhcpv6_world :: "byte list world" where
  "example_dhcpv6_world = \<lparr>netInterface = example_interface, events = []\<rparr>"

definition example_advertise :: "byte list \<Rightarrow> byte list" where
  "example_advertise serverDuid =
     [DHCPV6_MSG_TYPE_ADVERTISE, 0x12, 0x34, 0x56]
     @ dhcpv6AddOption DHCPV6_OPTION_CLIENTID [0, 3, 0, 1, 0x00, 0x11, 0x22, 0x33, 0x44, 0x55]
     @ dhcpv6AddOption DHCPV6_OPTION_SERVERID serverDuid"

definition example_duid_16 :: "byte list" where
  "example_duid_16 = [0, 1, 0, 1, 1, 2, 3, 4, 0xA0, 0xA1, 0xA2, 0xA3, 0xA4, 0xA5, 0xA6, 0xA7]"

definition example_duid_15 :: "byte list" where
  "example_duid_15 = [0, 1, 0, 1, 1, 2, 3, 4, 0xA0, 0xA1, 0xA2, 0xA3, 0xA4, 0xA5, 0xA6]"

text \<open>The value of the Elapsed Time option of a datagram that was sent, read back
  from its bytes.\<close>

definition sentElapsedTime :: "byte list event \<Rightarrow> uint16_t option" where
  "sentElapsedTime ev =
     (case ev of
        UdpSendDatagram sp da dp message ttl \<Rightarrow>
          (case dhcpv6GetOption (msgOptions message) DHCPV6_OPTION_ELAPSED_TIME of
             Some option \<Rightarrow> Some (be16 (optValue option))
           | None \<Rightarrow> None)
      | _ \<Rightarrow> None)"

section \<open>Reachable contexts and sequences of ticks\<close>

text \<open>The contexts that the calls of an application and of the stack can produce. A
  context starts its life in an initialisation with a settings structure that names an
  interface, whatever status the initialisation returns; the application starts and
  stops the engine; the stack calls the timer handler, the receive callback and the
  link-change handler. Each call may come at any time, with the interface and the
  trace in any condition. The calls of a DHCP client all take the mutex of its context,
  and are steps that follow one another.\<close>

inductive dhcpClientReachable :: "config \<Rightarrow> DhcpClientCtx \<Rightarrow> bool" for cfg where
  init: "interface s \<noteq> NULL
      \<Longrightarrow> dhcpClientInit cfg e (Some old) (Some s) w = (err, Some c, w')
      \<Longrightarrow> dhcpClientReachable cfg c"
| start: "dhcpClientReachable cfg c
      \<Longrightarrow> dhcpClientStart (Some c) w = (err, Some c', w')
      \<Longrightarrow> dhcpClientReachable cfg c'"
| stop: "dhcpClientReachable cfg c
      \<Longrightarrow> dhcpClientStop (Some c) w = (err, Some c', w')
      \<Longrightarrow> dhcpClientReachable cfg c'"
| tick: "dhcpClientReachable cfg c
      \<Longrightarrow> dhcpClientTick cfg e c w = (c', w')
      \<Longrightarrow> dhcpClientReachable cfg c'"
| receive: "dhcpClientReachable cfg c
      \<Longrightarrow> dhcpClientProcessMessage cfg e c w message len = (c', w')
      \<Longrightarrow> dhcpClientReachable cfg c'"
| linkChange: "dhcpClientReachable cfg c
      \<Longrightarrow> dhcpClientLinkChangeEvent c w = (c', w')
      \<Longrightarrow> dhcpClientReachable cfg c'"

inductive dhcpv6ClientReachable :: "config \<Rightarrow> Dhcpv6ClientCtx \<Rightarrow> bool" for cfg where
  init: "interface s \<noteq> NULL
      \<Longrightarrow> dhcpv6ClientInit cfg e (Some old) (Some s) w = (err, Some c, w')
      \<Longrightarrow> dhcpv6ClientReachable cfg c"
| start: "dhcpv6ClientReachable cfg c
      \<Longrightarrow> dhcpv6ClientStart (Some c) w = (err, Some c', w')
      \<Longrightarrow> dhcpv6ClientReachable cfg c'"
| stop: "dhcpv6ClientReachable cfg c
      \<Longrightarrow> dhcpv6ClientStop (Some c) w = (err, Some c', w')
      \<Longrightarrow> dhcpv6ClientReachable cfg c'"
| tick: "dhcpv6ClientReachable cfg c
      \<Longrightarrow> dhcpv6ClientTick e c w = (c', w')
      \<Longrightarrow> dhcpv6ClientReachable cfg c'"
| receive: "dhcpv6ClientReachable cfg c
      \<Longrightarrow> dhcpv6ClientProcessMessage cfg e c w message = (c', w')
      \<Longrightarrow> dhcpv6ClientReachable cfg c'"
| linkChange: "dhcpv6ClientReachable cfg c
      \<Longrightarrow> dhcpv6ClientLinkChangeEvent c w = (c', w')
      \<Longrightarrow> dhcpv6ClientReachable cfg c'"

text \<open>For the SLAAC engine the handler of a Router Advertisement is two steps, its tests
  and its writes, and the calls that take the mutex may come between the two. The
  first argument of the predicate is the Router Advertisement whose handler has passed
  its tests and not yet written, if there is one; the receive task runs one handler at
  a time. The writes of the handler are taken as one step, so that every interleaving
  of the model is one of the code.\<close>

inductive slaacReachable :: "NdpRouterAdvMessage option \<Rightarrow> SlaacContext \<Rightarrow> bool" where
  init: "interface s \<noteq> NULL
      \<Longrightarrow> slaacInit e (Some old) (Some s) w = (err, Some c, w')
      \<Longrightarrow> slaacReachable None c"
| start: "slaacReachable h c
      \<Longrightarrow> slaacStart (Some c) w = (err, Some c', w')
      \<Longrightarrow> slaacReachable h c'"
| stop: "slaacReachable h c
      \<Longrightarrow> slaacStop (Some c) w = (err, Some c', w')
      \<Longrightarrow> slaacReachable h c'"
| tick: "slaacReachable h c
      \<Longrightarrow> slaacTick e c w = (c', w')
      \<Longrightarrow> slaacReachable h c'"
| linkChange: "slaacReachable h c
      \<Longrightarrow> slaacLinkChangeEvent c w = (c', w')
      \<Longrightarrow> slaacReachable h c'"
| receive: "slaacReachable None c
      \<Longrightarrow> slaacProcessRouterAdv e c w message len = (c', w')
      \<Longrightarrow> slaacReachable None c'"
| receiveTests: "slaacReachable None c
      \<Longrightarrow> slaacProcessRouterAdv_tests c w message len = (True, w')
      \<Longrightarrow> slaacReachable (Some message) c"
| receiveWrites: "slaacReachable (Some message) c
      \<Longrightarrow> slaacProcessRouterAdv_writes e c w message = (c', w')
      \<Longrightarrow> slaacReachable None c'"

text \<open>A sequence of invocations of a timer handler. Each invocation has its own clock
  and random numbers, and finds the interface as the rest of the stack has left it
  since the invocation before.\<close>

fun dhcpClientTicks ::
  "config \<Rightarrow> (env \<times> NetInterface) list \<Rightarrow> DhcpClientCtx \<Rightarrow> DhcpMessage world
     \<Rightarrow> DhcpClientCtx \<times> DhcpMessage world" where
  "dhcpClientTicks cfg [] c w = (c, w)"
| "dhcpClientTicks cfg ((e, iface) # steps) c w =
     (case dhcpClientTick cfg e c (w\<lparr>netInterface := iface\<rparr>) of
        (c, w) \<Rightarrow> dhcpClientTicks cfg steps c w)"

fun dhcpv6ClientTicks ::
  "(env \<times> NetInterface) list \<Rightarrow> Dhcpv6ClientCtx \<Rightarrow> byte list world
     \<Rightarrow> Dhcpv6ClientCtx \<times> byte list world" where
  "dhcpv6ClientTicks [] c w = (c, w)"
| "dhcpv6ClientTicks ((e, iface) # steps) c w =
     (case dhcpv6ClientTick e c (w\<lparr>netInterface := iface\<rparr>) of
        (c, w) \<Rightarrow> dhcpv6ClientTicks steps c w)"

fun slaacTicks ::
  "(env \<times> NetInterface) list \<Rightarrow> SlaacContext \<Rightarrow> NdpRouterAdvMessage world
     \<Rightarrow> SlaacContext \<times> NdpRouterAdvMessage world" where
  "slaacTicks [] c w = (c, w)"
| "slaacTicks ((e, iface) # steps) c w =
     (case slaacTick e c (w\<lparr>netInterface := iface\<rparr>) of
        (c, w) \<Rightarrow> slaacTicks steps c w)"

text \<open>The datagrams that a trace records: its UDP and NDP send operations.\<close>

definition sends :: "'m world \<Rightarrow> 'm event list" where
  "sends w = filter is_send (events w)"

subsection \<open>Stopped contexts\<close>

text \<open>Contexts of the DHCP clients that were initialised, started and stopped again,
  and two invocations of a timer handler with the link up.\<close>

definition example_dhcp_stopped :: DhcpClientCtx where
  "example_dhcp_stopped = (dhcpClient_memset_0 example_dhcp_settings)"

definition example_dhcpv6_stopped :: Dhcpv6ClientCtx where
  "example_dhcpv6_stopped =
     example_dhcpv6_ctx
       \<lparr>clientId := [0, 3, 0, 1, 0x00, 0x11, 0x22, 0x33, 0x44, 0x55, 0, 0, 0, 0, 0, 0],
        clientIdLength := 10\<rparr>"

definition example_ticks :: "(env \<times> NetInterface) list" where
  "example_ticks = [(example_env 1000, example_interface), (example_env 2000, example_interface)]"

text \<open>A run of the SLAAC engine. The context and the interface as \<^verbatim>\<open>slaacInit\<close> leaves
  them; the engine is started; three ticks, at times 1000, 1100 and 2200, take it through the Duplicate Address
  Detection of the link-local address into ROUTER-SOLICIT. A Router Advertisement with
  an adoptable prefix arrives at time 2500; the application calls \<^verbatim>\<open>slaacStop\<close> when the
  handler of the advertisement has passed its tests, and the handler then writes.\<close>

definition example_slaac_initialised :: SlaacContext where
  "example_slaac_initialised = slaac_memset_0 example_slaac_settings"

definition example_slaac_attached :: "NdpRouterAdvMessage world" where
  "example_slaac_attached =
     example_slaac_world\<lparr>netInterface := example_interface\<lparr>slaacContext := True\<rparr>\<rparr>"

definition example_slaac_soliciting :: "SlaacContext \<times> NdpRouterAdvMessage world" where
  "example_slaac_soliciting =
     (case slaacTick (example_env 1000) (example_slaac_initialised\<lparr>running := True\<rparr>)
             example_slaac_attached of
        (c, w) \<Rightarrow>
          (case slaacTick (example_env 1100) c w of
             (c, w) \<Rightarrow> slaacTick (example_env 2200) c w))"

definition example_slaac_stopped_in_receive :: "SlaacContext \<times> NdpRouterAdvMessage world" where
  "example_slaac_stopped_in_receive =
     slaacProcessRouterAdv_writes (example_env 2500)
       ((fst example_slaac_soliciting)\<lparr>running := False, state := SLAAC_STATE_INIT\<rparr>)
       (snd (slaacProcessRouterAdv_tests (fst example_slaac_soliciting)
               (snd example_slaac_soliciting)
               (example_ra [NDP_OPT_PREFIX_INFORMATION (example_pio True)]) 48))
       (example_ra [NDP_OPT_PREFIX_INFORMATION (example_pio True)])"

section \<open>Properties\<close>

lemmas DHCPV6_STATE_defs =
  DHCPV6_STATE_INIT_def DHCPV6_STATE_SOLICIT_def DHCPV6_STATE_REQUEST_def
  DHCPV6_STATE_INIT_CONFIRM_def DHCPV6_STATE_CONFIRM_def DHCPV6_STATE_BOUND_def
  DHCPV6_STATE_RENEW_def DHCPV6_STATE_REBIND_def DHCPV6_STATE_DECLINE_def

lemmas DHCPV6_OPTION_defs =
  DHCPV6_OPTION_CLIENTID_def DHCPV6_OPTION_SERVERID_def DHCPV6_OPTION_IA_NA_def
  DHCPV6_OPTION_IAADDR_def DHCPV6_OPTION_ORO_def DHCPV6_OPTION_PREFERENCE_def
  DHCPV6_OPTION_ELAPSED_TIME_def DHCPV6_OPTION_STATUS_CODE_def
  DHCPV6_OPTION_RAPID_COMMIT_def DHCPV6_OPTION_DNS_SERVERS_def
  DHCPV6_OPTION_DOMAIN_LIST_def DHCPV6_OPTION_FQDN_def

lemmas DHCPV6_MSG_TYPE_defs =
  DHCPV6_MSG_TYPE_SOLICIT_def DHCPV6_MSG_TYPE_ADVERTISE_def DHCPV6_MSG_TYPE_REQUEST_def
  DHCPV6_MSG_TYPE_CONFIRM_def DHCPV6_MSG_TYPE_RENEW_def DHCPV6_MSG_TYPE_REBIND_def
  DHCPV6_MSG_TYPE_REPLY_def DHCPV6_MSG_TYPE_DECLINE_def

lemmas example_simps =
  example_config_def example_interface_def example_env_def example_dhcpv6_settings_def
  example_dhcpv6_ctx_def example_iaNa_def dhcpv6_memset_0_def

lemmas dhcpv6_codec_simps =
  be16_def be24_def be32_def htons_def htonl_def STORE24BE_def
  dhcpv6AddOption_def dhcpv6GetOption.simps DHCPV6_OPTION_defs
  iaNa_iaId_def iaNa_t1_def iaNa_t2_def iaNa_options_def
  iaAddr_address_def iaAddr_preferredLifetime_def iaAddr_validLifetime_def
  dhcpv6ParseStatusCodeOption_def

subsection \<open>DHCPv6 IA\_NA option\<close>

text \<open>
  C3. \<^verbatim>\<open>dhcpv6ParseIaNaOption\<close> returns \<^verbatim>\<open>ERROR_INVALID_OPTION\<close> and leaves the
  context as it was whenever T1 is greater than T2 and T2 is greater than zero, and
  whenever the nested IA Address option has a preferred lifetime greater than its valid
  lifetime. When the option is accepted, the lifetimes are those of the IA Address
  option, a T1 of zero is replaced by half the preferred lifetime and a T2 of zero by
  T1 + T1/2 (32-bit unsigned arithmetic); a T1 or T2 that is not zero is kept.
\<close>

theorem dhcpv6ParseIaNaOption_rejects_and_derives:
  "(iaNa_t2 option < iaNa_t1 option \<and> 0 < iaNa_t2 option \<longrightarrow>
      dhcpv6ParseIaNaOption context iface option = (ERROR_INVALID_OPTION, context))
   \<and> (\<forall>subOption. dhcpv6GetOption (iaNa_options option) DHCPV6_OPTION_IAADDR = Some subOption
        \<and> iaAddr_validLifetime subOption < iaAddr_preferredLifetime subOption \<longrightarrow>
      dhcpv6ParseIaNaOption context iface option = (ERROR_INVALID_OPTION, context))
   \<and> (\<forall>context'. dhcpv6ParseIaNaOption context iface option = (NO_ERROR, context') \<longrightarrow>
        (\<exists>subOption. dhcpv6GetOption (iaNa_options option) DHCPV6_OPTION_IAADDR = Some subOption
           \<and> preferredLifetime context' = iaAddr_preferredLifetime subOption
           \<and> validLifetime context' = iaAddr_validLifetime subOption)
        \<and> t1 context' = (if iaNa_t1 option = 0 then preferredLifetime context' div 2 else iaNa_t1 option)
        \<and> t2 context' = (if iaNa_t2 option = 0 then t1 context' + t1 context' div 2 else iaNa_t2 option))"
proof (intro conjI allI impI)
  assume "iaNa_t2 option < iaNa_t1 option \<and> 0 < iaNa_t2 option"
  then show "dhcpv6ParseIaNaOption context iface option = (ERROR_INVALID_OPTION, context)"
    by (simp add: dhcpv6ParseIaNaOption_def)
next
  fix subOption
  assume "dhcpv6GetOption (iaNa_options option) DHCPV6_OPTION_IAADDR = Some subOption
        \<and> iaAddr_validLifetime subOption < iaAddr_preferredLifetime subOption"
  then show "dhcpv6ParseIaNaOption context iface option = (ERROR_INVALID_OPTION, context)"
    by (simp add: dhcpv6ParseIaNaOption_def)
next
  fix context'
  assume ok: "dhcpv6ParseIaNaOption context iface option = (NO_ERROR, context')"
  then show "\<exists>subOption. dhcpv6GetOption (iaNa_options option) DHCPV6_OPTION_IAADDR = Some subOption
           \<and> preferredLifetime context' = iaAddr_preferredLifetime subOption
           \<and> validLifetime context' = iaAddr_validLifetime subOption"
    by (auto simp add: dhcpv6ParseIaNaOption_def Let_def split: if_splits option.splits)
  from ok show "t1 context' = (if iaNa_t1 option = 0 then preferredLifetime context' div 2 else iaNa_t1 option)"
    by (auto simp add: dhcpv6ParseIaNaOption_def Let_def split: if_splits option.splits)
  from ok show "t2 context' = (if iaNa_t2 option = 0 then t1 context' + t1 context' div 2 else iaNa_t2 option)"
    by (auto simp add: dhcpv6ParseIaNaOption_def Let_def split: if_splits option.splits)
qed

theorem dhcpv6ParseIaNaOption_rejects_and_derives_witness:
  "dhcpv6ParseIaNaOption example_dhcpv6_ctx example_interface (example_iaNa 1800 900 3600 7200)
     = (ERROR_INVALID_OPTION, example_dhcpv6_ctx)
   \<and> dhcpv6ParseIaNaOption example_dhcpv6_ctx example_interface (example_iaNa 0 0 7200 3600)
     = (ERROR_INVALID_OPTION, example_dhcpv6_ctx)
   \<and> fst (dhcpv6ParseIaNaOption example_dhcpv6_ctx example_interface (example_iaNa 0 0 3600 7200))
     = NO_ERROR
   \<and> t1 (snd (dhcpv6ParseIaNaOption example_dhcpv6_ctx example_interface (example_iaNa 0 0 3600 7200)))
     = 1800
   \<and> t2 (snd (dhcpv6ParseIaNaOption example_dhcpv6_ctx example_interface (example_iaNa 0 0 3600 7200)))
     = 2700"
proof -
  note spec = dhcpv6ParseIaNaOption_rejects_and_derives
  have h1: "iaNa_t2 (example_iaNa 1800 900 3600 7200) < iaNa_t1 (example_iaNa 1800 900 3600 7200)
      \<and> 0 < iaNa_t2 (example_iaNa 1800 900 3600 7200)"
    by (simp add: example_simps dhcpv6_codec_simps)
  have a: "dhcpv6ParseIaNaOption example_dhcpv6_ctx example_interface (example_iaNa 1800 900 3600 7200)
     = (ERROR_INVALID_OPTION, example_dhcpv6_ctx)"
    using spec [of "example_iaNa 1800 900 3600 7200" example_dhcpv6_ctx example_interface] h1 by blast
  have g2: "dhcpv6GetOption (iaNa_options (example_iaNa 0 0 7200 3600)) DHCPV6_OPTION_IAADDR
      = Some \<lparr>optCode = 5, optLength = 24,
              optValue = [0x20,0x01,0x0d,0xb8,0,0,0,0,0,0,0,0,0,0,0xde,0xad] @ htonl 7200 @ htonl 3600\<rparr>"
    by (simp add: example_simps dhcpv6_codec_simps)
  have h2: "iaAddr_validLifetime \<lparr>optCode = 5, optLength = 24,
              optValue = [0x20,0x01,0x0d,0xb8,0,0,0,0,0,0,0,0,0,0,0xde,0xad] @ htonl 7200 @ htonl 3600\<rparr>
         < iaAddr_preferredLifetime \<lparr>optCode = 5 :: uint16_t, optLength = 24,
              optValue = [0x20,0x01,0x0d,0xb8,0,0,0,0,0,0,0,0,0,0,0xde,0xad] @ htonl 7200 @ htonl 3600\<rparr>"
    by (simp add: dhcpv6_codec_simps)
  have b: "dhcpv6ParseIaNaOption example_dhcpv6_ctx example_interface (example_iaNa 0 0 7200 3600)
     = (ERROR_INVALID_OPTION, example_dhcpv6_ctx)"
    using spec [of "example_iaNa 0 0 7200 3600" example_dhcpv6_ctx example_interface] g2 h2 by blast
  let ?r = "dhcpv6ParseIaNaOption example_dhcpv6_ctx example_interface (example_iaNa 0 0 3600 7200)"
  have c: "fst ?r = NO_ERROR"
    by (simp add: dhcpv6ParseIaNaOption_def example_simps dhcpv6_codec_simps Let_def)
  then have ok: "?r = (NO_ERROR, snd ?r)" by (metis prod.collapse)
  have g3: "dhcpv6GetOption (iaNa_options (example_iaNa 0 0 3600 7200)) DHCPV6_OPTION_IAADDR
      = Some \<lparr>optCode = 5, optLength = 24,
              optValue = [0x20,0x01,0x0d,0xb8,0,0,0,0,0,0,0,0,0,0,0xde,0xad] @ htonl 3600 @ htonl 7200\<rparr>"
    by (simp add: example_simps dhcpv6_codec_simps)
  have z: "iaNa_t1 (example_iaNa 0 0 3600 7200) = 0" "iaNa_t2 (example_iaNa 0 0 3600 7200) = 0"
    by (simp_all add: example_simps dhcpv6_codec_simps)
  from spec [of "example_iaNa 0 0 3600 7200" example_dhcpv6_ctx example_interface] ok
  have d: "(\<exists>subOption. dhcpv6GetOption (iaNa_options (example_iaNa 0 0 3600 7200)) DHCPV6_OPTION_IAADDR = Some subOption
           \<and> preferredLifetime (snd ?r) = iaAddr_preferredLifetime subOption
           \<and> validLifetime (snd ?r) = iaAddr_validLifetime subOption)
        \<and> t1 (snd ?r) = (if iaNa_t1 (example_iaNa 0 0 3600 7200) = 0 then preferredLifetime (snd ?r) div 2 else iaNa_t1 (example_iaNa 0 0 3600 7200))
        \<and> t2 (snd ?r) = (if iaNa_t2 (example_iaNa 0 0 3600 7200) = 0 then t1 (snd ?r) + t1 (snd ?r) div 2 else iaNa_t2 (example_iaNa 0 0 3600 7200))"
    by blast
  then have p: "preferredLifetime (snd ?r) = 3600"
    unfolding g3 by (auto simp add: dhcpv6_codec_simps)
  from d z p have "t1 (snd ?r) = 1800" by simp
  moreover from d z this have "t2 (snd ?r) = 2700" by simp
  ultimately show ?thesis using a b c by simp
qed

subsection \<open>User interface\<close>

text \<open>
  C9. On all three engines, stop on a context returns \<^verbatim>\<open>NO_ERROR\<close> and changes the
  context in exactly two members: \<^verbatim>\<open>running\<close> becomes false and \<^verbatim>\<open>state\<close> becomes
  INIT. The settings, the timers and counters, the transaction identifier, the lease
  parameters, the recorded addresses and DUIDs are those of the context before the
  call, and the interface and the record of transmissions and callbacks are unchanged.
\<close>

theorem stop_changes_running_and_state_only:
  "dhcpClientStop (Some context4) w4
     = (NO_ERROR, Some (context4\<lparr>running := False, state := DHCP_STATE_INIT\<rparr>), w4)
   \<and> dhcpv6ClientStop (Some context6) w6
     = (NO_ERROR, Some (context6\<lparr>running := False, state := DHCPV6_STATE_INIT\<rparr>), w6)
   \<and> slaacStop (Some contextS) wS
     = (NO_ERROR, Some (contextS\<lparr>running := False, state := SLAAC_STATE_INIT\<rparr>), wS)
   \<and> (let c = context4\<lparr>running := False, state := DHCP_STATE_INIT\<rparr>
      in settings c = settings context4 \<and> timestamp c = timestamp context4
         \<and> timeout c = timeout context4 \<and> retransmitCount c = retransmitCount context4
         \<and> timeoutEventDone c = timeoutEventDone context4
         \<and> transactionId c = transactionId context4
         \<and> configStartTime c = configStartTime context4
         \<and> leaseStartTime c = leaseStartTime context4
         \<and> t1 c = t1 context4 \<and> t2 c = t2 context4 \<and> leaseTime c = leaseTime context4
         \<and> retransmitTimeout c = retransmitTimeout context4
         \<and> requestedIpAddr c = requestedIpAddr context4
         \<and> serverIpAddr c = serverIpAddr context4)
   \<and> (let c = context6\<lparr>running := False, state := DHCPV6_STATE_INIT\<rparr>
      in settings c = settings context6 \<and> timestamp c = timestamp context6
         \<and> timeout c = timeout context6 \<and> retransmitCount c = retransmitCount context6
         \<and> timeoutEventDone c = timeoutEventDone context6
         \<and> transactionId c = transactionId context6
         \<and> configStartTime c = configStartTime context6
         \<and> exchangeStartTime c = exchangeStartTime context6
         \<and> leaseStartTime c = leaseStartTime context6
         \<and> t1 c = t1 context6 \<and> t2 c = t2 context6
         \<and> preferredLifetime c = preferredLifetime context6
         \<and> validLifetime c = validLifetime context6
         \<and> clientId c = clientId context6 \<and> clientIdLength c = clientIdLength context6
         \<and> clientFqdn c = clientFqdn context6 \<and> clientFqdnLength c = clientFqdnLength context6
         \<and> clientAddr c = clientAddr context6
         \<and> serverId c = serverId context6 \<and> serverIdLength c = serverIdLength context6
         \<and> serverPreference c = serverPreference context6)
   \<and> (let c = contextS\<lparr>running := False, state := SLAAC_STATE_INIT\<rparr>
      in settings c = settings contextS \<and> timestamp c = timestamp contextS
         \<and> timeout c = timeout contextS \<and> retransmitCount c = retransmitCount contextS)"
  by (simp add: dhcpClientStop_def dhcpv6ClientStop_def slaacStop_def)

text \<open>
  C8, as the code has it. With a \<^verbatim>\<open>NULL\<close> context, init, start and stop of the three
  engines return \<^verbatim>\<open>ERROR_INVALID_PARAMETER\<close> and change neither the interface nor the
  record of transmissions and callbacks; init does the same for \<^verbatim>\<open>NULL\<close> settings
  and for settings whose interface is \<^verbatim>\<open>NULL\<close>, and then leaves the context as it was.
  The getState functions are not part of this: they return a state, not an error code,
  and have no test of their argument.
\<close>

theorem null_parameter_is_invalid_parameter:
  "dhcpClientInit cfg e None settings4 w4 = (ERROR_INVALID_PARAMETER, None, w4)
   \<and> dhcpClientInit cfg e context4 None w4 = (ERROR_INVALID_PARAMETER, context4, w4)
   \<and> dhcpClientInit cfg e context4 (Some (s4\<lparr>interface := NULL\<rparr>)) w4
       = (ERROR_INVALID_PARAMETER, context4, w4)
   \<and> dhcpClientStart None w4 = (ERROR_INVALID_PARAMETER, None, w4)
   \<and> dhcpClientStop None w4 = (ERROR_INVALID_PARAMETER, None, w4)
   \<and> dhcpv6ClientInit cfg e None settings6 w6 = (ERROR_INVALID_PARAMETER, None, w6)
   \<and> dhcpv6ClientInit cfg e context6 None w6 = (ERROR_INVALID_PARAMETER, context6, w6)
   \<and> dhcpv6ClientInit cfg e context6 (Some (s6\<lparr>interface := NULL\<rparr>)) w6
       = (ERROR_INVALID_PARAMETER, context6, w6)
   \<and> dhcpv6ClientStart None w6 = (ERROR_INVALID_PARAMETER, None, w6)
   \<and> dhcpv6ClientStop None w6 = (ERROR_INVALID_PARAMETER, None, w6)
   \<and> slaacInit e None settingsS wS = (ERROR_INVALID_PARAMETER, None, wS)
   \<and> slaacInit e contextS None wS = (ERROR_INVALID_PARAMETER, contextS, wS)
   \<and> slaacInit e contextS (Some (sS\<lparr>interface := NULL\<rparr>)) wS
       = (ERROR_INVALID_PARAMETER, contextS, wS)
   \<and> slaacStart None wS = (ERROR_INVALID_PARAMETER, None, wS)
   \<and> slaacStop None wS = (ERROR_INVALID_PARAMETER, None, wS)"
  by (simp add: dhcpClientInit_def dhcpClientStart_def dhcpClientStop_def
      dhcpv6ClientInit_def dhcpv6ClientStart_def dhcpv6ClientStop_def
      slaacInit_def slaacStart_def slaacStop_def split: option.splits)

text \<open>
  C8 as stated fails for getState: called with a \<^verbatim>\<open>NULL\<close> context, none of the three
  getState functions reports an error; each dereferences the pointer, and no result
  is defined.
\<close>

theorem getState_null_reports_no_error:
  "dhcpClientGetState None = None \<and> dhcpv6ClientGetState None = None
   \<and> slaacGetState None = None"
  by (simp add: dhcpClientGetState_def dhcpv6ClientGetState_def slaacGetState_def)

subsection \<open>SLAAC: Router Advertisements\<close>

lemmas SLAAC_STATE_defs = SLAAC_STATE_INIT_def SLAAC_STATE_LINK_LOCAL_ADDR_DAD_def
  SLAAC_STATE_ROUTER_SOLICIT_def SLAAC_STATE_GLOBAL_ADDR_DAD_def SLAAC_STATE_CONFIGURED_def
  SLAAC_STATE_NO_ROUTER_def SLAAC_STATE_DAD_FAILURE_def

lemmas example_slaac_simps = example_slaac_settings_def example_slaac_ctx_def example_slaac_world_def
  example_pio_def example_rdnss_def example_ra_def slaac_memset_0_def example_interface_def

lemma slaacCopyDnsServers_fields:
  "prefix (ipv6Config (slaacCopyDnsServers i a j k)) = prefix (ipv6Config i)"
  "prefixLength (ipv6Config (slaacCopyDnsServers i a j k)) = prefixLength (ipv6Config i)"
  "globalAddr (ipv6Config (slaacCopyDnsServers i a j k)) = globalAddr (ipv6Config i)"
  "globalAddrState (ipv6Config (slaacCopyDnsServers i a j k)) = globalAddrState (ipv6Config i)"
  by (induction k arbitrary: i j, auto simp: ipv6SetDnsServer_def)+

lemma slaacCopyDnsServers_dns_cong:
  "dnsServer6 (ipv6Config i) = dnsServer6 (ipv6Config i') \<Longrightarrow>
   dnsServer6 (ipv6Config (slaacCopyDnsServers i a j k))
     = dnsServer6 (ipv6Config (slaacCopyDnsServers i' a j k))"
proof (induction k arbitrary: i i' j)
  case 0 then show ?case by simp
next
  case (Suc k)
  have "dnsServer6 (ipv6Config (ipv6SetDnsServer i j (a j)))
      = dnsServer6 (ipv6Config (ipv6SetDnsServer i' j (a j)))"
    using Suc.prems by (simp add: ipv6SetDnsServer_def)
  from Suc.IH [OF this] show ?case by simp
qed

text \<open>
  C10. When a Router Advertisement parsing callback is registered,
  \<^verbatim>\<open>slaacProcessRouterAdv\<close> invokes it once, with the message and the length it was
  given, whatever the state of the engine and the content of the message: the callback
  is the only entry that the call adds to the record of transmissions and callbacks.
  In a state other than ROUTER-SOLICIT and NO-ROUTER the message is then discarded:
  the context and the interface are unchanged.
\<close>

theorem slaacProcessRouterAdv_callback_first:
  "parseRouterAdvCallback (settings context) \<Longrightarrow>
     events (snd (slaacProcessRouterAdv e context w message len))
       = events w @ [ParseRouterAdvCallback message len]
     \<and> (state context \<noteq> SLAAC_STATE_ROUTER_SOLICIT \<and> state context \<noteq> SLAAC_STATE_NO_ROUTER \<longrightarrow>
          fst (slaacProcessRouterAdv e context w message len) = context
          \<and> netInterface (snd (slaacProcessRouterAdv e context w message len)) = netInterface w)"
  by (simp add: slaacProcessRouterAdv_def emit_def Let_def split: option.splits)

theorem slaacProcessRouterAdv_callback_first_witness:
  "parseRouterAdvCallback (settings (example_slaac_ctx SLAAC_STATE_CONFIGURED))
   \<and> events (snd (slaacProcessRouterAdv (example_env 5000) (example_slaac_ctx SLAAC_STATE_CONFIGURED)
        example_slaac_world (example_ra [NDP_OPT_PREFIX_INFORMATION (example_pio True)]) 48))
      = [ParseRouterAdvCallback (example_ra [NDP_OPT_PREFIX_INFORMATION (example_pio True)]) 48]
   \<and> fst (slaacProcessRouterAdv (example_env 5000) (example_slaac_ctx SLAAC_STATE_CONFIGURED)
        example_slaac_world (example_ra [NDP_OPT_PREFIX_INFORMATION (example_pio True)]) 48)
      = example_slaac_ctx SLAAC_STATE_CONFIGURED"
proof -
  have h: "parseRouterAdvCallback (settings (example_slaac_ctx SLAAC_STATE_CONFIGURED))"
    by (simp add: example_slaac_simps)
  have s: "state (example_slaac_ctx SLAAC_STATE_CONFIGURED) \<noteq> SLAAC_STATE_ROUTER_SOLICIT
     \<and> state (example_slaac_ctx SLAAC_STATE_CONFIGURED) \<noteq> SLAAC_STATE_NO_ROUTER"
    by (simp add: example_slaac_simps SLAAC_STATE_defs)
  have e: "events example_slaac_world = []" by (simp add: example_slaac_simps)
  show ?thesis
    using slaacProcessRouterAdv_callback_first [OF h, of "example_env 5000" example_slaac_world
        "example_ra [NDP_OPT_PREFIX_INFORMATION (example_pio True)]" 48] h s e
    by simp
qed

text \<open>What \<^verbatim>\<open>slaacProcessRouterAdv\<close> does with a Router Advertisement in
  ROUTER-SOLICIT or NO-ROUTER.\<close>

lemma slaacProcessRouterAdv_soliciting:
  assumes st: "state context = SLAAC_STATE_ROUTER_SOLICIT \<or> state context = SLAAC_STATE_NO_ROUTER"
  shows
  "(\<forall>p. ndpGetOption_PREFIX_INFORMATION (raOptions message) = Some p
         \<and> pioLength p = 4 \<and> pio_adoptable p \<longrightarrow>
      state (fst (slaacProcessRouterAdv e context w message len)) = SLAAC_STATE_GLOBAL_ADDR_DAD
      \<and> timestamp (fst (slaacProcessRouterAdv e context w message len)) = osGetSystemTime e
      \<and> timeout (fst (slaacProcessRouterAdv e context w message len)) = 0
      \<and> retransmitCount (fst (slaacProcessRouterAdv e context w message len)) = 0
      \<and> prefix (ipv6Config (netInterface (snd (slaacProcessRouterAdv e context w message len))))
          = pioPrefix p
      \<and> prefixLength (ipv6Config (netInterface (snd (slaacProcessRouterAdv e context w message len))))
          = 64
      \<and> globalAddr (ipv6Config (netInterface (snd (slaacProcessRouterAdv e context w message len))))
          = take 8 (pioPrefix p) @ macAddrToEui64 (macAddr (netInterface w))
      \<and> globalAddrState (ipv6Config (netInterface (snd (slaacProcessRouterAdv e context w message len))))
          = IPV6_ADDR_STATE_TENTATIVE
      \<and> dnsServer6 (ipv6Config (netInterface (snd (slaacProcessRouterAdv e context w message len))))
          = (case ndpGetOption_RECURSIVE_DNS_SERVER (raOptions message) of
               None \<Rightarrow> dnsServer6 (ipv6Config (netInterface w))
             | Some r \<Rightarrow>
                 if \<not> manualDnsConfig (settings context) \<and> rdnssLength r \<ge> 1
                 then dnsServer6 (ipv6Config (slaacCopyDnsServers (netInterface w) (rdnssAddress r) 0
                        ((unat (rdnssLength r) - 1) div 2)))
                 else dnsServer6 (ipv6Config (netInterface w))))
   \<and> ((\<forall>p. ndpGetOption_PREFIX_INFORMATION (raOptions message) = Some p
           \<longrightarrow> pioLength p \<noteq> 4 \<or> \<not> pio_adoptable p) \<longrightarrow>
        fst (slaacProcessRouterAdv e context w message len) = context
        \<and> netInterface (snd (slaacProcessRouterAdv e context w message len)) = netInterface w)"
proof (intro conjI allI impI)
  fix p
  assume a: "ndpGetOption_PREFIX_INFORMATION (raOptions message) = Some p
         \<and> pioLength p = 4 \<and> pio_adoptable p"
  let ?r = "slaacProcessRouterAdv e context w message len"
  from a st show "state (fst ?r) = SLAAC_STATE_GLOBAL_ADDR_DAD"
    by (auto simp add: slaacProcessRouterAdv_def pio_adoptable_def word_gt_0 Let_def split: option.splits)
  from a st show "timestamp (fst ?r) = osGetSystemTime e"
    by (auto simp add: slaacProcessRouterAdv_def pio_adoptable_def word_gt_0 Let_def split: option.splits)
  from a st show "timeout (fst ?r) = 0"
    by (auto simp add: slaacProcessRouterAdv_def pio_adoptable_def word_gt_0 Let_def split: option.splits)
  from a st show "retransmitCount (fst ?r) = 0"
    by (auto simp add: slaacProcessRouterAdv_def pio_adoptable_def word_gt_0 Let_def split: option.splits)
  from a st show "prefix (ipv6Config (netInterface (snd ?r))) = pioPrefix p"
    by (auto simp add: slaacProcessRouterAdv_def pio_adoptable_def word_gt_0 Let_def emit_def
        slaacCopyDnsServers_fields ipv6SetPrefix_def ipv6SetGlobalAddrEx_def split: option.splits)
  from a st show "prefixLength (ipv6Config (netInterface (snd ?r))) = 64"
    by (auto simp add: slaacProcessRouterAdv_def pio_adoptable_def word_gt_0 Let_def emit_def
        slaacCopyDnsServers_fields ipv6SetPrefix_def ipv6SetGlobalAddrEx_def split: option.splits)
  from a st show "globalAddr (ipv6Config (netInterface (snd ?r)))
      = take 8 (pioPrefix p) @ macAddrToEui64 (macAddr (netInterface w))"
    by (auto simp add: slaacProcessRouterAdv_def pio_adoptable_def word_gt_0 Let_def emit_def
        slaacCopyDnsServers_fields ipv6SetPrefix_def ipv6SetGlobalAddrEx_def split: option.splits)
  from a st show "globalAddrState (ipv6Config (netInterface (snd ?r))) = IPV6_ADDR_STATE_TENTATIVE"
    by (auto simp add: slaacProcessRouterAdv_def pio_adoptable_def word_gt_0 Let_def emit_def
        slaacCopyDnsServers_fields ipv6SetPrefix_def ipv6SetGlobalAddrEx_def split: option.splits)
  from a st show "dnsServer6 (ipv6Config (netInterface (snd ?r)))
          = (case ndpGetOption_RECURSIVE_DNS_SERVER (raOptions message) of
               None \<Rightarrow> dnsServer6 (ipv6Config (netInterface w))
             | Some r \<Rightarrow>
                 if \<not> manualDnsConfig (settings context) \<and> rdnssLength r \<ge> 1
                 then dnsServer6 (ipv6Config (slaacCopyDnsServers (netInterface w) (rdnssAddress r) 0
                        ((unat (rdnssLength r) - 1) div 2)))
                 else dnsServer6 (ipv6Config (netInterface w)))"
    by (auto simp add: slaacProcessRouterAdv_def pio_adoptable_def word_gt_0 Let_def emit_def
        ipv6SetPrefix_def ipv6SetGlobalAddrEx_def intro!: slaacCopyDnsServers_dns_cong split: option.splits)
next
  assume n: "\<forall>p. ndpGetOption_PREFIX_INFORMATION (raOptions message) = Some p
           \<longrightarrow> pioLength p \<noteq> 4 \<or> \<not> pio_adoptable p"
  let ?r = "slaacProcessRouterAdv e context w message len"
  from n show "fst ?r = context"
    by (auto simp add: slaacProcessRouterAdv_def pio_adoptable_def word_gt_0 Let_def split: option.splits)
  from n show "netInterface (snd ?r) = netInterface w"
    by (auto simp add: slaacProcessRouterAdv_def pio_adoptable_def word_gt_0 Let_def emit_def split: option.splits)
qed

text \<open>
  C7, as the code has it. In ROUTER-SOLICIT or NO-ROUTER, \<^verbatim>\<open>slaacProcessRouterAdv\<close>
  looks at the first Prefix Information option of the message only. If that option has
  length 4 and meets the conditions of the spec (Autonomous flag set, prefix length 64,
  prefix other than the link-local prefix, valid lifetime above zero, preferred
  lifetime at most the valid lifetime), the engine stores the prefix, gives the
  interface the global address prefix || interface identifier in Tentative state,
  records the addresses of the first RDNSS option when manual DNS configuration is off,
  and enters GLOBAL-ADDR-DAD with the timer and the retransmission counter reset. If
  there is no Prefix Information option, or the first one does not meet the
  conditions, the context and the interface are unchanged, whatever options follow.
  A Router Advertisement received in any other state is discarded: the context and the
  interface are unchanged, and the call adds nothing to the trace but the callback, if
  one is registered.
\<close>

theorem slaacProcessRouterAdv_first_prefix_only:
  "(state context = SLAAC_STATE_ROUTER_SOLICIT \<or> state context = SLAAC_STATE_NO_ROUTER \<longrightarrow>
      (\<forall>p. ndpGetOption_PREFIX_INFORMATION (raOptions message) = Some p
              \<and> pioLength p = 4 \<and> pio_adoptable p \<longrightarrow>
           state (fst (slaacProcessRouterAdv e context w message len)) = SLAAC_STATE_GLOBAL_ADDR_DAD
           \<and> timestamp (fst (slaacProcessRouterAdv e context w message len)) = osGetSystemTime e
           \<and> timeout (fst (slaacProcessRouterAdv e context w message len)) = 0
           \<and> retransmitCount (fst (slaacProcessRouterAdv e context w message len)) = 0
           \<and> prefix (ipv6Config (netInterface (snd (slaacProcessRouterAdv e context w message len))))
               = pioPrefix p
           \<and> prefixLength (ipv6Config (netInterface (snd (slaacProcessRouterAdv e context w message len))))
               = 64
           \<and> globalAddr (ipv6Config (netInterface (snd (slaacProcessRouterAdv e context w message len))))
               = take 8 (pioPrefix p) @ macAddrToEui64 (macAddr (netInterface w))
           \<and> globalAddrState (ipv6Config (netInterface (snd (slaacProcessRouterAdv e context w message len))))
               = IPV6_ADDR_STATE_TENTATIVE
           \<and> dnsServer6 (ipv6Config (netInterface (snd (slaacProcessRouterAdv e context w message len))))
               = (case ndpGetOption_RECURSIVE_DNS_SERVER (raOptions message) of
                    None \<Rightarrow> dnsServer6 (ipv6Config (netInterface w))
                  | Some r \<Rightarrow>
                      if \<not> manualDnsConfig (settings context) \<and> rdnssLength r \<ge> 1
                      then dnsServer6 (ipv6Config (slaacCopyDnsServers (netInterface w) (rdnssAddress r) 0
                             ((unat (rdnssLength r) - 1) div 2)))
                      else dnsServer6 (ipv6Config (netInterface w))))
        \<and> ((\<forall>p. ndpGetOption_PREFIX_INFORMATION (raOptions message) = Some p
                \<longrightarrow> pioLength p \<noteq> 4 \<or> \<not> pio_adoptable p) \<longrightarrow>
             fst (slaacProcessRouterAdv e context w message len) = context
             \<and> netInterface (snd (slaacProcessRouterAdv e context w message len)) = netInterface w))
   \<and> (state context \<noteq> SLAAC_STATE_ROUTER_SOLICIT \<and> state context \<noteq> SLAAC_STATE_NO_ROUTER \<longrightarrow>
        fst (slaacProcessRouterAdv e context w message len) = context
        \<and> netInterface (snd (slaacProcessRouterAdv e context w message len)) = netInterface w
        \<and> events (snd (slaacProcessRouterAdv e context w message len))
            = (if parseRouterAdvCallback (settings context)
               then events w @ [ParseRouterAdvCallback message len] else events w))"
  by (rule conjI, rule impI, erule slaacProcessRouterAdv_soliciting,
      simp add: slaacProcessRouterAdv_def emit_def Let_def)

theorem slaacProcessRouterAdv_first_prefix_only_witness:
  "(state (example_slaac_ctx SLAAC_STATE_ROUTER_SOLICIT) = SLAAC_STATE_ROUTER_SOLICIT
      \<or> state (example_slaac_ctx SLAAC_STATE_ROUTER_SOLICIT) = SLAAC_STATE_NO_ROUTER)
   \<and> state (fst (slaacProcessRouterAdv (example_env 5000) (example_slaac_ctx SLAAC_STATE_ROUTER_SOLICIT)
        example_slaac_world
        (example_ra [NDP_OPT_PREFIX_INFORMATION (example_pio True),
                     NDP_OPT_RECURSIVE_DNS_SERVER example_rdnss]) 72))
      = SLAAC_STATE_GLOBAL_ADDR_DAD
   \<and> globalAddr (ipv6Config (netInterface (snd (slaacProcessRouterAdv (example_env 5000)
        (example_slaac_ctx SLAAC_STATE_ROUTER_SOLICIT) example_slaac_world
        (example_ra [NDP_OPT_PREFIX_INFORMATION (example_pio True),
                     NDP_OPT_RECURSIVE_DNS_SERVER example_rdnss]) 72))))
      = [0x20, 0x01, 0x0d, 0xb8, 0, 0, 0, 1, 0x02, 0x11, 0x22, 0xFF, 0xFE, 0x33, 0x44, 0x55]
   \<and> globalAddrState (ipv6Config (netInterface (snd (slaacProcessRouterAdv (example_env 5000)
        (example_slaac_ctx SLAAC_STATE_ROUTER_SOLICIT) example_slaac_world
        (example_ra [NDP_OPT_PREFIX_INFORMATION (example_pio True),
                     NDP_OPT_RECURSIVE_DNS_SERVER example_rdnss]) 72))))
      = IPV6_ADDR_STATE_TENTATIVE
   \<and> dnsServer6 (ipv6Config (netInterface (snd (slaacProcessRouterAdv (example_env 5000)
        (example_slaac_ctx SLAAC_STATE_ROUTER_SOLICIT) example_slaac_world
        (example_ra [NDP_OPT_PREFIX_INFORMATION (example_pio True),
                     NDP_OPT_RECURSIVE_DNS_SERVER example_rdnss]) 72))))
      = [[0x20, 0x01, 0x0d, 0xb8, 0, 0, 0, 1, 0, 0, 0, 0, 0, 0, 0, 0x53], replicate 16 0]
   \<and> fst (slaacProcessRouterAdv (example_env 5000) (example_slaac_ctx SLAAC_STATE_ROUTER_SOLICIT)
        example_slaac_world (example_ra [NDP_OPT_OTHER 1]) 24)
      = example_slaac_ctx SLAAC_STATE_ROUTER_SOLICIT
   \<and> (state (example_slaac_ctx SLAAC_STATE_CONFIGURED) \<noteq> SLAAC_STATE_ROUTER_SOLICIT
        \<and> state (example_slaac_ctx SLAAC_STATE_CONFIGURED) \<noteq> SLAAC_STATE_NO_ROUTER)
   \<and> fst (slaacProcessRouterAdv (example_env 5000) (example_slaac_ctx SLAAC_STATE_CONFIGURED)
        example_slaac_world (example_ra [NDP_OPT_PREFIX_INFORMATION (example_pio True)]) 48)
      = example_slaac_ctx SLAAC_STATE_CONFIGURED
   \<and> netInterface (snd (slaacProcessRouterAdv (example_env 5000)
        (example_slaac_ctx SLAAC_STATE_CONFIGURED) example_slaac_world
        (example_ra [NDP_OPT_PREFIX_INFORMATION (example_pio True)]) 48))
      = netInterface example_slaac_world"
proof -
  let ?c = "example_slaac_ctx SLAAC_STATE_ROUTER_SOLICIT"
  let ?m = "example_ra [NDP_OPT_PREFIX_INFORMATION (example_pio True),
                     NDP_OPT_RECURSIVE_DNS_SERVER example_rdnss]"
  have st: "state ?c = SLAAC_STATE_ROUTER_SOLICIT \<or> state ?c = SLAAC_STATE_NO_ROUTER"
    by (simp add: example_slaac_simps)
  have p: "ndpGetOption_PREFIX_INFORMATION (raOptions ?m) = Some (example_pio True)
         \<and> pioLength (example_pio True) = 4 \<and> pio_adoptable (example_pio True)"
    by (simp add: example_slaac_simps pio_adoptable_def ipv6CompPrefix_def
        IPV6_LINK_LOCAL_ADDR_PREFIX_def)
  have n: "\<forall>p. ndpGetOption_PREFIX_INFORMATION (raOptions (example_ra [NDP_OPT_OTHER 1])) = Some p
           \<longrightarrow> pioLength p \<noteq> 4 \<or> \<not> pio_adoptable p"
    by (simp add: example_slaac_simps)
  have r: "ndpGetOption_RECURSIVE_DNS_SERVER (raOptions ?m) = Some example_rdnss"
    by (simp add: example_slaac_simps)
  have d: "dnsServer6 (ipv6Config (slaacCopyDnsServers (netInterface example_slaac_world)
               (rdnssAddress example_rdnss) 0 ((unat (rdnssLength example_rdnss) - 1) div 2)))
      = [[0x20, 0x01, 0x0d, 0xb8, 0, 0, 0, 1, 0, 0, 0, 0, 0, 0, 0, 0x53], replicate 16 0]"
  proof -
    have k: "(unat (rdnssLength example_rdnss) - 1) div 2 = Suc 0"
      by (simp add: example_rdnss_def)
    show ?thesis
      unfolding k by (simp add: example_slaac_simps ipv6SetDnsServer_def)
  qed
  have g: "take 8 (pioPrefix (example_pio True)) @ macAddrToEui64 (macAddr (netInterface example_slaac_world))
     = [0x20, 0x01, 0x0d, 0xb8, 0, 0, 0, 1, 0x02, 0x11, 0x22, 0xFF, 0xFE, 0x33, 0x44, 0x55]"
    by (simp add: example_slaac_simps macAddrToEui64_def MAC_ADDR_FLAG_LOCAL_def)
  have m: "\<not> manualDnsConfig (settings ?c) \<and> rdnssLength example_rdnss \<ge> 1"
    by (simp add: example_slaac_simps)
  have o: "state (example_slaac_ctx SLAAC_STATE_CONFIGURED) \<noteq> SLAAC_STATE_ROUTER_SOLICIT
        \<and> state (example_slaac_ctx SLAAC_STATE_CONFIGURED) \<noteq> SLAAC_STATE_NO_ROUTER"
    by (simp add: example_slaac_simps SLAAC_STATE_defs)
  from slaacProcessRouterAdv_first_prefix_only [of ?c ?m "example_env 5000" example_slaac_world 72,
         THEN conjunct1, THEN mp, OF st, THEN conjunct1, rule_format, OF p]
       slaacProcessRouterAdv_first_prefix_only [of ?c "example_ra [NDP_OPT_OTHER 1]"
         "example_env 5000" example_slaac_world 24,
         THEN conjunct1, THEN mp, OF st, THEN conjunct2, THEN mp, OF n]
       slaacProcessRouterAdv_first_prefix_only [of "example_slaac_ctx SLAAC_STATE_CONFIGURED"
         "example_ra [NDP_OPT_PREFIX_INFORMATION (example_pio True)]"
         "example_env 5000" example_slaac_world 48,
         THEN conjunct2, THEN mp, OF o]
  show ?thesis
    unfolding r g using st d m o by simp
qed

text \<open>
  C7 as stated fails: in ROUTER-SOLICIT, a Router Advertisement whose first Prefix
  Information option has the Autonomous flag clear and whose second one meets every
  condition of the spec is discarded; the engine stays in ROUTER-SOLICIT and the
  interface keeps its configuration, although the spec's choice is the second option.
\<close>

theorem slaacProcessRouterAdv_later_prefix_not_adopted:
  "spec_first_adoptable_prefix
     (raOptions (example_ra [NDP_OPT_PREFIX_INFORMATION (example_pio False),
                             NDP_OPT_PREFIX_INFORMATION (example_pio True)]))
     = Some (example_pio True)
   \<and> fst (slaacProcessRouterAdv (example_env 5000) (example_slaac_ctx SLAAC_STATE_ROUTER_SOLICIT)
        example_slaac_world
        (example_ra [NDP_OPT_PREFIX_INFORMATION (example_pio False),
                     NDP_OPT_PREFIX_INFORMATION (example_pio True)]) 80)
      = example_slaac_ctx SLAAC_STATE_ROUTER_SOLICIT
   \<and> netInterface (snd (slaacProcessRouterAdv (example_env 5000)
        (example_slaac_ctx SLAAC_STATE_ROUTER_SOLICIT) example_slaac_world
        (example_ra [NDP_OPT_PREFIX_INFORMATION (example_pio False),
                     NDP_OPT_PREFIX_INFORMATION (example_pio True)]) 80))
      = example_interface
   \<and> state (example_slaac_ctx SLAAC_STATE_ROUTER_SOLICIT) \<noteq> SLAAC_STATE_GLOBAL_ADDR_DAD"
  by (simp add: slaacProcessRouterAdv_def example_slaac_simps pio_adoptable_def ipv6CompPrefix_def
      IPV6_LINK_LOCAL_ADDR_PREFIX_def SLAAC_STATE_defs emit_def Let_def)

subsection \<open>DHCPv4: lease timers of an accepted DHCPACK\<close>



lemmas DHCP_STATE_defs = DHCP_STATE_INIT_def DHCP_STATE_SELECTING_def DHCP_STATE_REQUESTING_def
  DHCP_STATE_INIT_REBOOT_def DHCP_STATE_REBOOTING_def DHCP_STATE_BOUND_def
  DHCP_STATE_RENEWING_def DHCP_STATE_REBINDING_def








subsection \<open>The state stays in the enumerated set\<close>

lemma dhcpChangeState_state [simp]:
  "state (fst (dhcpChangeState e c w s d)) = s"
  by (simp add: dhcpChangeState_def Let_def)

lemma dhcpCheckTimeout_state [simp]:
  "state (fst (dhcpCheckTimeout e c w)) = state c"
  by (simp add: dhcpCheckTimeout_def Let_def)

lemma DhcpState_members [simp]:
  "DHCP_STATE_INIT \<in> DhcpState" "DHCP_STATE_SELECTING \<in> DhcpState"
  "DHCP_STATE_REQUESTING \<in> DhcpState" "DHCP_STATE_INIT_REBOOT \<in> DhcpState"
  "DHCP_STATE_REBOOTING \<in> DhcpState" "DHCP_STATE_BOUND \<in> DhcpState"
  "DHCP_STATE_RENEWING \<in> DhcpState" "DHCP_STATE_REBINDING \<in> DhcpState"
  by (simp_all add: DhcpState_def)

lemma dhcp_handler_states:
  assumes "state c \<in> DhcpState"
  shows "state (fst (dhcpStateInit cfg e c w)) \<in> DhcpState"
    and "state (fst (dhcpStateSelecting cfg e c w)) \<in> DhcpState"
    and "state (fst (dhcpStateRequesting cfg e c w)) \<in> DhcpState"
    and "state (fst (dhcpStateInitReboot cfg e c w)) \<in> DhcpState"
    and "state (fst (dhcpStateRebooting cfg e c w)) \<in> DhcpState"
    and "state (fst (dhcpStateBound e c w)) \<in> DhcpState"
    and "state (fst (dhcpStateRenewing cfg e c w)) \<in> DhcpState"
    and "state (fst (dhcpStateRebinding cfg e c w)) \<in> DhcpState"
  using assms
  by (simp_all add: dhcpStateInit_def dhcpStateSelecting_def dhcpStateRequesting_def
      dhcpStateInitReboot_def dhcpStateRebooting_def dhcpStateBound_def dhcpStateRenewing_def
      dhcpStateRebinding_def Let_def case_prod_beta)

lemma dhcpClientTick_state:
  "state (fst (dhcpClientTick cfg e c w)) \<in> DhcpState"
  by (simp add: dhcpClientTick_def dhcp_handler_states)

lemma dhcpClientTick_unrecognized:
  "state c \<notin> DhcpState \<Longrightarrow> state (fst (dhcpClientTick cfg e c w)) = DHCP_STATE_INIT"
  by (auto simp add: dhcpClientTick_def)

lemma dhcp_parse_states:
  assumes "state c \<in> DhcpState"
  shows "state (fst (dhcpParseOffer e c w m l)) \<in> DhcpState"
    and "state (fst (dhcpParseAckNak cfg e c w m l)) \<in> DhcpState"
  using assms
  by (simp_all add: dhcpParseOffer_def dhcpParseAckNak_def Let_def split: option.splits)

lemma dhcpClientProcessMessage_state:
  "state c \<in> DhcpState \<Longrightarrow> state (fst (dhcpClientProcessMessage cfg e c w m l)) \<in> DhcpState"
  by (simp add: dhcpClientProcessMessage_def dhcp_parse_states)

lemma dhcpClientProcessMessage_unrecognized:
  "state c \<notin> DhcpState \<Longrightarrow> state (fst (dhcpClientProcessMessage cfg e c w m l)) = state c"
  by (auto simp add: dhcpClientProcessMessage_def)

lemma dhcpv6ChangeState_state [simp]:
  "state (fst (dhcpv6ChangeState e c w s d)) = s"
  by (simp add: dhcpv6ChangeState_def Let_def)

lemma dhcpv6CheckTimeout_state [simp]:
  "state (fst (dhcpv6CheckTimeout e c w)) = state c"
  by (simp add: dhcpv6CheckTimeout_def Let_def)

lemma Dhcpv6State_members [simp]:
  "DHCPV6_STATE_INIT \<in> Dhcpv6State" "DHCPV6_STATE_SOLICIT \<in> Dhcpv6State"
  "DHCPV6_STATE_REQUEST \<in> Dhcpv6State" "DHCPV6_STATE_INIT_CONFIRM \<in> Dhcpv6State"
  "DHCPV6_STATE_CONFIRM \<in> Dhcpv6State" "DHCPV6_STATE_BOUND \<in> Dhcpv6State"
  "DHCPV6_STATE_RENEW \<in> Dhcpv6State" "DHCPV6_STATE_REBIND \<in> Dhcpv6State"
  "DHCPV6_STATE_DECLINE \<in> Dhcpv6State"
  by (simp_all add: Dhcpv6State_def)

lemma dhcpv6_handler_states:
  assumes "state c \<in> Dhcpv6State"
  shows "state (fst (dhcpv6StateInit e c w)) \<in> Dhcpv6State"
    and "state (fst (dhcpv6StateSolicit e c w)) \<in> Dhcpv6State"
    and "state (fst (dhcpv6StateRequest e c w)) \<in> Dhcpv6State"
    and "state (fst (dhcpv6StateInitConfirm e c w)) \<in> Dhcpv6State"
    and "state (fst (dhcpv6StateConfirm e c w)) \<in> Dhcpv6State"
    and "state (fst (dhcpv6StateBound e c w)) \<in> Dhcpv6State"
    and "state (fst (dhcpv6StateRenew e c w)) \<in> Dhcpv6State"
    and "state (fst (dhcpv6StateRebind e c w)) \<in> Dhcpv6State"
  using assms
  by (simp_all add: dhcpv6StateInit_def dhcpv6StateSolicit_def dhcpv6StateRequest_def
      dhcpv6StateInitConfirm_def dhcpv6StateConfirm_def dhcpv6StateBound_def dhcpv6StateRenew_def
      dhcpv6StateRebind_def Let_def case_prod_beta)

lemma dhcpv6ClientTick_state:
  "state (fst (dhcpv6ClientTick e c w)) \<in> Dhcpv6State"
  by (simp add: dhcpv6ClientTick_def dhcpv6_handler_states)

lemma dhcpv6ClientTick_unrecognized:
  "state c \<notin> Dhcpv6State \<Longrightarrow> state (fst (dhcpv6ClientTick e c w)) = DHCPV6_STATE_INIT"
  by (auto simp add: dhcpv6ClientTick_def)

lemma dhcpv6ParseIaNaOption_state [simp]:
  "state (snd (dhcpv6ParseIaNaOption c i option)) = state c"
  by (simp add: dhcpv6ParseIaNaOption_def Let_def split: option.splits)

lemma dhcpv6ParseReply_IaNa_state [simp]:
  "state (snd (dhcpv6ParseReply_IaNa c i options n)) = state c"
proof (induction c i options n rule: dhcpv6ParseReply_IaNa.induct)
  case (1 c i opts n)
  show ?case
    by (subst dhcpv6ParseReply_IaNa.simps) (simp add: 1 split: option.splits)
qed

lemma dhcpv6ParseReply_state:
  "state c \<in> Dhcpv6State \<Longrightarrow> state (fst (snd (dhcpv6ParseReply cfg e c w m))) \<in> Dhcpv6State"
  by (simp add: dhcpv6ParseReply_def Let_def case_prod_beta split: option.splits)

lemma dhcpv6ParseAdvertise_state:
  assumes "state c \<in> Dhcpv6State"
  shows "state (fst (snd (dhcpv6ParseAdvertise cfg e c w m))) \<in> Dhcpv6State"
proof (cases "rapidCommit (settings c)")
  case False
  with assms show ?thesis
    by (simp add: dhcpv6ParseAdvertise_def Let_def case_prod_beta split: option.splits)
next
  case True
  obtain err c' w' where r: "dhcpv6ParseReply cfg e c w m = (err, c', w')"
    by (cases "dhcpv6ParseReply cfg e c w m") auto
  from dhcpv6ParseReply_state [OF assms, of cfg e w m] r
  have "state c' \<in> Dhcpv6State" by simp
  with True r show ?thesis
    by (simp add: dhcpv6ParseAdvertise_def Let_def case_prod_beta split: option.splits)
qed

lemma dhcpv6ClientProcessMessage_state:
  "state c \<in> Dhcpv6State \<Longrightarrow> state (fst (dhcpv6ClientProcessMessage cfg e c w m)) \<in> Dhcpv6State"
  by (simp add: dhcpv6ClientProcessMessage_def dhcpv6ParseReply_state dhcpv6ParseAdvertise_state)

lemma dhcpv6ClientProcessMessage_unrecognized:
  "state c \<notin> Dhcpv6State \<Longrightarrow> state (fst (dhcpv6ClientProcessMessage cfg e c w m)) = state c"
  by (auto simp add: dhcpv6ClientProcessMessage_def)

lemma SlaacState_members [simp]:
  "SLAAC_STATE_INIT \<in> SlaacState" "SLAAC_STATE_LINK_LOCAL_ADDR_DAD \<in> SlaacState"
  "SLAAC_STATE_ROUTER_SOLICIT \<in> SlaacState" "SLAAC_STATE_GLOBAL_ADDR_DAD \<in> SlaacState"
  "SLAAC_STATE_CONFIGURED \<in> SlaacState" "SLAAC_STATE_NO_ROUTER \<in> SlaacState"
  "SLAAC_STATE_DAD_FAILURE \<in> SlaacState"
  by (simp_all add: SlaacState_def)

lemma slaacTick_state:
  "state c \<in> SlaacState \<Longrightarrow> state (fst (slaacTick e c w)) \<in> SlaacState"
  by (simp add: slaacTick_def Let_def)

lemma SlaacState_unrecognized:
  assumes "s \<notin> SlaacState"
  shows "s \<noteq> SLAAC_STATE_INIT" "s \<noteq> SLAAC_STATE_LINK_LOCAL_ADDR_DAD"
    "s \<noteq> SLAAC_STATE_ROUTER_SOLICIT" "s \<noteq> SLAAC_STATE_GLOBAL_ADDR_DAD"
    "s \<noteq> SLAAC_STATE_NO_ROUTER"
  using assms by (auto simp add: SlaacState_def)

lemma slaacTick_unrecognized:
  "state c \<notin> SlaacState \<Longrightarrow> slaacTick e c w = (c, w)"
  by (simp add: slaacTick_def Let_def SlaacState_unrecognized)

lemma slaacProcessRouterAdv_state:
  "state c \<in> SlaacState \<Longrightarrow> state (fst (slaacProcessRouterAdv e c w m l)) \<in> SlaacState"
  by (simp add: slaacProcessRouterAdv_def Let_def split: option.splits)

lemma slaacProcessRouterAdv_unrecognized:
  "state c \<notin> SlaacState \<Longrightarrow> state (fst (slaacProcessRouterAdv e c w m l)) = state c"
  by (simp add: slaacProcessRouterAdv_def Let_def SlaacState_unrecognized)

text \<open>
  C2, as the code has it. After a tick of the DHCPv4 or of the DHCPv6 client, from any
  starting context, the state lies in the declared state set of the engine, and a tick
  entered with an unrecognized state value resets the state to INIT. The receive
  paths of the three engines and the tick of the SLAAC engine keep the state in the
  declared set when it was there before the call, and they leave an unrecognized state
  value as it is.
\<close>

theorem tick_and_receive_states:
  "state (fst (dhcpClientTick cfg e c4 w4)) \<in> DhcpState
   \<and> (state c4 \<notin> DhcpState \<longrightarrow> state (fst (dhcpClientTick cfg e c4 w4)) = DHCP_STATE_INIT)
   \<and> state (fst (dhcpv6ClientTick e c6 w6)) \<in> Dhcpv6State
   \<and> (state c6 \<notin> Dhcpv6State \<longrightarrow> state (fst (dhcpv6ClientTick e c6 w6)) = DHCPV6_STATE_INIT)
   \<and> (state c4 \<in> DhcpState \<longrightarrow>
        state (fst (dhcpClientProcessMessage cfg e c4 w4 m4 len4)) \<in> DhcpState)
   \<and> (state c6 \<in> Dhcpv6State \<longrightarrow>
        state (fst (dhcpv6ClientProcessMessage cfg e c6 w6 m6)) \<in> Dhcpv6State)
   \<and> (state cS \<in> SlaacState \<longrightarrow>
        state (fst (slaacTick e cS wS)) \<in> SlaacState
        \<and> state (fst (slaacProcessRouterAdv e cS wS mS lenS)) \<in> SlaacState)
   \<and> (state c4 \<notin> DhcpState \<longrightarrow>
        state (fst (dhcpClientProcessMessage cfg e c4 w4 m4 len4)) = state c4)
   \<and> (state c6 \<notin> Dhcpv6State \<longrightarrow>
        state (fst (dhcpv6ClientProcessMessage cfg e c6 w6 m6)) = state c6)
   \<and> (state cS \<notin> SlaacState \<longrightarrow>
        state (fst (slaacTick e cS wS)) = state cS
        \<and> state (fst (slaacProcessRouterAdv e cS wS mS lenS)) = state cS)"
  by (simp add: dhcpClientTick_state dhcpClientTick_unrecognized dhcpv6ClientTick_state
      dhcpv6ClientTick_unrecognized dhcpClientProcessMessage_state
      dhcpv6ClientProcessMessage_state slaacTick_state slaacProcessRouterAdv_state
      dhcpClientProcessMessage_unrecognized dhcpv6ClientProcessMessage_unrecognized
      slaacTick_unrecognized slaacProcessRouterAdv_unrecognized)

lemma example_unrecognized:
  "42 \<notin> DhcpState" "42 \<notin> Dhcpv6State" "42 \<notin> SlaacState"
  by (simp_all add: DhcpState_def Dhcpv6State_def SlaacState_def DHCP_STATE_defs
      DHCPV6_STATE_defs SLAAC_STATE_defs)

theorem tick_and_receive_states_witness:
  "state (example_dhcp_ctx 42) \<notin> DhcpState
   \<and> state (fst (dhcpClientTick example_config (example_env 5000) (example_dhcp_ctx 42)
        example_dhcp_world)) = DHCP_STATE_INIT
   \<and> state (fst (dhcpClientProcessMessage example_config (example_env 5000) (example_dhcp_ctx 42)
        example_dhcp_world (example_dhcp_reply (example_ack_options [0, 0, 2, 88])) 300)) = 42
   \<and> state (example_dhcpv6_ctx\<lparr>state := 42\<rparr>) \<notin> Dhcpv6State
   \<and> state (fst (dhcpv6ClientTick (example_env 5000) (example_dhcpv6_ctx\<lparr>state := 42\<rparr>)
        \<lparr>netInterface = example_interface, events = []\<rparr>)) = DHCPV6_STATE_INIT
   \<and> state (fst (dhcpv6ClientProcessMessage example_config (example_env 5000)
        (example_dhcpv6_ctx\<lparr>state := 42\<rparr>)
        \<lparr>netInterface = example_interface, events = []\<rparr> [7, 0, 0, 0])) = 42
   \<and> state (example_slaac_ctx 42) \<notin> SlaacState
   \<and> state (fst (slaacTick (example_env 5000) (example_slaac_ctx 42) example_slaac_world)) = 42
   \<and> state (fst (slaacProcessRouterAdv (example_env 5000) (example_slaac_ctx 42) example_slaac_world
        (example_ra [NDP_OPT_PREFIX_INFORMATION (example_pio True)]) 48)) = 42
   \<and> state (example_dhcp_ctx DHCP_STATE_REQUESTING) \<in> DhcpState
   \<and> state (fst (dhcpClientProcessMessage example_config (example_env 5000)
        (example_dhcp_ctx DHCP_STATE_REQUESTING) example_dhcp_world
        (example_dhcp_reply (example_ack_options [0, 0, 2, 88])) 300)) \<in> DhcpState
   \<and> state (example_dhcpv6_ctx\<lparr>state := DHCPV6_STATE_REQUEST\<rparr>) \<in> Dhcpv6State
   \<and> state (fst (dhcpv6ClientProcessMessage example_config (example_env 5000)
        (example_dhcpv6_ctx\<lparr>state := DHCPV6_STATE_REQUEST\<rparr>)
        \<lparr>netInterface = example_interface, events = []\<rparr> [7, 0, 0, 0])) \<in> Dhcpv6State
   \<and> state (example_slaac_ctx SLAAC_STATE_ROUTER_SOLICIT) \<in> SlaacState
   \<and> state (fst (slaacTick (example_env 5000) (example_slaac_ctx SLAAC_STATE_ROUTER_SOLICIT)
        example_slaac_world)) \<in> SlaacState
   \<and> state (fst (slaacProcessRouterAdv (example_env 5000)
        (example_slaac_ctx SLAAC_STATE_ROUTER_SOLICIT) example_slaac_world
        (example_ra [NDP_OPT_PREFIX_INFORMATION (example_pio True)]) 48)) \<in> SlaacState"
proof -
  have u4: "state (example_dhcp_ctx 42) \<notin> DhcpState"
    and u6: "state (example_dhcpv6_ctx\<lparr>state := 42\<rparr>) \<notin> Dhcpv6State"
    and uS: "state (example_slaac_ctx 42) \<notin> SlaacState"
    by (simp_all add: example_dhcp_ctx_def example_slaac_ctx_def example_unrecognized)
  have s4: "state (example_dhcp_ctx 42) = 42" and sS: "state (example_slaac_ctx 42) = 42"
    by (simp_all add: example_dhcp_ctx_def example_slaac_ctx_def)
  have r4: "state (example_dhcp_ctx DHCP_STATE_REQUESTING) \<in> DhcpState"
    and r6: "state (example_dhcpv6_ctx\<lparr>state := DHCPV6_STATE_REQUEST\<rparr>) \<in> Dhcpv6State"
    and rS: "state (example_slaac_ctx SLAAC_STATE_ROUTER_SOLICIT) \<in> SlaacState"
    by (simp_all add: example_dhcp_ctx_def example_slaac_ctx_def DhcpState_def Dhcpv6State_def
        SlaacState_def)
  note a = tick_and_receive_states [of example_config "example_env 5000" "example_dhcp_ctx 42"
      example_dhcp_world "example_dhcpv6_ctx\<lparr>state := 42\<rparr>"
      "\<lparr>netInterface = example_interface, events = []\<rparr>"
      "example_dhcp_reply (example_ack_options [0, 0, 2, 88])" 300 "[7, 0, 0, 0]"
      "example_slaac_ctx 42" example_slaac_world
      "example_ra [NDP_OPT_PREFIX_INFORMATION (example_pio True)]" 48]
  note b = tick_and_receive_states [of example_config "example_env 5000"
      "example_dhcp_ctx DHCP_STATE_REQUESTING"
      example_dhcp_world "example_dhcpv6_ctx\<lparr>state := DHCPV6_STATE_REQUEST\<rparr>"
      "\<lparr>netInterface = example_interface, events = []\<rparr>"
      "example_dhcp_reply (example_ack_options [0, 0, 2, 88])" 300 "[7, 0, 0, 0]"
      "example_slaac_ctx SLAAC_STATE_ROUTER_SOLICIT" example_slaac_world
      "example_ra [NDP_OPT_PREFIX_INFORMATION (example_pio True)]" 48]
  from a u4 u6 uS s4 sS have
    "state (fst (dhcpClientTick example_config (example_env 5000) (example_dhcp_ctx 42)
        example_dhcp_world)) = DHCP_STATE_INIT"
    "state (fst (dhcpClientProcessMessage example_config (example_env 5000) (example_dhcp_ctx 42)
        example_dhcp_world (example_dhcp_reply (example_ack_options [0, 0, 2, 88])) 300)) = 42"
    "state (fst (dhcpv6ClientTick (example_env 5000) (example_dhcpv6_ctx\<lparr>state := 42\<rparr>)
        \<lparr>netInterface = example_interface, events = []\<rparr>)) = DHCPV6_STATE_INIT"
    "state (fst (dhcpv6ClientProcessMessage example_config (example_env 5000)
        (example_dhcpv6_ctx\<lparr>state := 42\<rparr>)
        \<lparr>netInterface = example_interface, events = []\<rparr> [7, 0, 0, 0])) = 42"
    "state (fst (slaacTick (example_env 5000) (example_slaac_ctx 42) example_slaac_world)) = 42"
    "state (fst (slaacProcessRouterAdv (example_env 5000) (example_slaac_ctx 42) example_slaac_world
        (example_ra [NDP_OPT_PREFIX_INFORMATION (example_pio True)]) 48)) = 42"
    by simp_all
  moreover from b r4 r6 rS have
    "state (fst (dhcpClientProcessMessage example_config (example_env 5000)
        (example_dhcp_ctx DHCP_STATE_REQUESTING) example_dhcp_world
        (example_dhcp_reply (example_ack_options [0, 0, 2, 88])) 300)) \<in> DhcpState"
    "state (fst (dhcpv6ClientProcessMessage example_config (example_env 5000)
        (example_dhcpv6_ctx\<lparr>state := DHCPV6_STATE_REQUEST\<rparr>)
        \<lparr>netInterface = example_interface, events = []\<rparr> [7, 0, 0, 0])) \<in> Dhcpv6State"
    "state (fst (slaacTick (example_env 5000) (example_slaac_ctx SLAAC_STATE_ROUTER_SOLICIT)
        example_slaac_world)) \<in> SlaacState"
    "state (fst (slaacProcessRouterAdv (example_env 5000)
        (example_slaac_ctx SLAAC_STATE_ROUTER_SOLICIT) example_slaac_world
        (example_ra [NDP_OPT_PREFIX_INFORMATION (example_pio True)]) 48)) \<in> SlaacState"
    by simp_all
  ultimately show ?thesis using u4 u6 uS r4 r6 rS by simp
qed

text \<open>
  C2 as stated fails for the receive paths and for the SLAAC tick: entered with the
  state value 42, which is in no declared state set, the receive callback of the DHCPv4
  client and the tick of the SLAAC engine return with the state still 42.
\<close>

theorem receive_keeps_unrecognized_state:
  "state (fst (dhcpClientProcessMessage example_config (example_env 5000) (example_dhcp_ctx 42)
        example_dhcp_world (example_dhcp_reply (example_ack_options [0, 0, 2, 88])) 300)) = 42
   \<and> 42 \<notin> DhcpState
   \<and> state (fst (slaacTick (example_env 5000) (example_slaac_ctx 42) example_slaac_world)) = 42
   \<and> 42 \<notin> SlaacState"
  by (simp add: dhcpClientProcessMessage_def slaacTick_def example_dhcp_ctx_def example_slaac_ctx_def
      DHCP_STATE_defs SLAAC_STATE_defs sizeof_DhcpMessage_def example_config_def Let_def
      DhcpState_def SlaacState_def)

subsection \<open>DHCPv6: validation of an Advertise message\<close>

lemmas example_dhcpv6_simps = example_dhcpv6_solicit_ctx_def example_dhcpv6_world_def
  example_advertise_def example_duid_16_def example_duid_15_def example_simps

lemmas dhcpv6_receive_simps = dhcpv6ParseAdvertise_def dhcpv6ParseReply_def msgType_def
  msgTransactionId_def msgOptions_def memcpy_def dhcpv6ChangeState_def DHCPV6_MSG_TYPE_defs
  DHCPV6_MAX_SERVER_PREFERENCE_def DHCPV6_STATE_defs emit_def Let_def

text \<open>Claim C4. An Advertise is accepted only if it is long enough, of type ADVERTISE,
  with the transaction identifier and the client identifier of the context, a Server
  Identifier of non-zero length at most the maximum DUID size, and no NoAddrsAvail
  status; in particular a server DUID of exactly the maximum size is accepted. The
  code compares the length with \<^verbatim>\<open>>=\<close>: with a \<^verbatim>\<open>serverId\<close> buffer of 16 bytes, an
  Advertise that is valid in every other respect and carries a 16-byte server DUID
  returns \<^verbatim>\<open>ERROR_INVALID_MESSAGE\<close> and leaves the context as it was, although the
  DUID fits the buffer; the same Advertise with a 15-byte server DUID is accepted and
  its DUID recorded.\<close>

theorem dhcpv6ParseAdvertise_rejects_duid_of_max_size:
  "length example_duid_16 = DHCPV6_MAX_DUID_SIZE example_config
   \<and> length (serverId example_dhcpv6_solicit_ctx) = DHCPV6_MAX_DUID_SIZE example_config
   \<and> dhcpv6ParseAdvertise example_config (example_env 6000) example_dhcpv6_solicit_ctx
       example_dhcpv6_world (example_advertise example_duid_16)
      = (ERROR_INVALID_MESSAGE, example_dhcpv6_solicit_ctx, example_dhcpv6_world)
   \<and> fst (dhcpv6ParseAdvertise example_config (example_env 6000) example_dhcpv6_solicit_ctx
       example_dhcpv6_world (example_advertise example_duid_15)) = NO_ERROR
   \<and> serverId (fst (snd (dhcpv6ParseAdvertise example_config (example_env 6000)
       example_dhcpv6_solicit_ctx example_dhcpv6_world (example_advertise example_duid_15))))
      = example_duid_15 @ [0]"
  by (simp add: dhcpv6_receive_simps example_dhcpv6_simps dhcpv6_codec_simps)

subsection \<open>DHCPv6: the Elapsed Time option\<close>

lemmas dhcpv6_tick_simps = dhcpv6ClientTick_def dhcpv6StateSolicit_def dhcpv6SendSolicit_def
  dhcpv6Send_def dhcpv6CheckTimeout_def dhcpv6ComputeElapsedTime_def dhcpv6Rand_def
  dhcpv6RandRange_def int32_div_def timeCompare_def iaNaOption_bytes_def fqdnOption_bytes_def
  dhcpv6OptionList_def DHCPV6_CLIENT_SOL_TIMEOUT_def DHCPV6_CLIENT_SOL_MAX_RT_def
  DHCPV6_CLIENT_PORT_def DHCPV6_SERVER_PORT_def DHCPV6_ALL_RELAY_AGENTS_AND_SERVERS_ADDR_def
  DHCPV6_MSG_TYPE_defs DHCPV6_STATE_defs signed_divide_int_def emit_def Let_def

text \<open>The first Solicit of the example client, sent by the tick at time 5000 with a
  retransmission count of 0, and what that tick leaves behind.\<close>

lemma example_solicit_first_tick:
  "dhcpv6ClientTick (example_env 5000) example_dhcpv6_solicit_ctx example_dhcpv6_world
   = (example_dhcpv6_solicit_ctx\<lparr>timestamp := 5000, timeout := 1000, retransmitCount := 1\<rparr>,
      example_dhcpv6_world\<lparr>events := [NdpSendRouterSol,
        UdpSendDatagram 546 [255, 2, 0, 0, 0, 0, 0, 0, 0, 0, 0, 0, 0, 1, 0, 2] 547
         [1, 18, 52, 86, 0, 1, 0, 10, 0, 3, 0, 1, 0, 17, 34, 51, 68, 85, 0,
          3, 0, 12, 0, 0, 0, 1, 0, 0, 0, 0, 0, 0, 0, 0, 0, 6, 0, 6, 0, 23,
          0, 24, 0, 39, 0, 8, 0, 2, 0, 0, 0, 39, 0, 2, 0, 0] 0]\<rparr>)"
  by (simp add: dhcpv6_tick_simps example_dhcpv6_simps dhcpv6_codec_simps)

lemma example_solicit_second_tick:
  "map sentElapsedTime (events (snd (dhcpv6ClientTick (example_env 6100)
      (example_dhcpv6_solicit_ctx\<lparr>timestamp := 5000, timeout := 1000, retransmitCount := 1\<rparr>)
      (example_dhcpv6_world\<lparr>events := [NdpSendRouterSol,
        UdpSendDatagram 546 [255, 2, 0, 0, 0, 0, 0, 0, 0, 0, 0, 0, 0, 1, 0, 2] 547
         [1, 18, 52, 86, 0, 1, 0, 10, 0, 3, 0, 1, 0, 17, 34, 51, 68, 85, 0,
          3, 0, 12, 0, 0, 0, 1, 0, 0, 0, 0, 0, 0, 0, 0, 0, 6, 0, 6, 0, 23,
          0, 24, 0, 39, 0, 8, 0, 2, 0, 0, 0, 39, 0, 2, 0, 0] 0]\<rparr>))))
   = [None, Some 0, Some 610]"
  by (simp add: dhcpv6_tick_simps example_dhcpv6_simps dhcpv6_codec_simps sentElapsedTime_def
      msgOptions_def)

text \<open>Claim C6. The Elapsed Time option of every message is the time since the first
  message of the exchange, in hundredths of a second, and zero on the first message.
  \<^verbatim>\<open>dhcpv6ComputeElapsedTime\<close> measures from \<^verbatim>\<open>exchangeStartTime\<close>, which only
  \<^verbatim>\<open>dhcpv6StateConfirm\<close> sets. In a Solicit exchange whose first message leaves at time
  5000 (in milliseconds), the tick records the time of the transmission in
  \<^verbatim>\<open>timestamp\<close> and leaves \<^verbatim>\<open>exchangeStartTime\<close> at its initial 0, so that the Solicit
  retransmitted at time 6100 carries 610, the time since the system started, where
  the time since the first Solicit is 110 hundredths of a second.\<close>

theorem dhcpv6_solicit_elapsed_time_not_since_first_message:
  "timestamp (fst (dhcpv6ClientTick (example_env 5000) example_dhcpv6_solicit_ctx
        example_dhcpv6_world)) = 5000
   \<and> retransmitCount (fst (dhcpv6ClientTick (example_env 5000) example_dhcpv6_solicit_ctx
        example_dhcpv6_world)) = 1
   \<and> exchangeStartTime (fst (dhcpv6ClientTick (example_env 5000) example_dhcpv6_solicit_ctx
        example_dhcpv6_world)) = exchangeStartTime example_dhcpv6_solicit_ctx
   \<and> exchangeStartTime example_dhcpv6_solicit_ctx = 0
   \<and> map sentElapsedTime (events (snd (dhcpv6ClientTick (example_env 6100)
        (fst (dhcpv6ClientTick (example_env 5000) example_dhcpv6_solicit_ctx example_dhcpv6_world))
        (snd (dhcpv6ClientTick (example_env 5000) example_dhcpv6_solicit_ctx
                example_dhcpv6_world)))))
      = [None, Some 0, Some 610]
   \<and> (6100 - 5000) div 10 = (110 :: uint32_t)"
  unfolding example_solicit_first_tick fst_conv snd_conv example_solicit_second_tick
  by (simp add: example_dhcpv6_simps)

subsection \<open>A stopped DHCP client sends nothing\<close>

text \<open>No handler writes the \<^verbatim>\<open>running\<close> flag: only the initialisation, the start and
  the stop do.\<close>

lemma dhcpChangeState_running [simp]:
  "running (fst (dhcpChangeState e c w s d)) = running c"
  by (simp add: dhcpChangeState_def Let_def)

lemma dhcpCheckTimeout_running [simp]:
  "running (fst (dhcpCheckTimeout e c w)) = running c"
  by (simp add: dhcpCheckTimeout_def Let_def)

lemma dhcp_handler_running:
  shows "running (fst (dhcpStateInit cfg e c w)) = running c"
    and "running (fst (dhcpStateSelecting cfg e c w)) = running c"
    and "running (fst (dhcpStateRequesting cfg e c w)) = running c"
    and "running (fst (dhcpStateInitReboot cfg e c w)) = running c"
    and "running (fst (dhcpStateRebooting cfg e c w)) = running c"
    and "running (fst (dhcpStateBound e c w)) = running c"
    and "running (fst (dhcpStateRenewing cfg e c w)) = running c"
    and "running (fst (dhcpStateRebinding cfg e c w)) = running c"
  by (simp_all add: dhcpStateInit_def dhcpStateSelecting_def dhcpStateRequesting_def
      dhcpStateInitReboot_def dhcpStateRebooting_def dhcpStateBound_def dhcpStateRenewing_def
      dhcpStateRebinding_def Let_def case_prod_beta)

lemma dhcpClientTick_running:
  "running (fst (dhcpClientTick cfg e c w)) = running c"
  by (simp add: dhcpClientTick_def dhcp_handler_running)

lemma dhcp_parse_running:
  shows "running (fst (dhcpParseOffer e c w m l)) = running c"
    and "running (fst (dhcpParseAckNak cfg e c w m l)) = running c"
  by (simp_all add: dhcpParseOffer_def dhcpParseAckNak_def Let_def split: option.splits)

lemma dhcpClientProcessMessage_running:
  "running (fst (dhcpClientProcessMessage cfg e c w m l)) = running c"
  by (simp add: dhcpClientProcessMessage_def dhcp_parse_running)

lemma dhcpClientLinkChangeEvent_running:
  "running (fst (dhcpClientLinkChangeEvent c w)) = running c"
  by (simp add: dhcpClientLinkChangeEvent_def Let_def)

text \<open>In the INIT state a stopped client does nothing on a tick, a message is dropped
  and a link change leaves the state where it is.\<close>

lemma dhcpClientTick_stopped:
  "\<not> running c \<Longrightarrow> state c = DHCP_STATE_INIT \<Longrightarrow> dhcpClientTick cfg e c w = (c, w)"
  by (simp add: dhcpClientTick_def dhcpStateInit_def)

lemma dhcpClientProcessMessage_init:
  "state c = DHCP_STATE_INIT \<Longrightarrow> dhcpClientProcessMessage cfg e c w m l = (c, w)"
  by (simp add: dhcpClientProcessMessage_def DHCP_STATE_defs)

lemma dhcpClientLinkChangeEvent_init:
  "state c = DHCP_STATE_INIT \<Longrightarrow> state (fst (dhcpClientLinkChangeEvent c w)) = DHCP_STATE_INIT"
  by (simp add: dhcpClientLinkChangeEvent_def Let_def DHCP_STATE_defs)

lemma dhcpClientInit_stopped:
  assumes "interface s \<noteq> NULL"
    and "dhcpClientInit cfg e (Some old) (Some s) w = (err, Some c, w')"
  shows "\<not> running c \<and> state c = DHCP_STATE_INIT"
  using assms
  by (auto simp add: dhcpClientInit_def dhcpClient_memset_0_def DHCP_STATE_INIT_def Let_def
      split: if_splits)

lemma dhcpClientReachable_stopped_in_init:
  "dhcpClientReachable cfg c \<Longrightarrow> \<not> running c \<Longrightarrow> state c = DHCP_STATE_INIT"
proof (induction rule: dhcpClientReachable.induct)
  case (init s e old w err c w')
  then show ?case using dhcpClientInit_stopped by blast
next
  case (start c w err c' w')
  then show ?case by (auto simp add: dhcpClientStart_def Let_def)
next
  case (stop c w err c' w')
  then show ?case by (auto simp add: dhcpClientStop_def Let_def)
next
  case (tick c e w c' w')
  from tick.hyps(2) have c': "c' = fst (dhcpClientTick cfg e c w)" by simp
  with tick.prems have n: "\<not> running c" by (simp add: dhcpClientTick_running)
  with tick.IH have "state c = DHCP_STATE_INIT" by simp
  with n c' show ?case by (simp add: dhcpClientTick_stopped)
next
  case (receive c e w message len c' w')
  from receive.hyps(2) have c': "c' = fst (dhcpClientProcessMessage cfg e c w message len)"
    by simp
  with receive.prems have n: "\<not> running c" by (simp add: dhcpClientProcessMessage_running)
  with receive.IH have "state c = DHCP_STATE_INIT" by simp
  with c' show ?case by (simp add: dhcpClientProcessMessage_init)
next
  case (linkChange c w c' w')
  from linkChange.hyps(2) have c': "c' = fst (dhcpClientLinkChangeEvent c w)" by simp
  with linkChange.prems have n: "\<not> running c" by (simp add: dhcpClientLinkChangeEvent_running)
  with linkChange.IH have "state c = DHCP_STATE_INIT" by simp
  with c' show ?case by (simp add: dhcpClientLinkChangeEvent_init)
qed

lemma dhcpClientTicks_stopped:
  "\<not> running c \<Longrightarrow> state c = DHCP_STATE_INIT
   \<Longrightarrow> fst (dhcpClientTicks cfg steps c w) = c
       \<and> events (snd (dhcpClientTicks cfg steps c w)) = events w"
proof (induction steps arbitrary: w)
  case Nil
  show ?case by simp
next
  case (Cons step steps)
  obtain e iface where step: "step = (e, iface)" by (cases step)
  from Cons.prems
  have "dhcpClientTick cfg e c (w\<lparr>netInterface := iface\<rparr>) = (c, w\<lparr>netInterface := iface\<rparr>)"
    by (rule dhcpClientTick_stopped)
  with Cons.IH [OF Cons.prems, of "w\<lparr>netInterface := iface\<rparr>"] step show ?case by simp
qed

text \<open>The same for the DHCPv6 client.\<close>

lemma dhcpv6ChangeState_running [simp]:
  "running (fst (dhcpv6ChangeState e c w s d)) = running c"
  by (simp add: dhcpv6ChangeState_def Let_def)

lemma dhcpv6CheckTimeout_running [simp]:
  "running (fst (dhcpv6CheckTimeout e c w)) = running c"
  by (simp add: dhcpv6CheckTimeout_def Let_def)

lemma dhcpv6_handler_running:
  shows "running (fst (dhcpv6StateInit e c w)) = running c"
    and "running (fst (dhcpv6StateSolicit e c w)) = running c"
    and "running (fst (dhcpv6StateRequest e c w)) = running c"
    and "running (fst (dhcpv6StateInitConfirm e c w)) = running c"
    and "running (fst (dhcpv6StateConfirm e c w)) = running c"
    and "running (fst (dhcpv6StateBound e c w)) = running c"
    and "running (fst (dhcpv6StateRenew e c w)) = running c"
    and "running (fst (dhcpv6StateRebind e c w)) = running c"
  by (simp_all add: dhcpv6StateInit_def dhcpv6StateSolicit_def dhcpv6StateRequest_def
      dhcpv6StateInitConfirm_def dhcpv6StateConfirm_def dhcpv6StateBound_def dhcpv6StateRenew_def
      dhcpv6StateRebind_def Let_def case_prod_beta)

lemma dhcpv6ClientTick_running:
  "running (fst (dhcpv6ClientTick e c w)) = running c"
  by (simp add: dhcpv6ClientTick_def dhcpv6_handler_running)

lemma dhcpv6ParseIaNaOption_running [simp]:
  "running (snd (dhcpv6ParseIaNaOption c i option)) = running c"
  by (simp add: dhcpv6ParseIaNaOption_def Let_def split: option.splits)

lemma dhcpv6ParseReply_IaNa_running [simp]:
  "running (snd (dhcpv6ParseReply_IaNa c i options n)) = running c"
proof (induction c i options n rule: dhcpv6ParseReply_IaNa.induct)
  case (1 c i opts n)
  show ?case
    by (subst dhcpv6ParseReply_IaNa.simps) (simp add: 1 split: option.splits)
qed

lemma dhcpv6ParseReply_running:
  "running (fst (snd (dhcpv6ParseReply cfg e c w m))) = running c"
  by (simp add: dhcpv6ParseReply_def Let_def case_prod_beta split: option.splits)

lemma dhcpv6ParseAdvertise_running:
  "running (fst (snd (dhcpv6ParseAdvertise cfg e c w m))) = running c"
proof (cases "rapidCommit (settings c)")
  case False
  then show ?thesis
    by (simp add: dhcpv6ParseAdvertise_def Let_def case_prod_beta split: option.splits)
next
  case True
  obtain err c' w' where r: "dhcpv6ParseReply cfg e c w m = (err, c', w')"
    by (cases "dhcpv6ParseReply cfg e c w m") auto
  from dhcpv6ParseReply_running [of cfg e c w m] r
  have "running c' = running c" by simp
  with True r show ?thesis
    by (simp add: dhcpv6ParseAdvertise_def Let_def case_prod_beta split: option.splits)
qed

lemma dhcpv6ClientProcessMessage_running:
  "running (fst (dhcpv6ClientProcessMessage cfg e c w m)) = running c"
  by (simp add: dhcpv6ClientProcessMessage_def dhcpv6ParseReply_running
      dhcpv6ParseAdvertise_running)

lemma dhcpv6ClientLinkChangeEvent_running:
  "running (fst (dhcpv6ClientLinkChangeEvent c w)) = running c"
  by (simp add: dhcpv6ClientLinkChangeEvent_def Let_def)

lemma dhcpv6ClientTick_stopped:
  "\<not> running c \<Longrightarrow> state c = DHCPV6_STATE_INIT \<Longrightarrow> dhcpv6ClientTick e c w = (c, w)"
  by (simp add: dhcpv6ClientTick_def dhcpv6StateInit_def)

lemma dhcpv6ClientProcessMessage_init:
  "state c = DHCPV6_STATE_INIT \<Longrightarrow> dhcpv6ClientProcessMessage cfg e c w m = (c, w)"
  by (simp add: dhcpv6ClientProcessMessage_def DHCPV6_STATE_defs)

lemma dhcpv6ClientLinkChangeEvent_init:
  "state c = DHCPV6_STATE_INIT
   \<Longrightarrow> state (fst (dhcpv6ClientLinkChangeEvent c w)) = DHCPV6_STATE_INIT"
  by (simp add: dhcpv6ClientLinkChangeEvent_def Let_def DHCPV6_STATE_defs)

lemma dhcpv6ClientInit_stopped:
  assumes "interface s \<noteq> NULL"
    and "dhcpv6ClientInit cfg e (Some old) (Some s) w = (err, Some c, w')"
  shows "\<not> running c \<and> state c = DHCPV6_STATE_INIT"
  using assms
  by (auto simp add: dhcpv6ClientInit_def dhcpv6_memset_0_def DHCPV6_STATE_INIT_def Let_def
      split: if_splits)

lemma dhcpv6ClientReachable_stopped_in_init:
  "dhcpv6ClientReachable cfg c \<Longrightarrow> \<not> running c \<Longrightarrow> state c = DHCPV6_STATE_INIT"
proof (induction rule: dhcpv6ClientReachable.induct)
  case (init s e old w err c w')
  then show ?case using dhcpv6ClientInit_stopped by blast
next
  case (start c w err c' w')
  then show ?case by (auto simp add: dhcpv6ClientStart_def Let_def)
next
  case (stop c w err c' w')
  then show ?case by (auto simp add: dhcpv6ClientStop_def Let_def)
next
  case (tick c e w c' w')
  from tick.hyps(2) have c': "c' = fst (dhcpv6ClientTick e c w)" by simp
  with tick.prems have n: "\<not> running c" by (simp add: dhcpv6ClientTick_running)
  with tick.IH have "state c = DHCPV6_STATE_INIT" by simp
  with n c' show ?case by (simp add: dhcpv6ClientTick_stopped)
next
  case (receive c e w message c' w')
  from receive.hyps(2) have c': "c' = fst (dhcpv6ClientProcessMessage cfg e c w message)"
    by simp
  with receive.prems have n: "\<not> running c" by (simp add: dhcpv6ClientProcessMessage_running)
  with receive.IH have "state c = DHCPV6_STATE_INIT" by simp
  with c' show ?case by (simp add: dhcpv6ClientProcessMessage_init)
next
  case (linkChange c w c' w')
  from linkChange.hyps(2) have c': "c' = fst (dhcpv6ClientLinkChangeEvent c w)" by simp
  with linkChange.prems have n: "\<not> running c"
    by (simp add: dhcpv6ClientLinkChangeEvent_running)
  with linkChange.IH have "state c = DHCPV6_STATE_INIT" by simp
  with c' show ?case by (simp add: dhcpv6ClientLinkChangeEvent_init)
qed

lemma dhcpv6ClientTicks_stopped:
  "\<not> running c \<Longrightarrow> state c = DHCPV6_STATE_INIT
   \<Longrightarrow> fst (dhcpv6ClientTicks steps c w) = c
       \<and> events (snd (dhcpv6ClientTicks steps c w)) = events w"
proof (induction steps arbitrary: w)
  case Nil
  show ?case by simp
next
  case (Cons step steps)
  obtain e iface where step: "step = (e, iface)" by (cases step)
  from Cons.prems
  have "dhcpv6ClientTick e c (w\<lparr>netInterface := iface\<rparr>) = (c, w\<lparr>netInterface := iface\<rparr>)"
    by (rule dhcpv6ClientTick_stopped)
  with Cons.IH [OF Cons.prems, of "w\<lparr>netInterface := iface\<rparr>"] step show ?case by simp
qed

text \<open>The example contexts are reachable: each is initialised, started and stopped.\<close>

lemma example_dhcp_stopped_reachable:
  "dhcpClientReachable example_config example_dhcp_stopped"
proof -
  define r where "r = dhcpClientInit example_config (example_env 0) (Some (example_dhcp_ctx 5))
    (Some example_dhcp_settings) example_dhcp_world"
  have "fst (snd r) = Some example_dhcp_stopped"
    unfolding r_def
    by (simp add: dhcpClientInit_def example_dhcp_stopped_def example_dhcp_settings_def
        example_env_def dhcpClient_memset_0_def DHCP_STATE_INIT_def Let_def)
  then have "dhcpClientInit example_config (example_env 0) (Some (example_dhcp_ctx 5))
      (Some example_dhcp_settings) example_dhcp_world
    = (fst r, Some example_dhcp_stopped, snd (snd r))"
    unfolding r_def by (metis prod.collapse)
  moreover have "interface example_dhcp_settings \<noteq> NULL"
    by (simp add: example_dhcp_settings_def)
  ultimately have i: "dhcpClientReachable example_config example_dhcp_stopped"
    by (rule dhcpClientReachable.init [rotated])
  have "dhcpClientStart (Some example_dhcp_stopped) example_dhcp_world
    = (NO_ERROR, Some (example_dhcp_stopped\<lparr>running := True\<rparr>), example_dhcp_world)"
    by (simp add: dhcpClientStart_def example_dhcp_stopped_def dhcpClient_memset_0_def
        DHCP_STATE_INIT_def Let_def)
  with i have s: "dhcpClientReachable example_config (example_dhcp_stopped\<lparr>running := True\<rparr>)"
    by (rule dhcpClientReachable.start)
  have "dhcpClientStop (Some (example_dhcp_stopped\<lparr>running := True\<rparr>)) example_dhcp_world
    = (NO_ERROR, Some example_dhcp_stopped, example_dhcp_world)"
    by (simp add: dhcpClientStop_def example_dhcp_stopped_def dhcpClient_memset_0_def
        DHCP_STATE_INIT_def Let_def)
  with s show ?thesis by (rule dhcpClientReachable.stop)
qed

lemma example_dhcpv6_stopped_reachable:
  "dhcpv6ClientReachable example_config example_dhcpv6_stopped"
proof -
  define r where "r = dhcpv6ClientInit example_config (example_env 0)
    (Some example_dhcpv6_solicit_ctx) (Some example_dhcpv6_settings) example_dhcpv6_world"
  have zeros: "replicate 6 (0 :: byte) = [0, 0, 0, 0, 0, 0]"
    "replicate 16 (0 :: byte) = 0 # replicate 15 0"
    by (simp_all add: numeral_eq_Suc)
  have "fst (snd r) = Some example_dhcpv6_stopped"
    unfolding r_def
    by (simp add: dhcpv6ClientInit_def example_dhcpv6_stopped_def example_dhcpv6_world_def
        example_simps memcpy_def htons_def DHCPV6_DUID_LL_def DHCPV6_HARDWARE_TYPE_ETH_def
        DHCPV6_STATE_INIT_def Let_def zeros(1) zeros(2) [symmetric])
  then have "dhcpv6ClientInit example_config (example_env 0) (Some example_dhcpv6_solicit_ctx)
      (Some example_dhcpv6_settings) example_dhcpv6_world
    = (fst r, Some example_dhcpv6_stopped, snd (snd r))"
    unfolding r_def by (metis prod.collapse)
  moreover have "interface example_dhcpv6_settings \<noteq> NULL"
    by (simp add: example_dhcpv6_settings_def)
  ultimately have i: "dhcpv6ClientReachable example_config example_dhcpv6_stopped"
    by (rule dhcpv6ClientReachable.init [rotated])
  have "dhcpv6ClientStart (Some example_dhcpv6_stopped) example_dhcpv6_world
    = (NO_ERROR, Some (example_dhcpv6_stopped\<lparr>running := True\<rparr>), example_dhcpv6_world)"
    by (simp add: dhcpv6ClientStart_def example_dhcpv6_stopped_def example_simps
        DHCPV6_STATE_INIT_def Let_def)
  with i
  have s: "dhcpv6ClientReachable example_config (example_dhcpv6_stopped\<lparr>running := True\<rparr>)"
    by (rule dhcpv6ClientReachable.start)
  have "dhcpv6ClientStop (Some (example_dhcpv6_stopped\<lparr>running := True\<rparr>)) example_dhcpv6_world
    = (NO_ERROR, Some example_dhcpv6_stopped, example_dhcpv6_world)"
    by (simp add: dhcpv6ClientStop_def example_dhcpv6_stopped_def example_simps
        DHCPV6_STATE_INIT_def Let_def)
  with s show ?thesis by (rule dhcpv6ClientReachable.stop)
qed

text \<open>For every reachable context of a DHCP client with \<^verbatim>\<open>running\<close> false and every
  sequence of invocations of its timer handler, the client invokes no UDP or NDP send
  operation: a stopped context is in the INIT state, whose handler tests the
  \<^verbatim>\<open>running\<close> flag before anything else, so that the sequence of ticks leaves the
  context as it is and adds no send operation to the trace, whatever the clock, the
  random numbers and the interface are at each tick.\<close>

lemma dhcp_clients_stopped_send_nothing:
  "(dhcpClientReachable cfg c4 \<and> \<not> running c4 \<longrightarrow>
      state c4 = DHCP_STATE_INIT
      \<and> fst (dhcpClientTicks cfg steps4 c4 w4) = c4
      \<and> sends (snd (dhcpClientTicks cfg steps4 c4 w4)) = sends w4)
   \<and> (dhcpv6ClientReachable cfg c6 \<and> \<not> running c6 \<longrightarrow>
      state c6 = DHCPV6_STATE_INIT
      \<and> fst (dhcpv6ClientTicks steps6 c6 w6) = c6
      \<and> sends (snd (dhcpv6ClientTicks steps6 c6 w6)) = sends w6)"
proof (intro conjI impI)
  assume a: "dhcpClientReachable cfg c4 \<and> \<not> running c4"
  then show s: "state c4 = DHCP_STATE_INIT"
    using dhcpClientReachable_stopped_in_init by blast
  from a s show "fst (dhcpClientTicks cfg steps4 c4 w4) = c4"
    by (simp add: dhcpClientTicks_stopped)
  from a s show "sends (snd (dhcpClientTicks cfg steps4 c4 w4)) = sends w4"
    by (simp add: sends_def dhcpClientTicks_stopped)
next
  assume a: "dhcpv6ClientReachable cfg c6 \<and> \<not> running c6"
  then show s: "state c6 = DHCPV6_STATE_INIT"
    using dhcpv6ClientReachable_stopped_in_init by blast
  from a s show "fst (dhcpv6ClientTicks steps6 c6 w6) = c6"
    by (simp add: dhcpv6ClientTicks_stopped)
  from a s show "sends (snd (dhcpv6ClientTicks steps6 c6 w6)) = sends w6"
    by (simp add: sends_def dhcpv6ClientTicks_stopped)
qed

lemma dhcp_clients_stopped_send_nothing_example:
  "(dhcpClientReachable example_config example_dhcp_stopped \<and> \<not> running example_dhcp_stopped)
   \<and> sends (snd (dhcpClientTicks example_config example_ticks example_dhcp_stopped
        example_dhcp_world)) = sends example_dhcp_world
   \<and> (dhcpv6ClientReachable example_config example_dhcpv6_stopped
        \<and> \<not> running example_dhcpv6_stopped)
   \<and> sends (snd (dhcpv6ClientTicks example_ticks example_dhcpv6_stopped example_dhcpv6_world))
      = sends example_dhcpv6_world"
proof -
  have n: "\<not> running example_dhcp_stopped" "\<not> running example_dhcpv6_stopped"
    by (simp_all add: example_dhcp_stopped_def dhcpClient_memset_0_def
        example_dhcpv6_stopped_def example_simps)
  from dhcp_clients_stopped_send_nothing [of example_config example_dhcp_stopped example_ticks
      example_dhcp_world example_dhcpv6_stopped example_ticks example_dhcpv6_world]
    n example_dhcp_stopped_reachable example_dhcpv6_stopped_reachable
  show ?thesis by simp
qed

subsection \<open>SLAAC: a stop in the middle of a Router Advertisement\<close>

text \<open>\<^verbatim>\<open>slaacProcessRouterAdv\<close> is its tests followed, when they pass, by its writes.\<close>

lemma slaacProcessRouterAdv_parts:
  "slaacProcessRouterAdv e c w m l =
     (case slaacProcessRouterAdv_tests c w m l of
        (passed, w') \<Rightarrow> if passed then slaacProcessRouterAdv_writes e c w' m else (c, w'))"
  by (simp add: slaacProcessRouterAdv_def slaacProcessRouterAdv_tests_def
      slaacProcessRouterAdv_writes_def Let_def split: option.splits)

text \<open>In the INIT state a stopped engine does nothing on a tick.\<close>

lemma slaacTick_stopped:
  "\<not> running c \<Longrightarrow> state c = SLAAC_STATE_INIT \<Longrightarrow> slaacTick e c w = (c, w)"
  by (simp add: slaacTick_def Let_def)

lemma slaacStop_context:
  "slaacStop (Some c) w = (NO_ERROR, Some (c\<lparr>running := False, state := SLAAC_STATE_INIT\<rparr>), w)"
  by (simp add: slaacStop_def Let_def)

lemma slaacReachable_tick:
  "slaacReachable h c \<Longrightarrow> slaacReachable h (fst (slaacTick e c w))"
  by (erule slaacReachable.tick [where w' = "snd (slaacTick e c w)"]) simp

text \<open>The run of the example, step by step.\<close>

lemma example_slaacInit:
  "slaacInit (example_env 0) (Some (example_slaac_ctx 2)) (Some example_slaac_settings)
     example_slaac_world
   = (NO_ERROR, Some example_slaac_initialised, example_slaac_attached)"
  by (simp add: slaacInit_def example_slaac_initialised_def example_slaac_attached_def
      example_slaac_settings_def example_slaac_world_def example_env_def slaac_memset_0_def
      SLAAC_STATE_INIT_def Let_def)

lemma example_slaacStart:
  "slaacStart (Some example_slaac_initialised) example_slaac_attached
   = (NO_ERROR, Some (example_slaac_initialised\<lparr>running := True\<rparr>), example_slaac_attached)"
  by (simp add: slaacStart_def example_slaac_initialised_def slaac_memset_0_def
      SLAAC_STATE_INIT_def Let_def)

lemma example_slaac_initialised_reachable:
  "slaacReachable None example_slaac_initialised"
proof -
  have "interface example_slaac_settings \<noteq> NULL"
    by (simp add: example_slaac_settings_def)
  then show ?thesis
    using example_slaacInit by (rule slaacReachable.init)
qed

lemma example_slaac_soliciting_value:
  "example_slaac_soliciting =
     (example_slaac_initialised\<lparr>running := True, state := SLAAC_STATE_ROUTER_SOLICIT,
        timestamp := 2200, timeout := 855\<rparr>,
      \<lparr>netInterface = example_interface\<lparr>slaacContext := True,
          ipv6Config := (ipv6Config example_interface)
          \<lparr>linkLocalAddr := [0xFE, 0x80, 0, 0, 0, 0, 0, 0, 0x02, 0x11, 0x22, 0xFF, 0xFE, 0x33, 0x44, 0x55],
           linkLocalAddrState := IPV6_ADDR_STATE_PREFERRED\<rparr>\<rparr>,
       events = [NdpSendNeighborSol
          [0xFE, 0x80, 0, 0, 0, 0, 0, 0, 0x02, 0x11, 0x22, 0xFF, 0xFE, 0x33, 0x44, 0x55] True]\<rparr>)"
  by (simp add: example_slaac_soliciting_def example_slaac_initialised_def
      example_slaac_attached_def example_slaac_simps example_env_def slaacTick_def timeCompare_def netGetRandRange_def macAddrToEui64_def
      MAC_ADDR_FLAG_LOCAL_def ipv6SetLinkLocalAddrEx_def htons_def SLAAC_STATE_defs emit_def
      Let_def)

lemma example_slaac_soliciting_reachable:
  "slaacReachable None (fst example_slaac_soliciting)"
proof -
  from example_slaac_initialised_reachable example_slaacStart
  have "slaacReachable None (example_slaac_initialised\<lparr>running := True\<rparr>)"
    by (rule slaacReachable.start)
  then show ?thesis
    unfolding example_slaac_soliciting_def case_prod_beta
    by (intro slaacReachable_tick)
qed

lemma example_slaac_tests_pass:
  "slaacProcessRouterAdv_tests (fst example_slaac_soliciting) (snd example_slaac_soliciting)
     (example_ra [NDP_OPT_PREFIX_INFORMATION (example_pio True)]) 48
   = (True, emit (ParseRouterAdvCallback
        (example_ra [NDP_OPT_PREFIX_INFORMATION (example_pio True)]) 48)
        (snd example_slaac_soliciting))"
  unfolding example_slaac_soliciting_value
  by (simp add: slaacProcessRouterAdv_tests_def example_slaac_initialised_def example_slaac_simps
      ipv6CompPrefix_def IPV6_LINK_LOCAL_ADDR_PREFIX_def SLAAC_STATE_defs Let_def)

lemma example_slaac_stopped_in_receive_reachable:
  "slaacReachable None (fst example_slaac_stopped_in_receive)"
proof -
  from example_slaac_soliciting_reachable example_slaac_tests_pass
  have "slaacReachable (Some (example_ra [NDP_OPT_PREFIX_INFORMATION (example_pio True)]))
      (fst example_slaac_soliciting)"
    by (rule slaacReachable.receiveTests)
  then have "slaacReachable (Some (example_ra [NDP_OPT_PREFIX_INFORMATION (example_pio True)]))
      ((fst example_slaac_soliciting)\<lparr>running := False, state := SLAAC_STATE_INIT\<rparr>)"
    using slaacStop_context by (rule slaacReachable.stop)
  then show ?thesis
    unfolding example_slaac_stopped_in_receive_def
    by (rule slaacReachable.receiveWrites [OF _ prod.collapse [symmetric]])
qed

lemma example_slaac_stopped_in_receive_value:
  "example_slaac_stopped_in_receive =
     (example_slaac_initialised\<lparr>state := SLAAC_STATE_GLOBAL_ADDR_DAD, timestamp := 2500\<rparr>,
      \<lparr>netInterface = example_interface\<lparr>slaacContext := True,
          ipv6Config := (ipv6Config example_interface)
          \<lparr>linkLocalAddr := [0xFE, 0x80, 0, 0, 0, 0, 0, 0, 0x02, 0x11, 0x22, 0xFF, 0xFE, 0x33, 0x44, 0x55],
           linkLocalAddrState := IPV6_ADDR_STATE_PREFERRED,
           globalAddr := [0x20, 0x01, 0x0d, 0xb8, 0, 0, 0, 1, 0x02, 0x11, 0x22, 0xFF, 0xFE, 0x33, 0x44, 0x55],
           globalAddrState := IPV6_ADDR_STATE_TENTATIVE,
           prefix := [0x20, 0x01, 0x0d, 0xb8, 0, 0, 0, 1, 0, 0, 0, 0, 0, 0, 0, 0],
           prefixLength := 64\<rparr>\<rparr>,
       events = [NdpSendNeighborSol
          [0xFE, 0x80, 0, 0, 0, 0, 0, 0, 0x02, 0x11, 0x22, 0xFF, 0xFE, 0x33, 0x44, 0x55] True,
          ParseRouterAdvCallback
            (example_ra [NDP_OPT_PREFIX_INFORMATION (example_pio True)]) 48]\<rparr>)"
  unfolding example_slaac_stopped_in_receive_def example_slaac_tests_pass snd_conv
  unfolding example_slaac_soliciting_value fst_conv snd_conv
  by (simp add: slaacProcessRouterAdv_writes_def example_slaac_initialised_def example_slaac_simps
      example_env_def macAddrToEui64_def MAC_ADDR_FLAG_LOCAL_def ipv6SetPrefix_def
      ipv6SetGlobalAddrEx_def SLAAC_STATE_defs emit_def Let_def)

text \<open>Claim C5. For every reachable context with \<^verbatim>\<open>running\<close> false and every sequence
  of invocations of the timer handler, no engine invokes a UDP or NDP send operation.
  The SLAAC engine breaks this. The engine of the example, initialised and started, is
  running, in ROUTER-SOLICIT, when a Router Advertisement with an adoptable prefix passes the tests
  of \<^verbatim>\<open>slaacProcessRouterAdv\<close>. \<^verbatim>\<open>slaacStop\<close>, called then, returns with \<^verbatim>\<open>running\<close> false and
  the state INIT; the handler of the advertisement, which holds no mutex, goes on to
  write GLOBAL-ADDR-DAD into the state. The context that results is reachable and
  stopped, and the next invocation of the timer handler, at time 2600, sends a
  Neighbor Solicitation for the tentative global address.\<close>

theorem slaacStop_within_slaacProcessRouterAdv_lets_tick_send:
  "slaacInit (example_env 0) (Some (example_slaac_ctx 2)) (Some example_slaac_settings)
     example_slaac_world
   = (NO_ERROR, Some example_slaac_initialised, example_slaac_attached)
   \<and> slaacStart (Some example_slaac_initialised) example_slaac_attached
      = (NO_ERROR, Some (example_slaac_initialised\<lparr>running := True\<rparr>), example_slaac_attached)
   \<and> running (fst example_slaac_soliciting)
   \<and> state (fst example_slaac_soliciting) = SLAAC_STATE_ROUTER_SOLICIT
   \<and> fst (slaacProcessRouterAdv_tests (fst example_slaac_soliciting)
          (snd example_slaac_soliciting)
          (example_ra [NDP_OPT_PREFIX_INFORMATION (example_pio True)]) 48)
   \<and> slaacStop (Some (fst example_slaac_soliciting)) (snd example_slaac_soliciting)
      = (NO_ERROR,
         Some ((fst example_slaac_soliciting)\<lparr>running := False, state := SLAAC_STATE_INIT\<rparr>),
         snd example_slaac_soliciting)
   \<and> slaacReachable None (fst example_slaac_stopped_in_receive)
   \<and> \<not> running (fst example_slaac_stopped_in_receive)
   \<and> state (fst example_slaac_stopped_in_receive) = SLAAC_STATE_GLOBAL_ADDR_DAD
   \<and> sends (snd (slaacTicks
          [(example_env 2600, netInterface (snd example_slaac_stopped_in_receive))]
          (fst example_slaac_stopped_in_receive) (snd example_slaac_stopped_in_receive)))
      = sends (snd example_slaac_stopped_in_receive)
        @ [NdpSendNeighborSol
             [0x20, 0x01, 0x0d, 0xb8, 0, 0, 0, 1, 0x02, 0x11, 0x22, 0xFF, 0xFE, 0x33, 0x44, 0x55]
             True]"
proof (intro conjI)
  show "slaacInit (example_env 0) (Some (example_slaac_ctx 2)) (Some example_slaac_settings)
     example_slaac_world
   = (NO_ERROR, Some example_slaac_initialised, example_slaac_attached)"
    by (rule example_slaacInit)
  show "slaacStart (Some example_slaac_initialised) example_slaac_attached
      = (NO_ERROR, Some (example_slaac_initialised\<lparr>running := True\<rparr>), example_slaac_attached)"
    by (rule example_slaacStart)
  show "running (fst example_slaac_soliciting)"
    by (simp add: example_slaac_soliciting_value)
  show "state (fst example_slaac_soliciting) = SLAAC_STATE_ROUTER_SOLICIT"
    by (simp add: example_slaac_soliciting_value)
  show "fst (slaacProcessRouterAdv_tests (fst example_slaac_soliciting)
          (snd example_slaac_soliciting)
          (example_ra [NDP_OPT_PREFIX_INFORMATION (example_pio True)]) 48)"
    by (simp add: example_slaac_tests_pass)
  show "slaacStop (Some (fst example_slaac_soliciting)) (snd example_slaac_soliciting)
      = (NO_ERROR,
         Some ((fst example_slaac_soliciting)\<lparr>running := False, state := SLAAC_STATE_INIT\<rparr>),
         snd example_slaac_soliciting)"
    by (rule slaacStop_context)
  show "slaacReachable None (fst example_slaac_stopped_in_receive)"
    by (rule example_slaac_stopped_in_receive_reachable)
  show "\<not> running (fst example_slaac_stopped_in_receive)"
    by (simp add: example_slaac_stopped_in_receive_value example_slaac_initialised_def
        slaac_memset_0_def)
  show "state (fst example_slaac_stopped_in_receive) = SLAAC_STATE_GLOBAL_ADDR_DAD"
    by (simp add: example_slaac_stopped_in_receive_value)
  show "sends (snd (slaacTicks
          [(example_env 2600, netInterface (snd example_slaac_stopped_in_receive))]
          (fst example_slaac_stopped_in_receive) (snd example_slaac_stopped_in_receive)))
      = sends (snd example_slaac_stopped_in_receive)
        @ [NdpSendNeighborSol
             [0x20, 0x01, 0x0d, 0xb8, 0, 0, 0, 1, 0x02, 0x11, 0x22, 0xFF, 0xFE, 0x33, 0x44, 0x55]
             True]"
    unfolding example_slaac_stopped_in_receive_value
    by (simp add: sends_def slaacTick_def timeCompare_def example_slaac_initialised_def
        example_slaac_simps example_env_def SLAAC_STATE_defs emit_def Let_def)
qed

end
